theory Spec2Isabelle
  imports Main "HOL-Library.Multiset"
begin

section \<open>The file-conversion pipeline of svg-to-ts (lib/converters/files.converter.ts)\<close>

text \<open>
  The converter is an orchestrator: it calls collaborators of other modules (file helpers,
  code-snippet generators, the compiler, the logger) in an order that depends on the
  conversion options. The model keeps every call the source makes: the pure generators are
  functions of an environment record, every fallible collaborator is a transition on an
  abstract world that either returns or throws, and each call the converter performs is
  recorded in a trace, so that orderings and contents can be stated as properties of the trace.
\<close>

subsection \<open>Data\<close>

text \<open>A value thrown by a collaborator (a rejected promise or a synchronous exception).\<close>

datatype error = Thrown string

text \<open>\<open>FILE_TYPE\<close> of shared/file-type.model; the converter only refers to \<open>FILE_TYPE.TSX\<close>.\<close>

datatype FILE_TYPE = TSX

text \<open>
  \<open>SVG_TO_TS_COMPILATION_OUTPUT\<close>: the three members the \<open>switch\<close> names. At run time
  the option can hold any other value (it comes from the command line or a configuration
  file); \<open>Unrecognized v\<close> is such a value, \<open>v\<close> being its rendering in a template literal.
\<close>

datatype SVG_TO_TS_COMPILATION_OUTPUT = ESM | UMD | ESM_AND_UMD | Unrecognized string

text \<open>The fields of \<open>SvgDefinition\<close> that the converter reads or writes.\<close>

record SvgDefinition =
  variableName :: string
  typeName :: string
  data :: string
  prefix :: string
  filenameWithoutEnding :: string

text \<open>
  The fields of \<open>FilesConversionOptions\<close> that \<open>convertToFiles\<close> destructures. A field
  that may be absent is an option; \<open>None\<close> is JavaScript's \<open>undefined\<close>.
\<close>

record FilesConversionOptions =
  outputDirectory :: string
  modelFileName :: "string option"
  additionalModelOutputPath :: "string option"
  iconsFolderName :: string
  interfaceName :: "string option"
  compileSources :: bool
  exportCompleteIconSet :: bool
  completeIconSetName :: string
  compilationOutput :: SVG_TO_TS_COMPILATION_OUTPUT
  barrelFileName :: string
  generateType :: bool
  tsx :: bool

text \<open>\<open>if (x)\<close> on an optional string: \<open>undefined\<close> and the empty string are falsy.\<close>

fun truthy :: "string option \<Rightarrow> bool" where
  "truthy None = False"
| "truthy (Some s) = (s \<noteq> [])"

text \<open>An optional string inside a template literal.\<close>

fun js_str :: "string option \<Rightarrow> string" where
  "js_str None = ''undefined''"
| "js_str (Some s) = s"

subsection \<open>Calls, events and the state of a run\<close>

text \<open>The calls to fallible collaborators, with their arguments.\<close>

datatype call =
    DeleteFolder string
  | FilesProcessor FilesConversionOptions
  | WriteFile string "string option" string "FILE_TYPE option"
  | GenerateTSXConstant string string
  | GetFilePathsFromRegex "string list"
  | CompileToEsNext "string list" string
  | CompileToUMD "string list" string
  | DeleteFiles "string list"

text \<open>
  What a run leaves behind, in order: a call that returned, a call that threw, the start
  and the end of a monitored stage, and the three kinds of log line.
\<close>

datatype event =
    Performed call
  | Failed call error
  | StageStart string
  | StageEnd string
  | LogVerboseInfo string
  | LogError string
  | LogGenerationSuccess string

text \<open>
  The state of a run: the world outside the program (file system, compiler), the trace so
  far, and the choices the event loop will make among the operations in flight (which of
  them settles next). All three are arbitrary in every theorem.
\<close>

record 'w state =
  world :: 'w
  trace :: "event list"
  sched :: "nat list"

type_synonym ('w, 'a) io = "'w state \<Rightarrow> (error + 'a) \<times> 'w state"

text \<open>
  The collaborators imported by the converter. Their code is in other modules; the
  converter is verified for every choice of them. Generators of code snippets are pure;
  file helpers, ingestion, path lookup, the compiler and the asynchronous TSX generator act
  on the world and may throw. \<open>toUpperCase\<close> is \<open>String.prototype.toUpperCase\<close>.
\<close>

record 'w env =
  deleteFolder :: "string \<Rightarrow> 'w \<Rightarrow> (error + unit) \<times> 'w"
  deleteFiles :: "string list \<Rightarrow> 'w \<Rightarrow> (error + unit) \<times> 'w"
  writeFile :: "string \<Rightarrow> string option \<Rightarrow> string \<Rightarrow> FILE_TYPE option \<Rightarrow> 'w \<Rightarrow> (error + unit) \<times> 'w"
  filesProcessor :: "FilesConversionOptions \<Rightarrow> 'w \<Rightarrow> (error + SvgDefinition list) \<times> 'w"
  getFilePathsFromRegex :: "string list \<Rightarrow> 'w \<Rightarrow> (error + string list) \<times> 'w"
  compileToEsNext :: "string list \<Rightarrow> string \<Rightarrow> 'w \<Rightarrow> (error + unit) \<times> 'w"
  compileToUMD :: "string list \<Rightarrow> string \<Rightarrow> 'w \<Rightarrow> (error + unit) \<times> 'w"
  generateTSXConstant :: "string \<Rightarrow> string \<Rightarrow> 'w \<Rightarrow> (error + string) \<times> 'w"
  generateSvgConstant :: "string \<Rightarrow> string \<Rightarrow> string \<Rightarrow> string"
  generateExportStatement :: "string option \<Rightarrow> string \<Rightarrow> string"
  generateTypeHelperWithImport :: "string option \<Rightarrow> string \<Rightarrow> string option \<Rightarrow> string"
  generateTypeDefinition :: "FilesConversionOptions \<Rightarrow> SvgDefinition list \<Rightarrow> string"
  generateEnumDefinition :: "FilesConversionOptions \<Rightarrow> SvgDefinition list \<Rightarrow> string"
  generateInterfaceDefinition :: "FilesConversionOptions \<Rightarrow> string"
  generateCompleteIconSetContent ::
    "SvgDefinition list \<Rightarrow> string \<Rightarrow> string option \<Rightarrow> string option \<Rightarrow> bool \<Rightarrow> bool \<Rightarrow> string"
  toUpperCase :: "string \<Rightarrow> string"

subsection \<open>Sequencing with exceptions\<close>

definition ret :: "'a \<Rightarrow> ('w, 'a) io" where
  "ret x st = (Inr x, st)"

text \<open>\<open>bnd m f\<close>: run \<open>m\<close>; if it throws, nothing of \<open>f\<close> runs.\<close>

definition bnd :: "('w, 'a) io \<Rightarrow> ('a \<Rightarrow> ('w, 'b) io) \<Rightarrow> ('w, 'b) io" where
  "bnd m f st = (case m st of (Inl e, st') \<Rightarrow> (Inl e, st') | (Inr x, st') \<Rightarrow> f x st')"

definition emit :: "event \<Rightarrow> ('w, unit) io" where
  "emit ev st = (Inr (), st\<lparr>trace := trace st @ [ev]\<rparr>)"

text \<open>A call to a fallible collaborator: the world moves, the outcome is recorded.\<close>

definition perform :: "call \<Rightarrow> ('w \<Rightarrow> (error + 'a) \<times> 'w) \<Rightarrow> ('w, 'a) io" where
  "perform c op st =
     (case op (world st) of
        (Inl e, w) \<Rightarrow> (Inl e, st\<lparr>world := w, trace := trace st @ [Failed c e]\<rparr>)
      | (Inr x, w) \<Rightarrow> (Inr x, st\<lparr>world := w, trace := trace st @ [Performed c]\<rparr>))"

definition deleteFolderM :: "'w env \<Rightarrow> string \<Rightarrow> ('w, unit) io" where
  "deleteFolderM env path = perform (DeleteFolder path) (deleteFolder env path)"

definition deleteFilesM :: "'w env \<Rightarrow> string list \<Rightarrow> ('w, unit) io" where
  "deleteFilesM env paths = perform (DeleteFiles paths) (deleteFiles env paths)"

definition writeFileM ::
  "'w env \<Rightarrow> string \<Rightarrow> string option \<Rightarrow> string \<Rightarrow> FILE_TYPE option \<Rightarrow> ('w, unit) io" where
  "writeFileM env dir name content kind =
     perform (WriteFile dir name content kind) (writeFile env dir name content kind)"

definition filesProcessorM :: "'w env \<Rightarrow> FilesConversionOptions \<Rightarrow> ('w, SvgDefinition list) io" where
  "filesProcessorM env opts = perform (FilesProcessor opts) (filesProcessor env opts)"

definition getFilePathsFromRegexM :: "'w env \<Rightarrow> string list \<Rightarrow> ('w, string list) io" where
  "getFilePathsFromRegexM env patterns =
     perform (GetFilePathsFromRegex patterns) (getFilePathsFromRegex env patterns)"

definition compileToEsNextM :: "'w env \<Rightarrow> string list \<Rightarrow> string \<Rightarrow> ('w, unit) io" where
  "compileToEsNextM env paths out = perform (CompileToEsNext paths out) (compileToEsNext env paths out)"

definition compileToUMDM :: "'w env \<Rightarrow> string list \<Rightarrow> string \<Rightarrow> ('w, unit) io" where
  "compileToUMDM env paths out = perform (CompileToUMD paths out) (compileToUMD env paths out)"

definition generateTSXConstantM :: "'w env \<Rightarrow> string \<Rightarrow> string \<Rightarrow> ('w, string) io" where
  "generateTSXConstantM env v d = perform (GenerateTSXConstant v d) (generateTSXConstant env v d)"

text \<open>
  Modelled from the spec: helpers/monitor (\<open>callAndMonitorAsync\<close>, \<open>callAndMonitor\<close>) is
  not among the sources. The spec: each stage is wrapped with a named monitoring boundary
  that records stage duration and label but does not alter stage semantics or catch stage
  errors. The boundary is recorded as a start and an end event carrying the label; a stage
  that throws has no end event.
\<close>

definition callAndMonitorAsync :: "('w, 'a) io \<Rightarrow> string \<Rightarrow> ('w, 'a) io" where
  "callAndMonitorAsync fn label =
     bnd (emit (StageStart label)) (\<lambda>_. bnd fn (\<lambda>r. bnd (emit (StageEnd label)) (\<lambda>_. ret r)))"

text \<open>
  Modelled from the spec: \<open>callAndMonitor\<close> of helpers/monitor, the same boundary around
  a synchronous call. Its only use is around the pure type-helper generator, whose value is
  the argument \<open>v\<close>.
\<close>

definition callAndMonitor :: "'a \<Rightarrow> string \<Rightarrow> ('w, 'a) io" where
  "callAndMonitor v label =
     bnd (emit (StageStart label)) (\<lambda>_. bnd (emit (StageEnd label)) (\<lambda>_. ret v))"

subsection \<open>The per-icon callbacks and \<open>Promise.all\<close>\<close>

text \<open>The local constant \<open>generatedFileName\<close> of both callbacks (lines 127 and 147).\<close>

definition generatedFileName :: "SvgDefinition \<Rightarrow> string" where
  "generatedFileName d = prefix d @ ''-'' @ filenameWithoutEnding d @ ''.icon''"

text \<open>
  Lines 144-145: \<open>variableName.charAt(0).toUpperCase() + variableName.slice(1)\<close>, assigned
  to the field of the definition itself. \<open>charAt(0)\<close> of the empty string is empty.
\<close>

definition capitalize :: "'w env \<Rightarrow> string \<Rightarrow> string" where
  "capitalize env v = toUpperCase env (take 1 v) @ drop 1 v"

definition capitalizeVariableName :: "'w env \<Rightarrow> SvgDefinition \<Rightarrow> SvgDefinition" where
  "capitalizeVariableName env d = d\<lparr>variableName := capitalize env (variableName d)\<rparr>"

text \<open>
  An \<open>async\<close> callback runs synchronously up to its first \<open>await\<close> and is resumed when the
  awaited operation settles. A task is a suspended callback: the operation it awaits and
  what it needs to go on.
  \<^item> \<open>SvgAwaitWrite\<close>: the callback of \<open>generateSVGConstants\<close>, suspended at line 129;
  \<^item> \<open>TsxAwaitConstant\<close>: the callback of \<open>generateTSXFileConstants\<close>, suspended at line 146;
  \<^item> \<open>TsxAwaitWrite\<close>: the same callback, suspended at line 149.
\<close>

datatype task =
    SvgAwaitWrite string string string string
  | TsxAwaitConstant string string SvgDefinition
  | TsxAwaitWrite string string string string

text \<open>
  \<open>resume\<close> settles the awaited operation of a task and runs the callback to its next
  \<open>await\<close> (the task it returns) or to its end (\<open>None\<close>). \<open>names\<close> is the array
  \<open>generatedFileNames\<close> shared by the callbacks of one stage.
\<close>

fun resume :: "'w env \<Rightarrow> task \<Rightarrow> string list \<Rightarrow> ('w, task option \<times> string list) io" where
  "resume env (SvgAwaitWrite outDir icons name svgConstant) names =
     bnd (writeFileM env (outDir @ ''/'' @ icons) (Some name) svgConstant None) (\<lambda>_.
     bnd (emit (LogVerboseInfo (''write file svg: '' @ outDir @ ''/'' @ icons @ ''/'' @ name @ ''.ts''))) (\<lambda>_.
     ret (None, names)))"
| "resume env (TsxAwaitConstant outDir icons d) names =
     bnd (generateTSXConstantM env (variableName d) (data d)) (\<lambda>tsxConstant.
     ret (Some (TsxAwaitWrite outDir icons (generatedFileName d) tsxConstant),
          names @ [generatedFileName d]))"
| "resume env (TsxAwaitWrite outDir icons name tsxConstant) names =
     bnd (writeFileM env (outDir @ ''/'' @ icons) (Some name) tsxConstant (Some TSX)) (\<lambda>_.
     bnd (emit (LogVerboseInfo (''write file svg: '' @ outDir @ ''/'' @ icons @ ''/'' @ name @ ''.tsx''))) (\<lambda>_.
     ret (None, names)))"

text \<open>The number of operations a task still awaits.\<close>

fun awaits :: "task \<Rightarrow> nat" where
  "awaits (SvgAwaitWrite _ _ _ _) = 1"
| "awaits (TsxAwaitConstant _ _ _) = 2"
| "awaits (TsxAwaitWrite _ _ _ _) = 1"

text \<open>The event loop's choice among \<open>n\<close> operations in flight.\<close>

definition nextSettled :: "nat \<Rightarrow> 'w state \<Rightarrow> nat \<times> 'w state" where
  "nextSettled n st = (case sched st of [] \<Rightarrow> (0, st) | c # cs \<Rightarrow> (c mod n, st\<lparr>sched := cs\<rparr>))"

definition settled :: "nat \<Rightarrow> task option \<Rightarrow> task list \<Rightarrow> task list" where
  "settled k t pending =
     take k pending @ (case t of None \<Rightarrow> [] | Some t' \<Rightarrow> [t']) @ drop (Suc k) pending"

lemma nextSettled_less: "pending \<noteq> [] \<Longrightarrow> fst (nextSettled (length pending) st) < length pending"
  by (simp add: nextSettled_def split: list.splits)

lemma resume_awaits:
  "resume env t names st = (Inr (t', names'), st') \<Longrightarrow>
   (case t' of None \<Rightarrow> 0 | Some u \<Rightarrow> awaits u) < awaits t"
  by (cases t) (auto simp: bnd_def ret_def split: prod.splits sum.splits)

lemma sum_awaits_settled:
  assumes "k < length pending"
    and "(case t of None \<Rightarrow> 0 | Some u \<Rightarrow> awaits u) < awaits (pending ! k)"
  shows "sum_list (map awaits (settled k t pending)) < sum_list (map awaits pending)"
proof -
  have "pending = take k pending @ (pending ! k) # drop (Suc k) pending"
    using assms(1) by (simp add: id_take_nth_drop)
  then have "sum_list (map awaits pending) =
      sum_list (map awaits (take k pending)) + awaits (pending ! k)
      + sum_list (map awaits (drop (Suc k) pending))"
    by (metis (no_types) add.assoc list.simps(9) map_append sum_list.Cons sum_list_append)
  then show ?thesis
    using assms(2) by (cases t) (simp_all add: settled_def)
qed

text \<open>
  \<open>await Promise.all(tasks)\<close>: while operations are in flight, one of them settles and its
  callback goes on. An awaited operation acts on the world, and enters the trace, at the
  moment it settles; which operation settles next is the choice of the event loop. The first
  rejection rejects the whole: the loop returns the state at that moment, which is the state
  in which \<open>convertToFiles\<close> itself rejects (the callbacks still in flight are not
  followed further). When every callback has finished, the result is the array of names.
\<close>

function promiseAll :: "'w env \<Rightarrow> task list \<Rightarrow> string list \<Rightarrow> ('w, string list) io" where
  "promiseAll env pending names st =
     (if pending = [] then (Inr names, st)
      else (case nextSettled (length pending) st of (k, st1) \<Rightarrow>
             (case resume env (pending ! k) names st1 of
                (Inl e, st2) \<Rightarrow> (Inl e, st2)
              | (Inr (t, names'), st2) \<Rightarrow> promiseAll env (settled k t pending) names' st2)))"
  by pat_completeness auto
termination
proof (relation "measure (\<lambda>(env, pending, names, st). sum_list (map awaits pending))", goal_cases)
  case 1
  show ?case by simp
next
  case (2 env pending names st k st1 r st2 b t names')
  from 2(1,2) have k: "k < length pending"
    using nextSettled_less [of pending st] by (metis fst_conv)
  from 2(3,4,5) have "resume env (pending ! k) names st1 = (Inr (t, names'), st2)"
    by simp
  from sum_awaits_settled [OF k resume_awaits [OF this]] show ?case
    by simp
qed

declare promiseAll.simps [simp del]

text \<open>
  \<open>generateSVGConstants\<close> (lines 118-134). The synchronous part of every callback runs
  first, in the order of the array: the constant is generated, the name is pushed, the
  write is started. Then the writes settle.
\<close>

definition generateSVGConstants ::
  "'w env \<Rightarrow> SvgDefinition list \<Rightarrow> string \<Rightarrow> string \<Rightarrow> ('w, string list) io" where
  "generateSVGConstants env svgDefinitions outDir icons =
     promiseAll env
       (map (\<lambda>d. SvgAwaitWrite outDir icons (generatedFileName d)
                   (generateSvgConstant env (variableName d) (typeName d) (data d)))
            svgDefinitions)
       (map generatedFileName svgDefinitions)"

text \<open>
  \<open>generateTSXFileConstants\<close> (lines 136-155). The synchronous part of every callback
  assigns the capitalized variable name to its definition and starts the TSX generator; the
  name is pushed when the generator has settled. The array is mutated in place, so the model
  returns it next to the names.
\<close>

definition generateTSXFileConstants ::
  "'w env \<Rightarrow> SvgDefinition list \<Rightarrow> string \<Rightarrow> string \<Rightarrow> ('w, string list \<times> SvgDefinition list) io" where
  "generateTSXFileConstants env svgDefinitions outDir icons =
     (let mutated = map (capitalizeVariableName env) svgDefinitions in
      bnd (promiseAll env (map (TsxAwaitConstant outDir icons) mutated) [])
          (\<lambda>generatedFileNames. ret (generatedFileNames, mutated)))"

subsection \<open>The other generators and the compiler dispatch\<close>

text \<open>\<open>generateCompleteIconSet\<close> (lines 157-176).\<close>

definition generateCompleteIconSet ::
  "'w env \<Rightarrow> SvgDefinition list \<Rightarrow> string \<Rightarrow> string \<Rightarrow> string \<Rightarrow> string option \<Rightarrow> string option
     \<Rightarrow> bool \<Rightarrow> bool \<Rightarrow> ('w, unit) io" where
  "generateCompleteIconSet env svgDefinitions outDir icons cisName iface model genType tsxFlag =
     (let completeIconSetContent =
            generateCompleteIconSetContent env svgDefinitions cisName iface model genType tsxFlag
      in writeFileM env (outDir @ ''/'' @ icons) (Some cisName) completeIconSetContent None)"

text \<open>
  \<open>generateModelFile\<close> (lines 178-200). The three blocks are generated in the order type,
  enum, interface and concatenated in the order type, interface, enum.
\<close>

definition generateModelFile ::
  "'w env \<Rightarrow> FilesConversionOptions \<Rightarrow> SvgDefinition list \<Rightarrow> ('w, string) io" where
  "generateModelFile env conversionOptions svgDefinitions =
     (let outDir = outputDirectory conversionOptions;
          model = modelFileName conversionOptions;
          additional = additionalModelOutputPath conversionOptions;
          icons = iconsFolderName conversionOptions;
          typeDefinition = generateTypeDefinition env conversionOptions svgDefinitions;
          enumDefinition = generateEnumDefinition env conversionOptions svgDefinitions;
          interfaceDefinition = generateInterfaceDefinition env conversionOptions;
          modelFile = typeDefinition @ interfaceDefinition @ enumDefinition
      in
      bnd (writeFileM env (outDir @ ''/'' @ icons) model modelFile None) (\<lambda>_.
      bnd (emit (LogVerboseInfo (''model-file successfully generated under '' @ outDir @ ''/''
                   @ icons @ ''/'' @ js_str model @ ''.ts''))) (\<lambda>_.
      bnd (if truthy additional
           then bnd (writeFileM env (js_str additional) model modelFile None) (\<lambda>_.
                emit (LogVerboseInfo (''additional model-file successfully generated under ''
                   @ js_str additional @ ''/'' @ js_str model @ ''.ts'')))
           else ret ()) (\<lambda>_.
      ret modelFile))))"

text \<open>The message of the \<open>default\<close> branch (lines 228-229); the literal spans two lines.\<close>

definition invalidCompilationOutput :: "string \<Rightarrow> string" where
  "invalidCompilationOutput v =
     ''Please provide a valid Compilation output. You provided '' @ v @ '' but '' @ [CHR 0x0A]
     @ ''            valid values are (ESM, UMD, ESM_AND_UMD).''"

text \<open>
  \<open>compileTypeScriptToJS\<close> (lines 202-232). Only the path lookup and the last
  \<open>deleteFolder\<close> are awaited; the compiler calls and \<open>deleteFiles\<close> are plain statements,
  which run (and may throw) in place.
\<close>

definition compileTypeScriptToJS ::
  "'w env \<Rightarrow> string \<Rightarrow> string \<Rightarrow> string \<Rightarrow> SVG_TO_TS_COMPILATION_OUTPUT \<Rightarrow> ('w, unit) io" where
  "compileTypeScriptToJS env outDir icons barrel output =
     bnd (getFilePathsFromRegexM env
            [outDir @ ''/'' @ icons @ ''/*.ts'', outDir @ ''/'' @ barrel @ ''.ts''])
         (\<lambda>generatedTypeScriptFilePaths.
     case output of
       ESM \<Rightarrow>
         bnd (compileToEsNextM env generatedTypeScriptFilePaths outDir) (\<lambda>_.
         deleteFilesM env generatedTypeScriptFilePaths)
     | UMD \<Rightarrow>
         bnd (compileToUMDM env generatedTypeScriptFilePaths outDir) (\<lambda>_.
         deleteFilesM env generatedTypeScriptFilePaths)
     | ESM_AND_UMD \<Rightarrow>
         bnd (compileToEsNextM env generatedTypeScriptFilePaths (outDir @ ''/esm'')) (\<lambda>_.
         bnd (compileToUMDM env generatedTypeScriptFilePaths (outDir @ ''/umd'')) (\<lambda>_.
         bnd (deleteFilesM env generatedTypeScriptFilePaths) (\<lambda>_.
         deleteFolderM env (outDir @ ''/build''))))
     | Unrecognized v \<Rightarrow> emit (LogError (invalidCompilationOutput v)))"

subsection \<open>The pipeline\<close>

text \<open>
  \<open>convertToFiles\<close> (lines 24-116) is one sequence of awaited stages. The model cuts it at
  the blank lines of the source into the parts below and composes them in the same order;
  the names of the parts are the model's, the labels are the source's.
\<close>

text \<open>Lines 39-46: reset of the icons folder, then ingestion.\<close>

definition ingest :: "'w env \<Rightarrow> FilesConversionOptions \<Rightarrow> ('w, SvgDefinition list) io" where
  "ingest env conversionOptions =
     bnd (callAndMonitorAsync
            (deleteFolderM env (outputDirectory conversionOptions @ ''/'' @ iconsFolderName conversionOptions))
            ''Deleting the output folder'') (\<lambda>_.
     callAndMonitorAsync (filesProcessorM env conversionOptions) ''Processing SVG files'')"

text \<open>
  Lines 48-60: the per-icon files, by one of the two generators. The result is the array
  \<open>generatedFileNames\<close> and the array of definitions as the generator leaves it.
\<close>

definition generateConstants ::
  "'w env \<Rightarrow> FilesConversionOptions \<Rightarrow> SvgDefinition list \<Rightarrow> ('w, string list \<times> SvgDefinition list) io" where
  "generateConstants env conversionOptions svgDefinitions =
     (if tsx conversionOptions
      then callAndMonitorAsync
             (generateTSXFileConstants env svgDefinitions (outputDirectory conversionOptions)
                (iconsFolderName conversionOptions))
             ''Generate TSX constants''
      else bnd (callAndMonitorAsync
                  (generateSVGConstants env svgDefinitions (outputDirectory conversionOptions)
                     (iconsFolderName conversionOptions))
                  ''Generate SVG constants'')
               (\<lambda>generatedFileNames. ret (generatedFileNames, svgDefinitions)))"

text \<open>Lines 62-78: the complete icon set; its name is pushed after the awaited write.\<close>

definition exportCompleteSet ::
  "'w env \<Rightarrow> FilesConversionOptions \<Rightarrow> string list \<Rightarrow> SvgDefinition list \<Rightarrow> ('w, string list) io" where
  "exportCompleteSet env conversionOptions generatedFileNames svgDefinitions =
     (if exportCompleteIconSet conversionOptions
      then bnd (callAndMonitorAsync
                  (generateCompleteIconSet env svgDefinitions (outputDirectory conversionOptions)
                     (iconsFolderName conversionOptions) (completeIconSetName conversionOptions)
                     (interfaceName conversionOptions) (modelFileName conversionOptions)
                     (generateType conversionOptions) (tsx conversionOptions))
                  ''Export complete icon set'')
               (\<lambda>_. ret (generatedFileNames @ [completeIconSetName conversionOptions]))
      else ret generatedFileNames)"

text \<open>Lines 39-78 together: everything that happens before the barrel file is assembled.\<close>

definition generatedFiles ::
  "'w env \<Rightarrow> FilesConversionOptions \<Rightarrow> ('w, string list \<times> SvgDefinition list) io" where
  "generatedFiles env conversionOptions =
     bnd (ingest env conversionOptions) (\<lambda>ingested.
     bnd (generateConstants env conversionOptions ingested) (\<lambda>(perIconNames, svgDefinitions).
     bnd (exportCompleteSet env conversionOptions perIconNames svgDefinitions) (\<lambda>generatedFileNames.
     ret (generatedFileNames, svgDefinitions))))"

text \<open>Lines 80-93: the barrel file.\<close>

definition barrelFile :: "'w env \<Rightarrow> FilesConversionOptions \<Rightarrow> string list \<Rightarrow> ('w, unit) io" where
  "barrelFile env conversionOptions generatedFileNames =
     bnd (callAndMonitor
            (generateTypeHelperWithImport env (interfaceName conversionOptions)
               (iconsFolderName conversionOptions) (modelFileName conversionOptions))
            ''Generate Type Helper'') (\<lambda>typeHelper.
     callAndMonitorAsync
       (writeFileM env (outputDirectory conversionOptions) (Some (barrelFileName conversionOptions))
          (typeHelper
           @ concat (map (\<lambda>name. generateExportStatement env (Some name) (iconsFolderName conversionOptions))
                       generatedFileNames)
           @ generateExportStatement env (modelFileName conversionOptions) (iconsFolderName conversionOptions))
          None)
       ''Generate barrel file'')"

text \<open>Lines 95-107: the model file, and its copy written by the pipeline itself.\<close>

definition modelFiles :: "'w env \<Rightarrow> FilesConversionOptions \<Rightarrow> SvgDefinition list \<Rightarrow> ('w, unit) io" where
  "modelFiles env conversionOptions svgDefinitions =
     (if truthy (modelFileName conversionOptions)
      then bnd (callAndMonitorAsync (generateModelFile env conversionOptions svgDefinitions)
                  ''Generate model file'') (\<lambda>modelFile.
           if truthy (additionalModelOutputPath conversionOptions)
           then callAndMonitorAsync
                  (writeFileM env (js_str (additionalModelOutputPath conversionOptions))
                     (modelFileName conversionOptions) modelFile None)
                  ''Write model file to additional output path''
           else ret ())
      else ret ())"

text \<open>Lines 109-114: the compilation.\<close>

definition compileGenerated :: "'w env \<Rightarrow> FilesConversionOptions \<Rightarrow> ('w, unit) io" where
  "compileGenerated env conversionOptions =
     (if compileSources conversionOptions
      then callAndMonitorAsync
             (compileTypeScriptToJS env (outputDirectory conversionOptions)
                (iconsFolderName conversionOptions) (barrelFileName conversionOptions)
                (compilationOutput conversionOptions))
             ''Compile TypeScript to JavaScript''
      else ret ())"

text \<open>
  The whole of \<open>convertToFiles\<close>, ending with line 115. The source returns nothing; the
  model returns the array of definitions as the run leaves it, which is how the in-place
  assignment of the TSX callbacks stays visible.
\<close>

definition convertToFiles ::
  "'w env \<Rightarrow> FilesConversionOptions \<Rightarrow> ('w, SvgDefinition list) io" where
  "convertToFiles env conversionOptions =
     bnd (generatedFiles env conversionOptions) (\<lambda>(generatedFileNames, svgDefinitions).
     bnd (barrelFile env conversionOptions generatedFileNames) (\<lambda>_.
     bnd (modelFiles env conversionOptions svgDefinitions) (\<lambda>_.
     bnd (compileGenerated env conversionOptions) (\<lambda>_.
     bnd (emit (LogGenerationSuccess (outputDirectory conversionOptions))) (\<lambda>_.
     ret svgDefinitions)))))"

subsection \<open>Reading a trace\<close>

text \<open>The events a run has added to the trace it started with.\<close>

definition newEvents :: "'w state \<Rightarrow> 'w state \<Rightarrow> event list" where
  "newEvents st st' = drop (length (trace st)) (trace st')"

text \<open>The calls that returned, in order.\<close>

fun performedCall :: "event \<Rightarrow> call list" where
  "performedCall (Performed c) = [c]"
| "performedCall _ = []"

definition performedCalls :: "event list \<Rightarrow> call list" where
  "performedCalls evs = concat (map performedCall evs)"

text \<open>The files written, without their content: directory, name and file kind.\<close>

fun writtenFile :: "event \<Rightarrow> (string \<times> string option \<times> FILE_TYPE option) list" where
  "writtenFile (Performed (WriteFile dir name content kind)) = [(dir, name, kind)]"
| "writtenFile _ = []"

definition writtenFiles :: "event list \<Rightarrow> (string \<times> string option \<times> FILE_TYPE option) list" where
  "writtenFiles evs = concat (map writtenFile evs)"

text \<open>The arguments (variable name, data) of the TSX generator's calls that returned.\<close>

fun tsxGeneration :: "event \<Rightarrow> (string \<times> string) list" where
  "tsxGeneration (Performed (GenerateTSXConstant v d)) = [(v, d)]"
| "tsxGeneration _ = []"

definition tsxGenerations :: "event list \<Rightarrow> (string \<times> string) list" where
  "tsxGenerations evs = concat (map tsxGeneration evs)"

text \<open>The writes that returned, in order, with their content.\<close>

fun writeCall :: "event \<Rightarrow> call list" where
  "writeCall (Performed (WriteFile dir name content kind)) = [WriteFile dir name content kind]"
| "writeCall _ = []"

definition writeCalls :: "event list \<Rightarrow> call list" where
  "writeCalls evs = concat (map writeCall evs)"

text \<open>Stage boundaries and the final success line, as opposed to what happens inside a stage.\<close>

fun isMarker :: "event \<Rightarrow> bool" where
  "isMarker (StageStart _) = True"
| "isMarker (StageEnd _) = True"
| "isMarker (LogGenerationSuccess _) = True"
| "isMarker _ = False"

fun isFailed :: "event \<Rightarrow> bool" where
  "isFailed (Failed _ _) = True"
| "isFailed _ = False"

text \<open>What a suspended callback will still do: the file it writes, the generator call it
  awaits, the name it pushes, and (for the SVG callback, whose content is fixed) its write.\<close>

fun taskFile :: "task \<Rightarrow> string \<times> string option \<times> FILE_TYPE option" where
  "taskFile (SvgAwaitWrite outDir icons name c) = (outDir @ ''/'' @ icons, Some name, None)"
| "taskFile (TsxAwaitConstant outDir icons d) =
     (outDir @ ''/'' @ icons, Some (generatedFileName d), Some TSX)"
| "taskFile (TsxAwaitWrite outDir icons name c) = (outDir @ ''/'' @ icons, Some name, Some TSX)"

fun taskGenerations :: "task \<Rightarrow> (string \<times> string) list" where
  "taskGenerations (TsxAwaitConstant outDir icons d) = [(variableName d, data d)]"
| "taskGenerations _ = []"

fun taskNames :: "task \<Rightarrow> string list" where
  "taskNames (TsxAwaitConstant outDir icons d) = [generatedFileName d]"
| "taskNames _ = []"

fun taskCalls :: "task \<Rightarrow> call list" where
  "taskCalls (SvgAwaitWrite outDir icons name c) =
     [WriteFile (outDir @ ''/'' @ icons) (Some name) c None]"
| "taskCalls _ = []"

text \<open>The write a suspended callback makes before it ends: fixed for a callback that
  awaits its write; for a TSX callback that still awaits the generator, a write of what the
  generator returns (in some world) for the variable name and the data of its definition.\<close>

fun taskWrite :: "'w env \<Rightarrow> task \<Rightarrow> call \<Rightarrow> bool" where
  "taskWrite env (SvgAwaitWrite outDir icons name content) c =
     (c = WriteFile (outDir @ ''/'' @ icons) (Some name) content None)"
| "taskWrite env (TsxAwaitConstant outDir icons d) c =
     (\<exists>content w w'. generateTSXConstant env (variableName d) (data d) w = (Inr content, w')
        \<and> c = WriteFile (outDir @ ''/'' @ icons) (Some (generatedFileName d)) content (Some TSX))"
| "taskWrite env (TsxAwaitWrite outDir icons name content) c =
     (c = WriteFile (outDir @ ''/'' @ icons) (Some name) content (Some TSX))"

fun isSvgTask :: "task \<Rightarrow> bool" where
  "isSvgTask (SvgAwaitWrite _ _ _ _) = True"
| "isSvgTask _ = False"

subsection \<open>Stages in a trace\<close>

text \<open>
  The calls of each stage, by its label: the reset deletes the icons folder; the ingestion
  calls \<open>filesProcessor\<close> on the options; the per-icon stage writes named files into the
  icons folder (with the kind \<open>TSX\<close>, and calling the TSX generator, in TSX mode); the
  complete icon set and the barrel file are one write each; the model stage writes the model
  file name into the icons folder or the additional path; the compilation looks up the two
  patterns, compiles, deletes files and deletes the build folder.
\<close>

definition stageCall :: "FilesConversionOptions \<Rightarrow> string \<Rightarrow> call \<Rightarrow> bool" where
  "stageCall opts l c =
     (let iconsDir = outputDirectory opts @ ''/'' @ iconsFolderName opts in
      case c of
        DeleteFolder path \<Rightarrow>
          (l = ''Deleting the output folder'' \<and> path = iconsDir) \<or>
          (l = ''Compile TypeScript to JavaScript'' \<and> path = outputDirectory opts @ ''/build'')
      | FilesProcessor given \<Rightarrow> l = ''Processing SVG files'' \<and> given = opts
      | WriteFile dir name content kind \<Rightarrow>
          (l = ''Generate SVG constants'' \<and> dir = iconsDir \<and> name \<noteq> None \<and> kind = None) \<or>
          (l = ''Generate TSX constants'' \<and> dir = iconsDir \<and> name \<noteq> None \<and> kind = Some TSX) \<or>
          (l = ''Export complete icon set'' \<and> dir = iconsDir
             \<and> name = Some (completeIconSetName opts) \<and> kind = None) \<or>
          (l = ''Generate barrel file'' \<and> dir = outputDirectory opts
             \<and> name = Some (barrelFileName opts) \<and> kind = None) \<or>
          (l = ''Generate model file''
             \<and> (dir = iconsDir \<or> dir = js_str (additionalModelOutputPath opts))
             \<and> name = modelFileName opts \<and> kind = None) \<or>
          (l = ''Write model file to additional output path''
             \<and> dir = js_str (additionalModelOutputPath opts)
             \<and> name = modelFileName opts \<and> kind = None)
      | GenerateTSXConstant v d \<Rightarrow> l = ''Generate TSX constants''
      | GetFilePathsFromRegex patterns \<Rightarrow>
          l = ''Compile TypeScript to JavaScript'' \<and>
          patterns = [outputDirectory opts @ ''/'' @ iconsFolderName opts @ ''/*.ts'',
                      outputDirectory opts @ ''/'' @ barrelFileName opts @ ''.ts'']
      | CompileToEsNext paths out \<Rightarrow> l = ''Compile TypeScript to JavaScript''
      | CompileToUMD paths out \<Rightarrow> l = ''Compile TypeScript to JavaScript''
      | DeleteFiles paths \<Rightarrow> l = ''Compile TypeScript to JavaScript'')"

text \<open>What may stand between the start and the end of a completed stage: calls of the
  stage that returned, and verbose or error log lines.\<close>

fun inStage :: "FilesConversionOptions \<Rightarrow> string \<Rightarrow> event \<Rightarrow> bool" where
  "inStage opts l (Performed c) = stageCall opts l c"
| "inStage opts l (LogVerboseInfo _) = True"
| "inStage opts l (LogError _) = True"
| "inStage opts l _ = False"

text \<open>
  The write of the per-icon callback for a definition \<open>d\<close> as ingested, into the directory
  \<open>dir\<close>. In SVG mode (lines 126-129) the content is \<open>generateSvgConstant\<close> of the variable
  name, the type name and the data. In TSX mode (lines 144-149) the content is what
  \<open>generateTSXConstant\<close> returned (in some world) for the capitalized variable name and the
  data, the type name is not used, and the file kind is \<open>TSX\<close>.
\<close>

definition svgWrite :: "'w env \<Rightarrow> string \<Rightarrow> SvgDefinition \<Rightarrow> call" where
  "svgWrite env dir d =
     WriteFile dir (Some (generatedFileName d))
       (generateSvgConstant env (variableName d) (typeName d) (data d)) None"

definition tsxWrite :: "'w env \<Rightarrow> string \<Rightarrow> SvgDefinition \<Rightarrow> call \<Rightarrow> bool" where
  "tsxWrite env dir d c =
     (\<exists>content w w'.
        generateTSXConstant env (capitalize env (variableName d)) (data d) w = (Inr content, w')
        \<and> c = WriteFile dir (Some (generatedFileName d)) content (Some TSX))"

text \<open>
  The definitions a run from the state \<open>st\<close> ingests (lines 39-46): what \<open>filesProcessor\<close>
  returns in the world the reset of the icons folder leaves; none when one of the two throws.
\<close>

definition ingestedBy :: "'w env \<Rightarrow> FilesConversionOptions \<Rightarrow> 'w state \<Rightarrow> SvgDefinition list" where
  "ingestedBy env opts st =
     (case deleteFolder env (outputDirectory opts @ ''/'' @ iconsFolderName opts) (world st) of
        (Inl _, _) \<Rightarrow> []
      | (Inr _, w0) \<Rightarrow>
          (case filesProcessor env opts w0 of
             (Inl _, _) \<Rightarrow> []
           | (Inr ingested, _) \<Rightarrow> ingested))"

text \<open>A stage in the trace: its label and the events between its start and its end.\<close>

definition stageBlock :: "string \<times> event list \<Rightarrow> event list" where
  "stageBlock lb = StageStart (fst lb) # snd lb @ [StageEnd (fst lb)]"

text \<open>
  What a stage that has completed has done, by its label, in a run that ingested the
  definitions \<open>ingested\<close>:
  \<^item> the reset: the one call that deletes the icons folder (lines 39-42);
  \<^item> the ingestion: the one call of \<open>filesProcessor\<close> on the options (lines 43-46);
  \<^item> the per-icon stage in SVG mode (lines 56-59, 118-134): calls of the stage and log
    lines only, the calls being exactly one write per ingested definition;
  \<^item> the per-icon stage in TSX mode (lines 49-54, 136-155): calls of the stage and log lines
    only, the writes being exactly one per ingested definition and the generator calls
    exactly one per ingested definition, with the capitalized variable name and the data;
  \<^item> the complete icon set (lines 62-78): the one write of its content, made of the
    definitions as the per-icon stage leaves them;
  \<^item> the type helper (lines 80-83): nothing, the generator is pure;
  \<^item> the barrel file (lines 85-93): the one write of the type helper, the export statements
    of the per-icon names (in the order of the definitions in SVG mode, in some order in TSX
    mode) and of the complete icon set when it is exported, and the model export;
  \<^item> the model file (lines 95-99, 178-200): the write into the icons folder and its log
    line, then, with an additional path, the write there and its log line;
  \<^item> the copy of the model file (lines 101-106): the one write to the additional path;
  \<^item> the compilation (lines 109-114, 202-232): the path lookup, then what the selector
    asks for, on the paths the lookup returned.
\<close>

definition completedStage ::
  "'w env \<Rightarrow> FilesConversionOptions \<Rightarrow> SvgDefinition list \<Rightarrow> string \<times> event list \<Rightarrow> bool" where
  "completedStage env opts ingested lb =
     (let l = fst lb; body = snd lb;
          iconsDir = outputDirectory opts @ ''/'' @ iconsFolderName opts;
          svgDefinitions = (if tsx opts then map (capitalizeVariableName env) ingested else ingested);
          modelFile = generateTypeDefinition env opts svgDefinitions
                      @ generateInterfaceDefinition env opts
                      @ generateEnumDefinition env opts svgDefinitions;
          copy = WriteFile (js_str (additionalModelOutputPath opts)) (modelFileName opts) modelFile None;
          patterns = [outputDirectory opts @ ''/'' @ iconsFolderName opts @ ''/*.ts'',
                      outputDirectory opts @ ''/'' @ barrelFileName opts @ ''.ts'']
      in
      if l = ''Deleting the output folder'' then
        body = [Performed (DeleteFolder iconsDir)]
      else if l = ''Processing SVG files'' then
        body = [Performed (FilesProcessor opts)]
      else if l = ''Generate SVG constants'' then
        list_all (inStage opts l) body
        \<and> mset (performedCalls body) = mset (map (svgWrite env iconsDir) ingested)
      else if l = ''Generate TSX constants'' then
        list_all (inStage opts l) body
        \<and> (\<exists>writes. list_all2 (tsxWrite env iconsDir) ingested writes
              \<and> mset (writeCalls body) = mset writes)
        \<and> mset (tsxGenerations body)
            = mset (map (\<lambda>d. (capitalize env (variableName d), data d)) ingested)
      else if l = ''Export complete icon set'' then
        body = [Performed (WriteFile iconsDir (Some (completeIconSetName opts))
                  (generateCompleteIconSetContent env svgDefinitions (completeIconSetName opts)
                     (interfaceName opts) (modelFileName opts) (generateType opts) (tsx opts))
                  None)]
      else if l = ''Generate Type Helper'' then
        body = []
      else if l = ''Generate barrel file'' then
        (\<exists>perIcon.
           (if tsx opts then mset perIcon = mset (map generatedFileName ingested)
            else perIcon = map generatedFileName ingested)
           \<and> body = [Performed (WriteFile (outputDirectory opts) (Some (barrelFileName opts))
                  (generateTypeHelperWithImport env (interfaceName opts) (iconsFolderName opts)
                     (modelFileName opts)
                   @ concat (map (\<lambda>name. generateExportStatement env (Some name) (iconsFolderName opts))
                               (perIcon @ (if exportCompleteIconSet opts
                                           then [completeIconSetName opts] else [])))
                   @ generateExportStatement env (modelFileName opts) (iconsFolderName opts))
                  None)])
      else if l = ''Generate model file'' then
        body = [Performed (WriteFile iconsDir (modelFileName opts) modelFile None),
                LogVerboseInfo (''model-file successfully generated under '' @ outputDirectory opts
                   @ ''/'' @ iconsFolderName opts @ ''/'' @ js_str (modelFileName opts) @ ''.ts'')]
               @ (if truthy (additionalModelOutputPath opts)
                  then [Performed copy,
                        LogVerboseInfo (''additional model-file successfully generated under ''
                           @ js_str (additionalModelOutputPath opts) @ ''/''
                           @ js_str (modelFileName opts) @ ''.ts'')]
                  else [])
      else if l = ''Write model file to additional output path'' then
        body = [Performed copy]
      else if l = ''Compile TypeScript to JavaScript'' then
        (\<exists>paths w w'.
           getFilePathsFromRegex env patterns w = (Inr paths, w')
           \<and> body = Performed (GetFilePathsFromRegex patterns)
               # (case compilationOutput opts of
                    ESM \<Rightarrow> [Performed (CompileToEsNext paths (outputDirectory opts)),
                            Performed (DeleteFiles paths)]
                  | UMD \<Rightarrow> [Performed (CompileToUMD paths (outputDirectory opts)),
                            Performed (DeleteFiles paths)]
                  | ESM_AND_UMD \<Rightarrow>
                      [Performed (CompileToEsNext paths (outputDirectory opts @ ''/esm'')),
                       Performed (CompileToUMD paths (outputDirectory opts @ ''/umd'')),
                       Performed (DeleteFiles paths),
                       Performed (DeleteFolder (outputDirectory opts @ ''/build''))]
                  | Unrecognized v \<Rightarrow> [LogError (invalidCompilationOutput v)]))
      else False)"

text \<open>The events of a stage's body: all of the stage, ending with the failed call when it throws.\<close>

definition bodyOf :: "FilesConversionOptions \<Rightarrow> string \<Rightarrow> error + 'a \<Rightarrow> event list \<Rightarrow> bool" where
  "bodyOf opts l r evs =
     (case r of
        Inr _ \<Rightarrow> list_all (inStage opts l) evs
      | Inl e \<Rightarrow> (\<exists>body c. evs = body @ [Failed c e] \<and> list_all (inStage opts l) body
                     \<and> stageCall opts l c))"

definition bodyRun :: "FilesConversionOptions \<Rightarrow> string \<Rightarrow> ('w, 'a) io \<Rightarrow> bool" where
  "bodyRun opts l m \<longleftrightarrow>
     (\<forall>st r st'. m st = (r, st') \<longrightarrow> (\<exists>evs. trace st' = trace st @ evs \<and> bodyOf opts l r evs))"

text \<open>The events of a sequence of stages: blocks of stages that have \<open>completed\<close>, in the
  order of the labels, then the closing events; or, when a stage throws, the blocks of the
  stages before it and the open block of that stage, in which calls of the stage have
  returned and the last event is the call of the stage that failed.\<close>

definition staged ::
  "(string \<times> event list \<Rightarrow> bool) \<Rightarrow> FilesConversionOptions \<Rightarrow> string list \<Rightarrow> event list
     \<Rightarrow> error + 'a \<Rightarrow> event list \<Rightarrow> bool" where
  "staged completed opts order closing r evs =
     (case r of
        Inr _ \<Rightarrow> (\<exists>stages. map fst stages = order \<and> list_all completed stages
                     \<and> evs = concat (map stageBlock stages) @ closing)
      | Inl e \<Rightarrow> (\<exists>stages l body c later.
                     order = map fst stages @ l # later \<and> list_all completed stages
                     \<and> list_all (inStage opts l) body \<and> stageCall opts l c
                     \<and> evs = concat (map stageBlock stages) @ StageStart l # body @ [Failed c e]))"

text \<open>Every run of \<open>m\<close> is such a sequence of stages, and what it returns satisfies \<open>post\<close>.\<close>

definition stagedRun ::
  "(string \<times> event list \<Rightarrow> bool) \<Rightarrow> FilesConversionOptions \<Rightarrow> ('w, 'a) io \<Rightarrow> string list
     \<Rightarrow> event list \<Rightarrow> ('a \<Rightarrow> bool) \<Rightarrow> bool" where
  "stagedRun completed opts m order closing post \<longleftrightarrow>
     (\<forall>st r st'. m st = (r, st') \<longrightarrow>
        (\<exists>evs. trace st' = trace st @ evs \<and> staged completed opts order closing r evs)
        \<and> (\<forall>x. r = Inr x \<longrightarrow> post x))"

text \<open>The callbacks of the per-icon stage stay inside their stage.\<close>

fun taskIn :: "FilesConversionOptions \<Rightarrow> string \<Rightarrow> task \<Rightarrow> bool" where
  "taskIn opts l (SvgAwaitWrite outDir icons name c) =
     (l = ''Generate SVG constants''
      \<and> outDir @ ''/'' @ icons = outputDirectory opts @ ''/'' @ iconsFolderName opts)"
| "taskIn opts l (TsxAwaitConstant outDir icons d) =
     (l = ''Generate TSX constants''
      \<and> outDir @ ''/'' @ icons = outputDirectory opts @ ''/'' @ iconsFolderName opts)"
| "taskIn opts l (TsxAwaitWrite outDir icons name c) =
     (l = ''Generate TSX constants''
      \<and> outDir @ ''/'' @ icons = outputDirectory opts @ ''/'' @ iconsFolderName opts)"

subsection \<open>An example configuration\<close>

text \<open>
  The two icons of the specification's example, collaborators that render short strings,
  and a world that is a budget: every call to a fallible collaborator consumes one unit,
  and throws once the budget is used up. The example runs instantiate the theorems below.
\<close>

definition asciiUpper :: "char \<Rightarrow> char" where
  "asciiUpper c =
     (case map_of (zip ''abcdefghijklmnopqrstuvwxyz'' ''ABCDEFGHIJKLMNOPQRSTUVWXYZ'') c of
        None \<Rightarrow> c | Some u \<Rightarrow> u)"

definition budgeted :: "'a \<Rightarrow> nat \<Rightarrow> (error + 'a) \<times> nat" where
  "budgeted x w = (if w = 0 then (Inl (Thrown ''EIO''), 0) else (Inr x, w - 1))"

definition exampleIcons :: "SvgDefinition list" where
  "exampleIcons =
     [\<lparr>variableName = ''navHome'', typeName = ''nav-home'', data = ''<svg/>'',
       prefix = ''nav'', filenameWithoutEnding = ''home''\<rparr>,
      \<lparr>variableName = ''navBack'', typeName = ''nav-back'', data = ''<g/>'',
       prefix = ''nav'', filenameWithoutEnding = ''back''\<rparr>]"

definition exampleEnv :: "nat env" where
  "exampleEnv =
     \<lparr>deleteFolder = (\<lambda>_. budgeted ()),
      deleteFiles = (\<lambda>_. budgeted ()),
      writeFile = (\<lambda>_ _ _ _. budgeted ()),
      filesProcessor = (\<lambda>_. budgeted exampleIcons),
      getFilePathsFromRegex = (\<lambda>_. budgeted [''out/index.ts'']),
      compileToEsNext = (\<lambda>_ _. budgeted ()),
      compileToUMD = (\<lambda>_ _. budgeted ()),
      generateTSXConstant = (\<lambda>v d. budgeted (v @ ''='' @ d)),
      generateSvgConstant = (\<lambda>v t d. v @ '':'' @ t @ ''='' @ d),
      generateExportStatement = (\<lambda>n icons. ''export '' @ icons @ ''/'' @ js_str n @ '';''),
      generateTypeHelperWithImport = (\<lambda>i icons m. ''import '' @ js_str i @ '';''),
      generateTypeDefinition = (\<lambda>_ _. ''type;''),
      generateEnumDefinition = (\<lambda>_ _. ''enum;''),
      generateInterfaceDefinition = (\<lambda>_. ''interface;''),
      generateCompleteIconSetContent = (\<lambda>_ n _ _ _ _. ''set '' @ n @ '';''),
      toUpperCase = map asciiUpper\<rparr>"

definition exampleOptions :: FilesConversionOptions where
  "exampleOptions =
     \<lparr>outputDirectory = ''out'', modelFileName = Some ''model'',
      additionalModelOutputPath = Some ''extra'', iconsFolderName = ''icons'',
      interfaceName = Some ''Icon'', compileSources = True, exportCompleteIconSet = True,
      completeIconSetName = ''all'', compilationOutput = ESM_AND_UMD,
      barrelFileName = ''index'', generateType = False, tsx = False\<rparr>"

definition exampleState :: "nat \<Rightarrow> nat list \<Rightarrow> nat state" where
  "exampleState budget choices = \<lparr>world = budget, trace = [], sched = choices\<rparr>"

text \<open>The definitions as the TSX callbacks leave them, and the state in which the example
  run of the compilation stage ends.\<close>

definition exampleTsxIcons :: "SvgDefinition list" where
  "exampleTsxIcons =
     [\<lparr>variableName = ''NavHome'', typeName = ''nav-home'', data = ''<svg/>'',
       prefix = ''nav'', filenameWithoutEnding = ''home''\<rparr>,
      \<lparr>variableName = ''NavBack'', typeName = ''nav-back'', data = ''<g/>'',
       prefix = ''nav'', filenameWithoutEnding = ''back''\<rparr>]"

definition exampleCompileEnd :: "nat state" where
  "exampleCompileEnd =
     \<lparr>world = 0,
      trace = [StageStart ''Compile TypeScript to JavaScript'',
               Performed (GetFilePathsFromRegex [''out/icons/*.ts'', ''out/index.ts'']),
               Performed (CompileToEsNext [''out/index.ts''] ''out/esm''),
               Performed (CompileToUMD [''out/index.ts''] ''out/umd''),
               Performed (DeleteFiles [''out/index.ts'']),
               Performed (DeleteFolder ''out/build''),
               StageEnd ''Compile TypeScript to JavaScript''],
      sched = []\<rparr>"

text \<open>The example options with a given compilation output, and the traces of a run in
  which the write of the second icon settles before that of the first.\<close>

definition exampleWith :: "SVG_TO_TS_COMPILATION_OUTPUT \<Rightarrow> FilesConversionOptions" where
  "exampleWith output = exampleOptions\<lparr>compilationOutput := output\<rparr>"

definition exampleFilesTrace :: "SVG_TO_TS_COMPILATION_OUTPUT \<Rightarrow> event list" where
  "exampleFilesTrace output =
     [StageStart ''Deleting the output folder'',
      Performed (DeleteFolder ''out/icons''),
      StageEnd ''Deleting the output folder'',
      StageStart ''Processing SVG files'',
      Performed (FilesProcessor (exampleWith output)),
      StageEnd ''Processing SVG files'',
      StageStart ''Generate SVG constants'',
      Performed (WriteFile ''out/icons'' (Some ''nav-back.icon'') ''navBack:nav-back=<g/>'' None),
      LogVerboseInfo ''write file svg: out/icons/nav-back.icon.ts'',
      Performed (WriteFile ''out/icons'' (Some ''nav-home.icon'') ''navHome:nav-home=<svg/>'' None),
      LogVerboseInfo ''write file svg: out/icons/nav-home.icon.ts'',
      StageEnd ''Generate SVG constants'',
      StageStart ''Export complete icon set'',
      Performed (WriteFile ''out/icons'' (Some ''all'') ''set all;'' None),
      StageEnd ''Export complete icon set'']"

definition exampleBarrelTrace :: "event list" where
  "exampleBarrelTrace =
     [StageStart ''Generate Type Helper'',
      StageEnd ''Generate Type Helper'',
      StageStart ''Generate barrel file'',
      Performed (WriteFile ''out'' (Some ''index'')
        ''import Icon;export icons/nav-home.icon;export icons/nav-back.icon;export icons/all;export icons/model;''
        None),
      StageEnd ''Generate barrel file'']"

definition exampleModelTrace :: "event list" where
  "exampleModelTrace =
     [StageStart ''Generate model file'',
      Performed (WriteFile ''out/icons'' (Some ''model'') ''type;interface;enum;'' None),
      LogVerboseInfo ''model-file successfully generated under out/icons/model.ts'',
      Performed (WriteFile ''extra'' (Some ''model'') ''type;interface;enum;'' None),
      LogVerboseInfo ''additional model-file successfully generated under extra/model.ts'',
      StageEnd ''Generate model file'',
      StageStart ''Write model file to additional output path'',
      Performed (WriteFile ''extra'' (Some ''model'') ''type;interface;enum;'' None),
      StageEnd ''Write model file to additional output path'']"

definition exampleAt :: "nat \<Rightarrow> event list \<Rightarrow> nat state" where
  "exampleAt budget events = \<lparr>world = budget, trace = events, sched = []\<rparr>"

text \<open>The example in TSX mode, without complete icon set, model file and compilation; the
  generator of the second icon settles first.\<close>

definition exampleTsxOptions :: FilesConversionOptions where
  "exampleTsxOptions =
     exampleOptions\<lparr>tsx := True, compileSources := False, exportCompleteIconSet := False,
                    modelFileName := None\<rparr>"

definition exampleTsxPipelineTrace :: "event list" where
  "exampleTsxPipelineTrace =
     [StageStart ''Deleting the output folder'',
      Performed (DeleteFolder ''out/icons''),
      StageEnd ''Deleting the output folder'',
      StageStart ''Processing SVG files'',
      Performed (FilesProcessor exampleTsxOptions),
      StageEnd ''Processing SVG files'',
      StageStart ''Generate TSX constants'',
      Performed (GenerateTSXConstant ''NavBack'' ''<g/>''),
      Performed (WriteFile ''out/icons'' (Some ''nav-back.icon'') ''NavBack=<g/>'' (Some TSX)),
      LogVerboseInfo ''write file svg: out/icons/nav-back.icon.tsx'',
      Performed (GenerateTSXConstant ''NavHome'' ''<svg/>''),
      Performed (WriteFile ''out/icons'' (Some ''nav-home.icon'') ''NavHome=<svg/>'' (Some TSX)),
      LogVerboseInfo ''write file svg: out/icons/nav-home.icon.tsx'',
      StageEnd ''Generate TSX constants'',
      StageStart ''Generate Type Helper'',
      StageEnd ''Generate Type Helper'',
      StageStart ''Generate barrel file'',
      Performed (WriteFile ''out'' (Some ''index'')
        ''import Icon;export icons/nav-back.icon;export icons/nav-home.icon;export icons/undefined;''
        None),
      StageEnd ''Generate barrel file'',
      LogGenerationSuccess ''out'']"

definition exampleCompileTrace :: "event list" where
  "exampleCompileTrace =
     [StageStart ''Compile TypeScript to JavaScript'',
      Performed (GetFilePathsFromRegex [''out/icons/*.ts'', ''out/index.ts'']),
      Performed (CompileToEsNext [''out/index.ts''] ''out/esm''),
      Performed (CompileToUMD [''out/index.ts''] ''out/umd''),
      Performed (DeleteFiles [''out/index.ts'']),
      Performed (DeleteFolder ''out/build''),
      StageEnd ''Compile TypeScript to JavaScript'']"




section \<open>Properties\<close>

subsection \<open>Sequencing\<close>

lemma ret_eq: "ret x st = (r, st') \<longleftrightarrow> r = Inr x \<and> st' = st"
  by (auto simp: ret_def)

lemma emit_eq: "emit ev st = (r, st') \<longleftrightarrow> r = Inr () \<and> st' = st\<lparr>trace := trace st @ [ev]\<rparr>"
  by (auto simp: emit_def)

lemma bnd_Inr:
  "bnd m f st = (Inr y, st'') \<longleftrightarrow> (\<exists>x st'. m st = (Inr x, st') \<and> f x st' = (Inr y, st''))"
  by (auto simp: bnd_def split: prod.splits sum.splits)

lemma bnd_Inl:
  "bnd m f st = (Inl e, st'') \<longleftrightarrow>
     m st = (Inl e, st'') \<or> (\<exists>x st'. m st = (Inr x, st') \<and> f x st' = (Inl e, st''))"
  by (auto simp: bnd_def split: prod.splits sum.splits)

lemma perform_Inr:
  "perform c op st = (Inr x, st') \<longleftrightarrow>
     (\<exists>w. op (world st) = (Inr x, w) \<and> st' = st\<lparr>world := w, trace := trace st @ [Performed c]\<rparr>)"
  by (auto simp: perform_def split: prod.splits sum.splits)

lemma perform_Inl:
  "perform c op st = (Inl e, st') \<longleftrightarrow>
     (\<exists>w. op (world st) = (Inl e, w) \<and> st' = st\<lparr>world := w, trace := trace st @ [Failed c e]\<rparr>)"
  by (auto simp: perform_def split: prod.splits sum.splits)

lemma callAndMonitorAsync_Inr:
  "callAndMonitorAsync fn l st = (Inr x, st'') \<longleftrightarrow>
     (\<exists>st'. fn (st\<lparr>trace := trace st @ [StageStart l]\<rparr>) = (Inr x, st')
        \<and> st'' = st'\<lparr>trace := trace st' @ [StageEnd l]\<rparr>)"
  by (auto simp: callAndMonitorAsync_def bnd_Inr emit_eq ret_eq)

lemma callAndMonitorAsync_Inl:
  "callAndMonitorAsync fn l st = (Inl e, st'') \<longleftrightarrow>
     fn (st\<lparr>trace := trace st @ [StageStart l]\<rparr>) = (Inl e, st'')"
  by (auto simp: callAndMonitorAsync_def bnd_Inl emit_eq ret_eq)

lemma callAndMonitor_eq:
  "callAndMonitor v l st = (r, st') \<longleftrightarrow>
     r = Inr v \<and> st' = st\<lparr>trace := trace st @ [StageStart l, StageEnd l]\<rparr>"
  by (auto simp: callAndMonitor_def bnd_def emit_def ret_def)

lemmas io_defs = deleteFolderM_def deleteFilesM_def writeFileM_def filesProcessorM_def
  getFilePathsFromRegexM_def compileToEsNextM_def compileToUMDM_def generateTSXConstantM_def

text \<open>The equations that evaluate a run of the example configuration.\<close>

lemmas run_defs = io_defs bnd_def ret_def emit_def perform_def callAndMonitorAsync_def
  callAndMonitor_def generatedFileName_def capitalize_def capitalizeVariableName_def
  nextSettled_def settled_def promiseAll.simps generateSVGConstants_def
  generateTSXFileConstants_def generateCompleteIconSet_def generateModelFile_def
  invalidCompilationOutput_def compileTypeScriptToJS_def ingest_def generateConstants_def
  exportCompleteSet_def generatedFiles_def barrelFile_def modelFiles_def compileGenerated_def
  convertToFiles_def asciiUpper_def budgeted_def exampleIcons_def exampleEnv_def
  exampleOptions_def exampleState_def Let_def newEvents_def performedCalls_def
  writtenFiles_def tsxGenerations_def

lemma newEvents_append: "trace st' = trace st @ evs \<Longrightarrow> newEvents st st' = evs"
  by (simp add: newEvents_def)

lemma performedCalls_simps [simp]:
  "performedCalls [] = []"
  "performedCalls (ev # evs) = performedCall ev @ performedCalls evs"
  "performedCalls (xs @ ys) = performedCalls xs @ performedCalls ys"
  by (simp_all add: performedCalls_def)

lemma writtenFiles_simps [simp]:
  "writtenFiles [] = []"
  "writtenFiles (ev # evs) = writtenFile ev @ writtenFiles evs"
  "writtenFiles (xs @ ys) = writtenFiles xs @ writtenFiles ys"
  by (simp_all add: writtenFiles_def)

lemma tsxGenerations_simps [simp]:
  "tsxGenerations [] = []"
  "tsxGenerations (ev # evs) = tsxGeneration ev @ tsxGenerations evs"
  "tsxGenerations (xs @ ys) = tsxGenerations xs @ tsxGenerations ys"
  by (simp_all add: tsxGenerations_def)

subsection \<open>The model file (C6)\<close>

text \<open>
  C6. Whatever the outcome of \<open>generateModelFile\<close>: the content is the type definition,
  then the interface definition, then the enum definition; the first thing the generator
  does is to write that content under the model file name into the icons folder; when it
  returns, it returns that content, and if an additional output path is configured it has
  written the same content, under the same name, there as well (and nothing else). When it
  throws, it is one of these two writes that threw.
\<close>

theorem generateModelFile_content:
  assumes "generateModelFile env opts defs st = (r, st')"
  shows "let content = generateTypeDefinition env opts defs @ generateInterfaceDefinition env opts
                         @ generateEnumDefinition env opts defs;
             primary = WriteFile (outputDirectory opts @ ''/'' @ iconsFolderName opts)
                         (modelFileName opts) content None;
             copy = WriteFile (js_str (additionalModelOutputPath opts)) (modelFileName opts) content None;
             logged = LogVerboseInfo (''model-file successfully generated under ''
                         @ outputDirectory opts @ ''/'' @ iconsFolderName opts @ ''/''
                         @ js_str (modelFileName opts) @ ''.ts'');
             loggedCopy = LogVerboseInfo (''additional model-file successfully generated under ''
                         @ js_str (additionalModelOutputPath opts) @ ''/''
                         @ js_str (modelFileName opts) @ ''.ts'')
         in (case r of
               Inr returned \<Rightarrow>
                 returned = content \<and>
                 newEvents st st' =
                   (if truthy (additionalModelOutputPath opts)
                    then [Performed primary, logged, Performed copy, loggedCopy]
                    else [Performed primary, logged])
             | Inl e \<Rightarrow>
                 newEvents st st' = [Failed primary e] \<or>
                 (truthy (additionalModelOutputPath opts) \<and>
                  newEvents st st' = [Performed primary, logged, Failed copy e]))"
proof (cases r)
  case (Inr returned)
  with assms show ?thesis
    by (auto simp: generateModelFile_def Let_def bnd_Inr emit_eq ret_eq io_defs perform_Inr
        newEvents_def split: if_splits)
next
  case (Inl e)
  with assms show ?thesis
    by (auto simp: generateModelFile_def Let_def bnd_Inl bnd_Inr emit_eq ret_eq io_defs
        perform_Inr perform_Inl newEvents_def split: if_splits)
qed

theorem generateModelFile_content_witness:
  "generateModelFile exampleEnv exampleOptions exampleIcons (exampleState 2 [])
     = (Inr ''type;interface;enum;'',
        \<lparr>world = 0,
         trace = [Performed (WriteFile ''out/icons'' (Some ''model'') ''type;interface;enum;'' None),
                  LogVerboseInfo ''model-file successfully generated under out/icons/model.ts'',
                  Performed (WriteFile ''extra'' (Some ''model'') ''type;interface;enum;'' None),
                  LogVerboseInfo ''additional model-file successfully generated under extra/model.ts''],
         sched = []\<rparr>)
   \<and> newEvents (exampleState 2 [])
        \<lparr>world = 0,
         trace = [Performed (WriteFile ''out/icons'' (Some ''model'') ''type;interface;enum;'' None),
                  LogVerboseInfo ''model-file successfully generated under out/icons/model.ts'',
                  Performed (WriteFile ''extra'' (Some ''model'') ''type;interface;enum;'' None),
                  LogVerboseInfo ''additional model-file successfully generated under extra/model.ts''],
         sched = []\<rparr>
     = [Performed (WriteFile ''out/icons'' (Some ''model'') ''type;interface;enum;'' None),
        LogVerboseInfo ''model-file successfully generated under out/icons/model.ts'',
        Performed (WriteFile ''extra'' (Some ''model'') ''type;interface;enum;'' None),
        LogVerboseInfo ''additional model-file successfully generated under extra/model.ts'']"
proof -
  have run: "generateModelFile exampleEnv exampleOptions exampleIcons (exampleState 2 [])
     = (Inr ''type;interface;enum;'',
        \<lparr>world = 0,
         trace = [Performed (WriteFile ''out/icons'' (Some ''model'') ''type;interface;enum;'' None),
                  LogVerboseInfo ''model-file successfully generated under out/icons/model.ts'',
                  Performed (WriteFile ''extra'' (Some ''model'') ''type;interface;enum;'' None),
                  LogVerboseInfo ''additional model-file successfully generated under extra/model.ts''],
         sched = []\<rparr>)"
    by (simp add: run_defs)
  from generateModelFile_content [OF run] have
    "newEvents (exampleState 2 [])
        \<lparr>world = 0,
         trace = [Performed (WriteFile ''out/icons'' (Some ''model'') ''type;interface;enum;'' None),
                  LogVerboseInfo ''model-file successfully generated under out/icons/model.ts'',
                  Performed (WriteFile ''extra'' (Some ''model'') ''type;interface;enum;'' None),
                  LogVerboseInfo ''additional model-file successfully generated under extra/model.ts''],
         sched = []\<rparr>
     = [Performed (WriteFile ''out/icons'' (Some ''model'') ''type;interface;enum;'' None),
        LogVerboseInfo ''model-file successfully generated under out/icons/model.ts'',
        Performed (WriteFile ''extra'' (Some ''model'') ''type;interface;enum;'' None),
        LogVerboseInfo ''additional model-file successfully generated under extra/model.ts'']"
    by (simp add: Let_def exampleOptions_def exampleEnv_def)
  with run show ?thesis by simp
qed

subsection \<open>The event loop\<close>

lemma nextSettled_trace:
  "nextSettled n st = (k, st1) \<Longrightarrow> trace st1 = trace st \<and> world st1 = world st"
  by (auto simp: nextSettled_def split: list.splits)

lemma account:
  fixes a1 :: "'a multiset"
  assumes "a1 + x = t" "a2 = s'" "s' + t = s + x"
  shows "a1 + a2 = s"
proof -
  have "(a1 + a2) + x = s' + (a1 + x)"
    using assms(2) by (simp add: ac_simps)
  also have "\<dots> = s + x"
    using assms(1,3) by simp
  finally show ?thesis by simp
qed

lemma concat_settled:
  assumes "k < length pending"
  shows "mset (concat (map g (settled k t pending))) + mset (g (pending ! k))
       = mset (concat (map g pending)) + (case t of None \<Rightarrow> {#} | Some u \<Rightarrow> mset (g u))"
proof -
  have "pending = take k pending @ (pending ! k) # drop (Suc k) pending"
    using assms by (simp add: id_take_nth_drop)
  then have "concat (map g pending) =
      concat (map g (take k pending)) @ g (pending ! k) @ concat (map g (drop (Suc k) pending))"
    by (metis concat.simps(2) concat_append list.simps(9) map_append)
  then show ?thesis
    by (cases t) (simp_all add: settled_def)
qed

text \<open>One step of a callback that goes on, and one that throws.\<close>

lemma resume_Inr:
  assumes "resume env t names st = (Inr (t', names'), st')"
  shows "\<exists>evs pushed. trace st' = trace st @ evs \<and> names' = names @ pushed
      \<and> \<not> list_ex isMarker evs \<and> \<not> list_ex isFailed evs
      \<and> mset (writtenFiles evs) + (case t' of None \<Rightarrow> {#} | Some u \<Rightarrow> mset [taskFile u])
          = mset [taskFile t]
      \<and> mset (tsxGenerations evs) + (case t' of None \<Rightarrow> {#} | Some u \<Rightarrow> mset (taskGenerations u))
          = mset (taskGenerations t)
      \<and> mset pushed + (case t' of None \<Rightarrow> {#} | Some u \<Rightarrow> mset (taskNames u)) = mset (taskNames t)
      \<and> (isSvgTask t \<longrightarrow> t' = None \<and> performedCalls evs = taskCalls t)"
proof (cases t)
  case (SvgAwaitWrite outDir icons name c)
  with assms show ?thesis
    by (auto simp: bnd_Inr emit_eq ret_eq io_defs perform_Inr)
next
  case (TsxAwaitConstant outDir icons d)
  with assms show ?thesis
    by (auto simp: bnd_Inr emit_eq ret_eq io_defs perform_Inr)
next
  case (TsxAwaitWrite outDir icons name c)
  with assms show ?thesis
    by (auto simp: bnd_Inr emit_eq ret_eq io_defs perform_Inr)
qed

lemma resume_Inl:
  assumes "resume env t names st = (Inl e, st')"
  shows "\<exists>c. trace st' = trace st @ [Failed c e]"
  using assms
  by (cases t) (auto simp: bnd_Inl emit_eq ret_eq io_defs perform_Inl)

lemma promiseAll_Nil: "promiseAll env [] names st = (Inr names, st)"
  by (simp add: promiseAll.simps)

lemma promiseAll_settle:
  assumes "pending \<noteq> []" "nextSettled (length pending) st = (k, st1)"
    and "resume env (pending ! k) names st1 = (Inr (t, names1), st2)"
  shows "promiseAll env pending names st = promiseAll env (settled k t pending) names1 st2"
  using assms by (simp add: promiseAll.simps [of env pending])

lemma promiseAll_reject:
  assumes "pending \<noteq> []" "nextSettled (length pending) st = (k, st1)"
    and "resume env (pending ! k) names st1 = (Inl e, st2)"
  shows "promiseAll env pending names st = (Inl e, st2)"
  using assms by (simp add: promiseAll.simps [of env pending])

lemma awaits_settled:
  assumes "pending \<noteq> []" "nextSettled (length pending) st = (k, st1)"
    and "resume env (pending ! k) names st1 = (Inr (t, names1), st2)"
  shows "sum_list (map awaits (settled k t pending)) < sum_list (map awaits pending)"
proof -
  have "k < length pending"
    using nextSettled_less [OF assms(1), of st] assms(2) by simp
  then show ?thesis
    using sum_awaits_settled resume_awaits [OF assms(3)] by blast
qed

lemma isSvgTask_settled:
  "list_all isSvgTask pending \<Longrightarrow> list_all isSvgTask (settled k None pending)"
  by (auto simp: settled_def list_all_iff dest: in_set_takeD in_set_dropD)

text \<open>
  When \<open>Promise.all\<close> resolves, whatever the order in which the operations settled: nothing
  has failed, every task has written its file and made its generator call exactly once,
  and the names pushed meanwhile are those the tasks had still to push.
\<close>

lemma promiseAll_Inr:
  "promiseAll env pending names st = (Inr names', st') \<Longrightarrow>
   \<exists>evs pushed. trace st' = trace st @ evs \<and> names' = names @ pushed
      \<and> \<not> list_ex isMarker evs \<and> \<not> list_ex isFailed evs
      \<and> mset (writtenFiles evs) = mset (map taskFile pending)
      \<and> mset (tsxGenerations evs) = mset (concat (map taskGenerations pending))
      \<and> mset pushed = mset (concat (map taskNames pending))
      \<and> (list_all isSvgTask pending \<longrightarrow>
           mset (performedCalls evs) = mset (concat (map taskCalls pending)))"
proof (induction "sum_list (map awaits pending)" arbitrary: pending names st rule: less_induct)
  case less
  show ?case
  proof (cases "pending = []")
    case True
    with less.prems show ?thesis
      by (simp add: promiseAll_Nil)
  next
    case False
    obtain k st1 where ns: "nextSettled (length pending) st = (k, st1)"
      by (cases "nextSettled (length pending) st")
    have k: "k < length pending"
      using nextSettled_less [OF False, of st] ns by simp
    have tr1: "trace st1 = trace st"
      using nextSettled_trace [OF ns] by simp
    obtain r1 st2 where res: "resume env (pending ! k) names st1 = (r1, st2)"
      by (cases "resume env (pending ! k) names st1")
    have "\<exists>t names1. r1 = Inr (t, names1)"
    proof (cases r1)
      case (Inl e)
      with promiseAll_reject [OF False ns] res less.prems show ?thesis by simp
    next
      case (Inr p)
      then show ?thesis by (cases p) simp
    qed
    then obtain t names1 where r1: "r1 = Inr (t, names1)"
      by blast
    note res' = res [unfolded r1]
    have rec: "promiseAll env (settled k t pending) names1 st2 = (Inr names', st')"
      using promiseAll_settle [OF False ns res'] less.prems by simp
    from resume_Inr [OF res'] obtain evs1 pushed1 where
      s1: "trace st2 = trace st1 @ evs1" "names1 = names @ pushed1"
          "\<not> list_ex isMarker evs1" "\<not> list_ex isFailed evs1"
      and f1: "mset (writtenFiles evs1) + (case t of None \<Rightarrow> {#} | Some u \<Rightarrow> mset [taskFile u])
               = mset [taskFile (pending ! k)]"
      and g1: "mset (tsxGenerations evs1) + (case t of None \<Rightarrow> {#} | Some u \<Rightarrow> mset (taskGenerations u))
               = mset (taskGenerations (pending ! k))"
      and n1: "mset pushed1 + (case t of None \<Rightarrow> {#} | Some u \<Rightarrow> mset (taskNames u))
               = mset (taskNames (pending ! k))"
      and c1: "isSvgTask (pending ! k) \<longrightarrow> t = None \<and> performedCalls evs1 = taskCalls (pending ! k)"
      by blast
    from less.hyps [OF awaits_settled [OF False ns res'] rec] obtain evs2 pushed2 where
      s2: "trace st' = trace st2 @ evs2" "names' = names1 @ pushed2"
          "\<not> list_ex isMarker evs2" "\<not> list_ex isFailed evs2"
      and f2: "mset (writtenFiles evs2) = mset (map taskFile (settled k t pending))"
      and g2: "mset (tsxGenerations evs2) = mset (concat (map taskGenerations (settled k t pending)))"
      and n2: "mset pushed2 = mset (concat (map taskNames (settled k t pending)))"
      and c2: "list_all isSvgTask (settled k t pending) \<longrightarrow>
               mset (performedCalls evs2) = mset (concat (map taskCalls (settled k t pending)))"
      by blast
    have F: "mset (writtenFiles (evs1 @ evs2)) = mset (map taskFile pending)"
    proof -
      have "mset (map taskFile (settled k t pending)) + mset [taskFile (pending ! k)]
          = mset (map taskFile pending) + (case t of None \<Rightarrow> {#} | Some u \<Rightarrow> mset [taskFile u])"
        using concat_settled [OF k, of "\<lambda>t. [taskFile t]" t]
        by (simp add: concat_map_singleton)
      from account [OF f1 f2 this] show ?thesis by simp
    qed
    have G: "mset (tsxGenerations (evs1 @ evs2)) = mset (concat (map taskGenerations pending))"
      using account [OF g1 g2 concat_settled [OF k]] by simp
    have N: "mset (pushed1 @ pushed2) = mset (concat (map taskNames pending))"
      using account [OF n1 n2 concat_settled [OF k]] by simp
    have C: "mset (performedCalls (evs1 @ evs2)) = mset (concat (map taskCalls pending))"
      if svg: "list_all isSvgTask pending"
    proof -
      from svg k have "isSvgTask (pending ! k)"
        by (simp add: list_all_length)
      with c1 have t: "t = None" and p1: "performedCalls evs1 = taskCalls (pending ! k)"
        by simp_all
      have "mset (performedCalls evs2) = mset (concat (map taskCalls (settled k t pending)))"
        using c2 isSvgTask_settled [OF svg] t by simp
      moreover have "mset (concat (map taskCalls (settled k t pending))) + mset (taskCalls (pending ! k))
          = mset (concat (map taskCalls pending))"
        using concat_settled [OF k, of taskCalls t] t by simp
      ultimately show ?thesis
        using p1 by (simp add: ac_simps)
    qed
    have "trace st' = trace st @ (evs1 @ evs2)" "names' = names @ (pushed1 @ pushed2)"
      "\<not> list_ex isMarker (evs1 @ evs2)" "\<not> list_ex isFailed (evs1 @ evs2)"
      using s1 s2 tr1 by simp_all
    with F G N C show ?thesis
      by blast
  qed
qed

text \<open>When \<open>Promise.all\<close> rejects, the last event is the call that threw.\<close>

lemma promiseAll_Inl:
  "promiseAll env pending names st = (Inl e, st') \<Longrightarrow>
   \<exists>evs c. trace st' = trace st @ evs @ [Failed c e] \<and> \<not> list_ex isMarker evs"
proof (induction "sum_list (map awaits pending)" arbitrary: pending names st rule: less_induct)
  case less
  show ?case
  proof (cases "pending = []")
    case True
    with less.prems show ?thesis
      by (simp add: promiseAll_Nil)
  next
    case False
    obtain k st1 where ns: "nextSettled (length pending) st = (k, st1)"
      by (cases "nextSettled (length pending) st")
    have tr1: "trace st1 = trace st"
      using nextSettled_trace [OF ns] by simp
    obtain r1 st2 where res: "resume env (pending ! k) names st1 = (r1, st2)"
      by (cases "resume env (pending ! k) names st1")
    show ?thesis
    proof (cases r1)
      case (Inl e1)
      from promiseAll_reject [OF False ns res [unfolded Inl]] less.prems
      have "e1 = e" "st2 = st'" by simp_all
      with resume_Inl [OF res [unfolded Inl]] tr1 obtain c where
        "trace st' = trace st @ [] @ [Failed c e]" "\<not> list_ex isMarker []"
        by auto
      then show ?thesis by blast
    next
      case (Inr p)
      obtain t names1 where p: "p = (t, names1)" by (cases p)
      note res' = res [unfolded Inr p]
      have rec: "promiseAll env (settled k t pending) names1 st2 = (Inl e, st')"
        using promiseAll_settle [OF False ns res'] less.prems by simp
      from resume_Inr [OF res'] obtain evs1 where
        s1: "trace st2 = trace st1 @ evs1" "\<not> list_ex isMarker evs1"
        by blast
      from less.hyps [OF awaits_settled [OF False ns res'] rec] obtain evs2 c where
        s2: "trace st' = trace st2 @ evs2 @ [Failed c e]" "\<not> list_ex isMarker evs2"
        by blast
      have "trace st' = trace st @ (evs1 @ evs2) @ [Failed c e]" "\<not> list_ex isMarker (evs1 @ evs2)"
        using s1 s2 tr1 by simp_all
      then show ?thesis by blast
    qed
  qed
qed

lemma svg_tasks:
  "list_all isSvgTask (map (\<lambda>d. SvgAwaitWrite outDir icons (f d) (g d)) defs)"
  "concat (map taskCalls (map (\<lambda>d. SvgAwaitWrite outDir icons (f d) (g d)) defs))
     = map (\<lambda>d. WriteFile (outDir @ ''/'' @ icons) (Some (f d)) (g d) None) defs"
  "concat (map taskNames (map (\<lambda>d. SvgAwaitWrite outDir icons (f d) (g d)) defs)) = []"
  "concat (map taskGenerations (map (\<lambda>d. SvgAwaitWrite outDir icons (f d) (g d)) defs)) = []"
  "map taskFile (map (\<lambda>d. SvgAwaitWrite outDir icons (f d) (g d)) defs)
     = map (\<lambda>d. (outDir @ ''/'' @ icons, Some (f d), None)) defs"
  by (induction defs) simp_all

lemma tsx_tasks:
  "concat (map taskNames (map (TsxAwaitConstant outDir icons) defs)) = map generatedFileName defs"
  "concat (map taskGenerations (map (TsxAwaitConstant outDir icons) defs))
     = map (\<lambda>d. (variableName d, data d)) defs"
  "map taskFile (map (TsxAwaitConstant outDir icons) defs)
     = map (\<lambda>d. (outDir @ ''/'' @ icons, Some (generatedFileName d), Some TSX)) defs"
  by (induction defs) simp_all

text \<open>The two generators, when they return.\<close>

lemma generateSVGConstants_Inr:
  assumes "generateSVGConstants env defs outDir icons st = (Inr names, st')"
  shows "\<exists>evs. trace st' = trace st @ evs \<and> names = map generatedFileName defs
      \<and> \<not> list_ex isMarker evs \<and> \<not> list_ex isFailed evs
      \<and> mset (performedCalls evs)
          = mset (map (\<lambda>d. WriteFile (outDir @ ''/'' @ icons) (Some (generatedFileName d))
                             (generateSvgConstant env (variableName d) (typeName d) (data d)) None) defs)
      \<and> mset (writtenFiles evs)
          = mset (map (\<lambda>d. (outDir @ ''/'' @ icons, Some (generatedFileName d), None)) defs)
      \<and> tsxGenerations evs = []"
proof -
  note run = promiseAll_Inr [OF assms [unfolded generateSVGConstants_def], unfolded svg_tasks]
  from run show ?thesis
    by (auto simp: svg_tasks(1))
qed

lemma generateTSXFileConstants_Inr:
  assumes "generateTSXFileConstants env defs outDir icons st = (Inr (names, defs'), st')"
  shows "\<exists>evs. trace st' = trace st @ evs \<and> mset names = mset (map generatedFileName defs)
      \<and> defs' = map (capitalizeVariableName env) defs
      \<and> \<not> list_ex isMarker evs \<and> \<not> list_ex isFailed evs
      \<and> mset (writtenFiles evs)
          = mset (map (\<lambda>d. (outDir @ ''/'' @ icons, Some (generatedFileName d), Some TSX)) defs)
      \<and> mset (tsxGenerations evs)
          = mset (map (\<lambda>d. (capitalize env (variableName d), data d)) defs)"
proof -
  from assms obtain names0 where
    run: "promiseAll env (map (TsxAwaitConstant outDir icons) (map (capitalizeVariableName env) defs))
            [] st = (Inr names0, st')"
    and res: "names = names0" "defs' = map (capitalizeVariableName env) defs"
    by (auto simp: generateTSXFileConstants_def Let_def bnd_Inr ret_eq)
  have same: "map generatedFileName (map (capitalizeVariableName env) defs) = map generatedFileName defs"
    by (simp add: generatedFileName_def capitalizeVariableName_def)
  have gens: "map (\<lambda>d. (variableName d, data d)) (map (capitalizeVariableName env) defs)
      = map (\<lambda>d. (capitalize env (variableName d), data d)) defs"
    by (simp add: capitalizeVariableName_def)
  have files: "map (\<lambda>d. (outDir @ ''/'' @ icons, Some (generatedFileName d), Some TSX))
        (map (capitalizeVariableName env) defs)
      = map (\<lambda>d. (outDir @ ''/'' @ icons, Some (generatedFileName d), Some TSX)) defs"
    by (simp add: generatedFileName_def capitalizeVariableName_def)
  from promiseAll_Inr [OF run] res show ?thesis
    unfolding tsx_tasks same gens files by auto
qed

subsection \<open>The writes of the callbacks, with their content\<close>

lemma writeCalls_simps [simp]:
  "writeCalls [] = []"
  "writeCalls (ev # evs) = writeCall ev @ writeCalls evs"
  "writeCalls (xs @ ys) = writeCalls xs @ writeCalls ys"
  by (simp_all add: writeCalls_def)

text \<open>One step of a callback: either it makes its write and ends, or it goes on to a
  task whose write is one the callback could make.\<close>

lemma resume_write:
  assumes "resume env t names st = (Inr (t', names'), st')"
  shows "\<exists>evs. trace st' = trace st @ evs
      \<and> (case t' of
           None \<Rightarrow> (\<exists>c. writeCalls evs = [c] \<and> taskWrite env t c)
         | Some u \<Rightarrow> writeCalls evs = [] \<and> (\<forall>c. taskWrite env u c \<longrightarrow> taskWrite env t c))"
proof (cases t)
  case (SvgAwaitWrite outDir icons name c)
  with assms show ?thesis
    by (auto simp: bnd_Inr emit_eq ret_eq io_defs perform_Inr)
next
  case (TsxAwaitConstant outDir icons d)
  with assms show ?thesis
    by (auto simp: bnd_Inr emit_eq ret_eq io_defs perform_Inr) blast
next
  case (TsxAwaitWrite outDir icons name c)
  with assms show ?thesis
    by (auto simp: bnd_Inr emit_eq ret_eq io_defs perform_Inr)
qed

lemma settled_Some: "k < length pending \<Longrightarrow> settled k (Some u) pending = pending[k := u]"
  by (simp add: settled_def upd_conv_take_nth_drop)

text \<open>
  When \<open>Promise.all\<close> resolves, the writes that have returned are, as a multiset, one write
  per task, each the write of its task: there is a list of writes, aligned with the tasks,
  of which the writes in the trace are a permutation.
\<close>

lemma promiseAll_writes:
  "promiseAll env pending names st = (Inr names', st') \<Longrightarrow>
   \<exists>evs writes. trace st' = trace st @ evs \<and> list_all2 (taskWrite env) pending writes
      \<and> mset (writeCalls evs) = mset writes"
proof (induction "sum_list (map awaits pending)" arbitrary: pending names st rule: less_induct)
  case less
  show ?case
  proof (cases "pending = []")
    case True
    with less.prems have "trace st' = trace st @ []" "list_all2 (taskWrite env) pending []"
      "mset (writeCalls []) = mset ([] :: call list)"
      by (simp_all add: promiseAll_Nil)
    then show ?thesis by blast
  next
    case False
    obtain k st1 where ns: "nextSettled (length pending) st = (k, st1)"
      by (cases "nextSettled (length pending) st")
    have k: "k < length pending"
      using nextSettled_less [OF False, of st] ns by simp
    have tr1: "trace st1 = trace st"
      using nextSettled_trace [OF ns] by simp
    obtain r1 st2 where res: "resume env (pending ! k) names st1 = (r1, st2)"
      by (cases "resume env (pending ! k) names st1")
    have "\<exists>t names1. r1 = Inr (t, names1)"
    proof (cases r1)
      case (Inl e)
      with promiseAll_reject [OF False ns] res less.prems show ?thesis by simp
    next
      case (Inr p)
      then show ?thesis by (cases p) simp
    qed
    then obtain t names1 where r1: "r1 = Inr (t, names1)"
      by blast
    note res' = res [unfolded r1]
    have rec: "promiseAll env (settled k t pending) names1 st2 = (Inr names', st')"
      using promiseAll_settle [OF False ns res'] less.prems by simp
    from resume_write [OF res'] obtain evs1 where
      s1: "trace st2 = trace st1 @ evs1"
      and w1: "case t of
           None \<Rightarrow> (\<exists>c. writeCalls evs1 = [c] \<and> taskWrite env (pending ! k) c)
         | Some u \<Rightarrow> writeCalls evs1 = []
             \<and> (\<forall>c. taskWrite env u c \<longrightarrow> taskWrite env (pending ! k) c)"
      by blast
    from less.hyps [OF awaits_settled [OF False ns res'] rec] obtain evs2 writes2 where
      s2: "trace st' = trace st2 @ evs2"
      and a2: "list_all2 (taskWrite env) (settled k t pending) writes2"
      and w2: "mset (writeCalls evs2) = mset writes2"
      by blast
    have tr: "trace st' = trace st @ (evs1 @ evs2)"
      using s1 s2 tr1 by simp
    show ?thesis
    proof (cases t)
      case None
      with w1 obtain c where c: "writeCalls evs1 = [c]" "taskWrite env (pending ! k) c"
        by auto
      from a2 None have "list_all2 (taskWrite env) (take k pending @ drop (Suc k) pending) writes2"
        by (simp add: settled_def)
      then obtain us vs where
        split: "writes2 = us @ vs" "list_all2 (taskWrite env) (take k pending) us"
          "list_all2 (taskWrite env) (drop (Suc k) pending) vs"
        by (auto simp: list_all2_append1)
      have "list_all2 (taskWrite env) (take k pending @ (pending ! k) # drop (Suc k) pending)
              (us @ c # vs)"
        using split(2,3) c(2) by (simp add: list_all2_appendI)
      then have "list_all2 (taskWrite env) pending (us @ c # vs)"
        using k by (simp add: id_take_nth_drop [symmetric])
      moreover have "mset (writeCalls (evs1 @ evs2)) = mset (us @ c # vs)"
        using c(1) w2 split(1) by simp
      ultimately show ?thesis
        using tr by blast
    next
      case (Some u)
      with w1 have none: "writeCalls evs1 = []"
        and up: "\<And>c. taskWrite env u c \<Longrightarrow> taskWrite env (pending ! k) c"
        by auto
      from a2 Some k have upd: "list_all2 (taskWrite env) (pending[k := u]) writes2"
        by (simp add: settled_Some)
      have "list_all2 (taskWrite env) pending writes2"
        unfolding list_all2_conv_all_nth
      proof (intro conjI allI impI)
        show "length pending = length writes2"
          using upd by (auto dest: list_all2_lengthD)
      next
        fix i
        assume i: "i < length pending"
        from upd i have at: "taskWrite env (pending[k := u] ! i) (writes2 ! i)"
          by (simp add: list_all2_conv_all_nth)
        show "taskWrite env (pending ! i) (writes2 ! i)"
        proof (cases "i = k")
          case True
          with at k have "taskWrite env u (writes2 ! i)" by simp
          from up [OF this] True show ?thesis by simp
        next
          case False
          with at show ?thesis by simp
        qed
      qed
      moreover have "mset (writeCalls (evs1 @ evs2)) = mset writes2"
        using none w2 by simp
      ultimately show ?thesis
        using tr by blast
    qed
  qed
qed

lemma generateTSXFileConstants_writes:
  assumes "generateTSXFileConstants env defs outDir icons st = (Inr (names, defs'), st')"
  shows "\<exists>evs writes. trace st' = trace st @ evs
      \<and> list_all2 (tsxWrite env (outDir @ ''/'' @ icons)) defs writes
      \<and> mset (writeCalls evs) = mset writes"
proof -
  from assms obtain names0 where
    run: "promiseAll env (map (TsxAwaitConstant outDir icons) (map (capitalizeVariableName env) defs))
            [] st = (Inr names0, st')"
    by (auto simp: generateTSXFileConstants_def Let_def bnd_Inr ret_eq)
  from promiseAll_writes [OF run] obtain evs writes where
    tr: "trace st' = trace st @ evs"
    and al: "list_all2 (taskWrite env)
               (map (TsxAwaitConstant outDir icons) (map (capitalizeVariableName env) defs)) writes"
    and ms: "mset (writeCalls evs) = mset writes"
    by blast
  have same: "taskWrite env (TsxAwaitConstant outDir icons (capitalizeVariableName env d)) c
      = tsxWrite env (outDir @ ''/'' @ icons) d c" for d c
    by (simp add: tsxWrite_def generatedFileName_def capitalizeVariableName_def)
  from al have "list_all2 (tsxWrite env (outDir @ ''/'' @ icons)) defs writes"
    unfolding list_all2_map1 same .
  with tr ms show ?thesis by blast
qed

subsection \<open>Compilation to both module formats (C5)\<close>

text \<open>
  C5. With \<open>compileSources\<close> and the output \<open>ESM_AND_UMD\<close>, the compilation stage of the
  pipeline does this, in this order, each step only if the one before returned: it looks up
  the paths of \<open>outputDirectory/iconsFolderName/*.ts\<close> and \<open>outputDirectory/barrelFileName.ts\<close>;
  compiles the paths found to \<open>outputDirectory/esm\<close>; compiles them to \<open>outputDirectory/umd\<close>;
  deletes the paths found; deletes the folder \<open>outputDirectory/build\<close>. When the stage
  returns, all five calls have returned; when it throws, it is one of the five that threw
  and none of the later ones was made.
\<close>

theorem compile_esm_and_umd_in_order:
  assumes "compileSources opts" and "compilationOutput opts = ESM_AND_UMD"
    and "compileGenerated env opts st = (r, st')"
  shows "let patterns = [outputDirectory opts @ ''/'' @ iconsFolderName opts @ ''/*.ts'',
                         outputDirectory opts @ ''/'' @ barrelFileName opts @ ''.ts''];
             started = StageStart ''Compile TypeScript to JavaScript'';
             lookup = GetFilePathsFromRegex patterns
         in (case r of
               Inr _ \<Rightarrow>
                 (\<exists>paths w. getFilePathsFromRegex env patterns (world st) = (Inr paths, w) \<and>
                    newEvents st st' =
                      [started, Performed lookup,
                       Performed (CompileToEsNext paths (outputDirectory opts @ ''/esm'')),
                       Performed (CompileToUMD paths (outputDirectory opts @ ''/umd'')),
                       Performed (DeleteFiles paths),
                       Performed (DeleteFolder (outputDirectory opts @ ''/build'')),
                       StageEnd ''Compile TypeScript to JavaScript''])
             | Inl e \<Rightarrow>
                 newEvents st st' = [started, Failed lookup e] \<or>
                 (\<exists>paths w. getFilePathsFromRegex env patterns (world st) = (Inr paths, w) \<and>
                    (newEvents st st' =
                       [started, Performed lookup,
                        Failed (CompileToEsNext paths (outputDirectory opts @ ''/esm'')) e] \<or>
                     newEvents st st' =
                       [started, Performed lookup,
                        Performed (CompileToEsNext paths (outputDirectory opts @ ''/esm'')),
                        Failed (CompileToUMD paths (outputDirectory opts @ ''/umd'')) e] \<or>
                     newEvents st st' =
                       [started, Performed lookup,
                        Performed (CompileToEsNext paths (outputDirectory opts @ ''/esm'')),
                        Performed (CompileToUMD paths (outputDirectory opts @ ''/umd'')),
                        Failed (DeleteFiles paths) e] \<or>
                     newEvents st st' =
                       [started, Performed lookup,
                        Performed (CompileToEsNext paths (outputDirectory opts @ ''/esm'')),
                        Performed (CompileToUMD paths (outputDirectory opts @ ''/umd'')),
                        Performed (DeleteFiles paths),
                        Failed (DeleteFolder (outputDirectory opts @ ''/build'')) e])))"
proof (cases r)
  case (Inr u)
  with assms show ?thesis
    by (auto simp: compileGenerated_def callAndMonitorAsync_Inr compileTypeScriptToJS_def
        bnd_Inr io_defs perform_Inr newEvents_def Let_def)
next
  case (Inl e)
  with assms show ?thesis
    by (auto simp: compileGenerated_def callAndMonitorAsync_Inl compileTypeScriptToJS_def
        bnd_Inl bnd_Inr io_defs perform_Inr perform_Inl newEvents_def Let_def)
qed

lemma exampleCompileRun:
  "compileGenerated exampleEnv exampleOptions (exampleState 5 []) = (Inr (), exampleCompileEnd)"
  by (simp add: run_defs exampleCompileEnd_def)

theorem compile_esm_and_umd_in_order_witness:
  "compileSources exampleOptions \<and> compilationOutput exampleOptions = ESM_AND_UMD
   \<and> compileGenerated exampleEnv exampleOptions (exampleState 5 []) = (Inr (), exampleCompileEnd)
   \<and> newEvents (exampleState 5 []) exampleCompileEnd =
       [StageStart ''Compile TypeScript to JavaScript'',
        Performed (GetFilePathsFromRegex [''out/icons/*.ts'', ''out/index.ts'']),
        Performed (CompileToEsNext [''out/index.ts''] ''out/esm''),
        Performed (CompileToUMD [''out/index.ts''] ''out/umd''),
        Performed (DeleteFiles [''out/index.ts'']),
        Performed (DeleteFolder ''out/build''),
        StageEnd ''Compile TypeScript to JavaScript'']"
proof -
  have flags: "compileSources exampleOptions" "compilationOutput exampleOptions = ESM_AND_UMD"
    by (simp_all add: exampleOptions_def)
  have "newEvents (exampleState 5 []) exampleCompileEnd =
       [StageStart ''Compile TypeScript to JavaScript'',
        Performed (GetFilePathsFromRegex [''out/icons/*.ts'', ''out/index.ts'']),
        Performed (CompileToEsNext [''out/index.ts''] ''out/esm''),
        Performed (CompileToUMD [''out/index.ts''] ''out/umd''),
        Performed (DeleteFiles [''out/index.ts'']),
        Performed (DeleteFolder ''out/build''),
        StageEnd ''Compile TypeScript to JavaScript'']"
    using compile_esm_and_umd_in_order [OF flags exampleCompileRun]
    by (auto simp: Let_def exampleOptions_def exampleEnv_def exampleState_def budgeted_def)
  then show ?thesis
    using flags exampleCompileRun by simp
qed

subsection \<open>The example pipeline run\<close>

lemma exampleFilesRun:
  "generatedFiles exampleEnv (exampleWith output) (exampleState 100 [1])
     = (Inr ([''nav-home.icon'', ''nav-back.icon'', ''all''], exampleIcons),
        exampleAt 95 (exampleFilesTrace output))"
  by (simp add: run_defs exampleWith_def exampleFilesTrace_def exampleAt_def)

lemma exampleBarrelRun:
  "barrelFile exampleEnv (exampleWith output) [''nav-home.icon'', ''nav-back.icon'', ''all'']
       (exampleAt 95 (exampleFilesTrace output))
     = (Inr (), exampleAt 94 (exampleFilesTrace output @ exampleBarrelTrace))"
  by (simp add: run_defs exampleWith_def exampleBarrelTrace_def exampleAt_def)

lemma exampleModelRun:
  "modelFiles exampleEnv (exampleWith output) exampleIcons
       (exampleAt 94 (exampleFilesTrace output @ exampleBarrelTrace))
     = (Inr (), exampleAt 91 (exampleFilesTrace output @ exampleBarrelTrace @ exampleModelTrace))"
  by (simp add: run_defs exampleWith_def exampleModelTrace_def exampleAt_def)

subsection \<open>An unrecognized compilation output (C4)\<close>

text \<open>
  C4. Let \<open>compileSources\<close> be set and the compilation output be none of the three members.
  Then the dispatcher, from any state, makes no call but the path lookup: either the lookup
  throws, or the dispatcher returns after logging, as an error, the message that names
  \<open>ESM, UMD, ESM_AND_UMD\<close>. And in a run of the pipeline in which the stages before the
  compilation have returned and the path lookup returns, \<open>convertToFiles\<close> returns: after
  the lookup and the error line, the stage ends and the success line is logged.
\<close>

theorem unrecognized_output_is_logged_and_ignored:
  assumes "compileSources opts" and "compilationOutput opts = Unrecognized v"
    and "generatedFiles env opts st = (Inr (names, defs), st1)"
    and "barrelFile env opts names st1 = (Inr (), st2)"
    and "modelFiles env opts defs st2 = (Inr (), st3)"
    and "getFilePathsFromRegex env
           [outputDirectory opts @ ''/'' @ iconsFolderName opts @ ''/*.ts'',
            outputDirectory opts @ ''/'' @ barrelFileName opts @ ''.ts''] (world st3) = (Inr paths, w)"
  shows "let lookup = GetFilePathsFromRegex
                        [outputDirectory opts @ ''/'' @ iconsFolderName opts @ ''/*.ts'',
                         outputDirectory opts @ ''/'' @ barrelFileName opts @ ''.ts''];
             message = ''Please provide a valid Compilation output. You provided '' @ v @ '' but ''
                        @ [CHR 0x0A] @ ''            valid values are (ESM, UMD, ESM_AND_UMD).''
         in (\<forall>s r s'. compileTypeScriptToJS env (outputDirectory opts) (iconsFolderName opts)
                         (barrelFileName opts) (Unrecognized v) s = (r, s') \<longrightarrow>
                 (case r of Inl e \<Rightarrow> newEvents s s' = [Failed lookup e]
                          | Inr _ \<Rightarrow> newEvents s s' = [Performed lookup, LogError message]))
          \<and> convertToFiles env opts st =
              (Inr defs,
               st3\<lparr>world := w,
                   trace := trace st3 @
                     [StageStart ''Compile TypeScript to JavaScript'', Performed lookup,
                      LogError message, StageEnd ''Compile TypeScript to JavaScript'',
                      LogGenerationSuccess (outputDirectory opts)]\<rparr>)"
proof -
  have dispatcher:
    "case r of
       Inl e \<Rightarrow> newEvents s s' =
         [Failed (GetFilePathsFromRegex
                    [outputDirectory opts @ ''/'' @ iconsFolderName opts @ ''/*.ts'',
                     outputDirectory opts @ ''/'' @ barrelFileName opts @ ''.ts'']) e]
     | Inr _ \<Rightarrow> newEvents s s' =
         [Performed (GetFilePathsFromRegex
                       [outputDirectory opts @ ''/'' @ iconsFolderName opts @ ''/*.ts'',
                        outputDirectory opts @ ''/'' @ barrelFileName opts @ ''.ts'']),
          LogError (''Please provide a valid Compilation output. You provided '' @ v @ '' but ''
                    @ [CHR 0x0A] @ ''            valid values are (ESM, UMD, ESM_AND_UMD).'')]"
    if "compileTypeScriptToJS env (outputDirectory opts) (iconsFolderName opts)
          (barrelFileName opts) (Unrecognized v) s = (r, s')" for s r s'
  proof (cases r)
    case (Inl e)
    with that show ?thesis
      by (auto simp: compileTypeScriptToJS_def bnd_Inl io_defs perform_Inl perform_Inr emit_eq
          newEvents_def)
  next
    case (Inr u)
    with that show ?thesis
      by (auto simp: compileTypeScriptToJS_def bnd_Inr io_defs perform_Inr emit_eq
          invalidCompilationOutput_def newEvents_def)
  qed
  have pipeline: "convertToFiles env opts st =
      (Inr defs,
       st3\<lparr>world := w,
           trace := trace st3 @
             [StageStart ''Compile TypeScript to JavaScript'',
              Performed (GetFilePathsFromRegex
                       [outputDirectory opts @ ''/'' @ iconsFolderName opts @ ''/*.ts'',
                        outputDirectory opts @ ''/'' @ barrelFileName opts @ ''.ts'']),
              LogError (''Please provide a valid Compilation output. You provided '' @ v @ '' but ''
                    @ [CHR 0x0A] @ ''            valid values are (ESM, UMD, ESM_AND_UMD).''),
              StageEnd ''Compile TypeScript to JavaScript'',
              LogGenerationSuccess (outputDirectory opts)]\<rparr>)"
    using assms
    by (simp add: convertToFiles_def bnd_def compileGenerated_def callAndMonitorAsync_def
        compileTypeScriptToJS_def io_defs perform_def emit_def ret_def invalidCompilationOutput_def)
  from dispatcher pipeline show ?thesis
    unfolding Let_def by blast
qed

theorem unrecognized_output_is_logged_and_ignored_witness:
  "compileSources (exampleWith (Unrecognized ''CJS''))
   \<and> compilationOutput (exampleWith (Unrecognized ''CJS'')) = Unrecognized ''CJS''
   \<and> generatedFiles exampleEnv (exampleWith (Unrecognized ''CJS'')) (exampleState 100 [1])
      = (Inr ([''nav-home.icon'', ''nav-back.icon'', ''all''], exampleIcons),
         exampleAt 95 (exampleFilesTrace (Unrecognized ''CJS'')))
   \<and> convertToFiles exampleEnv (exampleWith (Unrecognized ''CJS'')) (exampleState 100 [1])
      = (Inr exampleIcons,
         exampleAt 90
           (exampleFilesTrace (Unrecognized ''CJS'') @ exampleBarrelTrace @ exampleModelTrace @
            [StageStart ''Compile TypeScript to JavaScript'',
             Performed (GetFilePathsFromRegex [''out/icons/*.ts'', ''out/index.ts'']),
             LogError (''Please provide a valid Compilation output. You provided CJS but ''
                       @ [CHR 0x0A] @ ''            valid values are (ESM, UMD, ESM_AND_UMD).''),
             StageEnd ''Compile TypeScript to JavaScript'',
             LogGenerationSuccess ''out'']))"
proof -
  have flags: "compileSources (exampleWith (Unrecognized ''CJS''))"
    "compilationOutput (exampleWith (Unrecognized ''CJS'')) = Unrecognized ''CJS''"
    by (simp_all add: exampleWith_def exampleOptions_def)
  have lookup: "getFilePathsFromRegex exampleEnv
       [outputDirectory (exampleWith (Unrecognized ''CJS'')) @ ''/''
          @ iconsFolderName (exampleWith (Unrecognized ''CJS'')) @ ''/*.ts'',
        outputDirectory (exampleWith (Unrecognized ''CJS'')) @ ''/''
          @ barrelFileName (exampleWith (Unrecognized ''CJS'')) @ ''.ts'']
       (world (exampleAt 91 (exampleFilesTrace (Unrecognized ''CJS'') @ exampleBarrelTrace
                 @ exampleModelTrace)))
     = (Inr [''out/index.ts''], 90)"
    by (simp add: exampleEnv_def exampleAt_def budgeted_def)
  have "convertToFiles exampleEnv (exampleWith (Unrecognized ''CJS'')) (exampleState 100 [1])
      = (Inr exampleIcons,
         exampleAt 90
           (exampleFilesTrace (Unrecognized ''CJS'') @ exampleBarrelTrace @ exampleModelTrace @
            [StageStart ''Compile TypeScript to JavaScript'',
             Performed (GetFilePathsFromRegex [''out/icons/*.ts'', ''out/index.ts'']),
             LogError (''Please provide a valid Compilation output. You provided CJS but ''
                       @ [CHR 0x0A] @ ''            valid values are (ESM, UMD, ESM_AND_UMD).''),
             StageEnd ''Compile TypeScript to JavaScript'',
             LogGenerationSuccess ''out'']))"
    using unrecognized_output_is_logged_and_ignored
      [OF flags exampleFilesRun exampleBarrelRun exampleModelRun lookup]
    by (simp add: Let_def exampleWith_def exampleOptions_def exampleAt_def)
  then show ?thesis
    using flags exampleFilesRun by simp
qed

subsection \<open>The run up to the barrel file\<close>

text \<open>What has happened when the stages before the barrel file have all returned.\<close>

lemma ingest_Inr:
  assumes "ingest env opts st = (Inr ingested, st1)"
  shows "\<exists>w0 w1. deleteFolder env (outputDirectory opts @ ''/'' @ iconsFolderName opts) (world st) = (Inr (), w0)
      \<and> filesProcessor env opts w0 = (Inr ingested, w1)
      \<and> trace st1 = trace st @
          [StageStart ''Deleting the output folder'',
           Performed (DeleteFolder (outputDirectory opts @ ''/'' @ iconsFolderName opts)),
           StageEnd ''Deleting the output folder'',
           StageStart ''Processing SVG files'',
           Performed (FilesProcessor opts),
           StageEnd ''Processing SVG files'']"
  using assms
  by (auto simp: ingest_def bnd_Inr callAndMonitorAsync_Inr io_defs perform_Inr)

lemma generateConstants_Inr:
  assumes "generateConstants env opts ingested st = (Inr (names, defs), st1)"
  shows "\<exists>evs. trace st1 = trace st
          @ [StageStart (if tsx opts then ''Generate TSX constants'' else ''Generate SVG constants'')]
          @ evs
          @ [StageEnd (if tsx opts then ''Generate TSX constants'' else ''Generate SVG constants'')]
      \<and> mset names = mset (map generatedFileName ingested)
      \<and> (\<not> tsx opts \<longrightarrow> names = map generatedFileName ingested)
      \<and> defs = (if tsx opts then map (capitalizeVariableName env) ingested else ingested)
      \<and> \<not> list_ex isMarker evs \<and> \<not> list_ex isFailed evs
      \<and> mset (writtenFiles evs)
          = mset (map (\<lambda>d. (outputDirectory opts @ ''/'' @ iconsFolderName opts,
                             Some (generatedFileName d), if tsx opts then Some TSX else None)) ingested)
      \<and> mset (tsxGenerations evs)
          = (if tsx opts then mset (map (\<lambda>d. (capitalize env (variableName d), data d)) ingested)
             else {#})"
proof (cases "tsx opts")
  case True
  with assms obtain st0 where
    run: "generateTSXFileConstants env ingested (outputDirectory opts) (iconsFolderName opts)
            (st\<lparr>trace := trace st @ [StageStart ''Generate TSX constants'']\<rparr>)
          = (Inr (names, defs), st0)"
    and st1: "st1 = st0\<lparr>trace := trace st0 @ [StageEnd ''Generate TSX constants'']\<rparr>"
    by (auto simp: generateConstants_def callAndMonitorAsync_Inr)
  from generateTSXFileConstants_Inr [OF run] True st1 show ?thesis
    by auto
next
  case False
  with assms obtain st0 where
    run: "generateSVGConstants env ingested (outputDirectory opts) (iconsFolderName opts)
            (st\<lparr>trace := trace st @ [StageStart ''Generate SVG constants'']\<rparr>)
          = (Inr names, st0)"
    and st1: "st1 = st0\<lparr>trace := trace st0 @ [StageEnd ''Generate SVG constants'']\<rparr>"
    and defs: "defs = ingested"
    by (auto simp: generateConstants_def callAndMonitorAsync_Inr bnd_Inr ret_eq)
  from generateSVGConstants_Inr [OF run] False st1 defs show ?thesis
    by auto
qed

lemma exportCompleteSet_Inr:
  assumes "exportCompleteSet env opts perIcon defs st = (Inr names, st1)"
  shows "names = perIcon @ (if exportCompleteIconSet opts then [completeIconSetName opts] else [])
      \<and> trace st1 = trace st @
          (if exportCompleteIconSet opts
           then [StageStart ''Export complete icon set'',
                 Performed (WriteFile (outputDirectory opts @ ''/'' @ iconsFolderName opts)
                    (Some (completeIconSetName opts))
                    (generateCompleteIconSetContent env defs (completeIconSetName opts)
                       (interfaceName opts) (modelFileName opts) (generateType opts) (tsx opts))
                    None),
                 StageEnd ''Export complete icon set'']
           else [])"
  using assms
  by (auto simp: exportCompleteSet_def generateCompleteIconSet_def Let_def bnd_Inr ret_eq
      callAndMonitorAsync_Inr io_defs perform_Inr split: if_splits)

lemma generatedFiles_Inr:
  assumes "generatedFiles env opts st = (Inr (names, defs), st1)"
  shows "\<exists>ingested perIcon evs w0 w1.
        filesProcessor env opts w0 = (Inr ingested, w1)
      \<and> defs = (if tsx opts then map (capitalizeVariableName env) ingested else ingested)
      \<and> mset perIcon = mset (map generatedFileName ingested)
      \<and> names = perIcon @ (if exportCompleteIconSet opts then [completeIconSetName opts] else [])
      \<and> \<not> list_ex isMarker evs \<and> \<not> list_ex isFailed evs
      \<and> mset (writtenFiles evs)
          = mset (map (\<lambda>d. (outputDirectory opts @ ''/'' @ iconsFolderName opts,
                             Some (generatedFileName d), if tsx opts then Some TSX else None)) ingested)
      \<and> mset (tsxGenerations evs)
          = (if tsx opts then mset (map (\<lambda>d. (capitalize env (variableName d), data d)) ingested)
             else {#})
      \<and> trace st1 = trace st @
          [StageStart ''Deleting the output folder'',
           Performed (DeleteFolder (outputDirectory opts @ ''/'' @ iconsFolderName opts)),
           StageEnd ''Deleting the output folder'',
           StageStart ''Processing SVG files'',
           Performed (FilesProcessor opts),
           StageEnd ''Processing SVG files'',
           StageStart (if tsx opts then ''Generate TSX constants'' else ''Generate SVG constants'')]
          @ evs
          @ [StageEnd (if tsx opts then ''Generate TSX constants'' else ''Generate SVG constants'')]
          @ (if exportCompleteIconSet opts
             then [StageStart ''Export complete icon set'',
                   Performed (WriteFile (outputDirectory opts @ ''/'' @ iconsFolderName opts)
                      (Some (completeIconSetName opts))
                      (generateCompleteIconSetContent env defs (completeIconSetName opts)
                         (interfaceName opts) (modelFileName opts) (generateType opts) (tsx opts))
                      None),
                   StageEnd ''Export complete icon set'']
             else [])"
proof -
  from assms obtain ingested sa perIcon sb where
    a: "ingest env opts st = (Inr ingested, sa)"
    and b: "generateConstants env opts ingested sa = (Inr (perIcon, defs), sb)"
    and c: "exportCompleteSet env opts perIcon defs sb = (Inr names, st1)"
    by (auto simp: generatedFiles_def bnd_Inr ret_eq)
  from ingest_Inr [OF a] obtain w0 w1 where
    a': "filesProcessor env opts w0 = (Inr ingested, w1)"
      "trace sa = trace st @
          [StageStart ''Deleting the output folder'',
           Performed (DeleteFolder (outputDirectory opts @ ''/'' @ iconsFolderName opts)),
           StageEnd ''Deleting the output folder'',
           StageStart ''Processing SVG files'',
           Performed (FilesProcessor opts),
           StageEnd ''Processing SVG files'']"
    by blast
  from generateConstants_Inr [OF b] obtain evs where
    b': "trace sb = trace sa
          @ [StageStart (if tsx opts then ''Generate TSX constants'' else ''Generate SVG constants'')]
          @ evs
          @ [StageEnd (if tsx opts then ''Generate TSX constants'' else ''Generate SVG constants'')]"
      "mset perIcon = mset (map generatedFileName ingested)"
      "defs = (if tsx opts then map (capitalizeVariableName env) ingested else ingested)"
      "\<not> list_ex isMarker evs" "\<not> list_ex isFailed evs"
      "mset (writtenFiles evs)
          = mset (map (\<lambda>d. (outputDirectory opts @ ''/'' @ iconsFolderName opts,
                             Some (generatedFileName d), if tsx opts then Some TSX else None)) ingested)"
      "mset (tsxGenerations evs)
          = (if tsx opts then mset (map (\<lambda>d. (capitalize env (variableName d), data d)) ingested)
             else {#})"
    by blast
  note c' = exportCompleteSet_Inr [OF c]
  have "trace st1 = trace st @
          [StageStart ''Deleting the output folder'',
           Performed (DeleteFolder (outputDirectory opts @ ''/'' @ iconsFolderName opts)),
           StageEnd ''Deleting the output folder'',
           StageStart ''Processing SVG files'',
           Performed (FilesProcessor opts),
           StageEnd ''Processing SVG files'',
           StageStart (if tsx opts then ''Generate TSX constants'' else ''Generate SVG constants'')]
          @ evs
          @ [StageEnd (if tsx opts then ''Generate TSX constants'' else ''Generate SVG constants'')]
          @ (if exportCompleteIconSet opts
             then [StageStart ''Export complete icon set'',
                   Performed (WriteFile (outputDirectory opts @ ''/'' @ iconsFolderName opts)
                      (Some (completeIconSetName opts))
                      (generateCompleteIconSetContent env defs (completeIconSetName opts)
                         (interfaceName opts) (modelFileName opts) (generateType opts) (tsx opts))
                      None),
                   StageEnd ''Export complete icon set'']
             else [])"
    using a'(2) b'(1) c' by simp
  with a'(1) b'(2-) c' show ?thesis
    by blast
qed


subsection \<open>Every exported name has been written (C8)\<close>



subsection \<open>The barrel file (C1)\<close>

text \<open>
  C1. Whenever the pipeline gets as far as the barrel file (that is, \<open>generatedFiles\<close> has
  returned the names), the barrel stage does one thing after generating the type helper: it
  writes, into \<open>outputDirectory\<close> and under \<open>barrelFileName\<close>, the concatenation of the
  type-helper import (of the interface name, the icons folder and the model file name), then
  one export statement per name of the sequence, in the order of the sequence and each
  against the icons folder, then the export statement of the model file name, whether or not
  a model file name is configured. The names of the sequence are those of the per-icon
  files, one per definition (in completion order, hence as a multiset), followed by the name
  of the complete icon set when \<open>exportCompleteIconSet\<close> is set; so the export statements are
  those of the per-icon names, of the complete icon set if enabled, and of the model file
  name. This barrel stage is the one of the run of \<open>convertToFiles\<close> from the same initial
  state: if the write throws, \<open>convertToFiles\<close> throws there, and otherwise it goes on with
  the model file.
\<close>

theorem barrel_file_content:
  assumes "generatedFiles env opts st = (Inr (names, defs), st1)"
    and "barrelFile env opts names st1 = (r, st2)"
  shows "let icons = iconsFolderName opts;
             export = (\<lambda>name. generateExportStatement env name icons);
             content = generateTypeHelperWithImport env (interfaceName opts) icons (modelFileName opts)
                       @ concat (map (\<lambda>n. export (Some n)) names)
                       @ export (modelFileName opts);
             write = WriteFile (outputDirectory opts) (Some (barrelFileName opts)) content None;
             perIcon = map (\<lambda>d. prefix d @ ''-'' @ filenameWithoutEnding d @ ''.icon'') defs
         in newEvents st1 st2 =
              [StageStart ''Generate Type Helper'', StageEnd ''Generate Type Helper'',
               StageStart ''Generate barrel file'']
              @ (case r of Inr _ \<Rightarrow> [Performed write, StageEnd ''Generate barrel file'']
                         | Inl e \<Rightarrow> [Failed write e])
          \<and> mset names = mset perIcon
               + (if exportCompleteIconSet opts then {#completeIconSetName opts#} else {#})
          \<and> set (map (\<lambda>n. export (Some n)) names) \<union> {export (modelFileName opts)}
              = export ` (Some ` set perIcon
                          \<union> (if exportCompleteIconSet opts then {Some (completeIconSetName opts)} else {})
                          \<union> {modelFileName opts})
          \<and> convertToFiles env opts st =
              (case r of
                 Inl e \<Rightarrow> (Inl e, st2)
               | Inr _ \<Rightarrow>
                   bnd (modelFiles env opts defs) (\<lambda>_.
                   bnd (compileGenerated env opts) (\<lambda>_.
                   bnd (emit (LogGenerationSuccess (outputDirectory opts))) (\<lambda>_.
                   ret defs))) st2)"
proof -
  let ?perIcon = "map (\<lambda>d. prefix d @ ''-'' @ filenameWithoutEnding d @ ''.icon'') defs"
  from generatedFiles_Inr [OF assms(1)] obtain ingested perIcon where
    defs: "defs = (if tsx opts then map (capitalizeVariableName env) ingested else ingested)"
    and perIcon: "mset perIcon = mset (map generatedFileName ingested)"
    and names: "names = perIcon @ (if exportCompleteIconSet opts then [completeIconSetName opts] else [])"
    by blast
  have "map generatedFileName ingested = ?perIcon"
    using defs by (simp add: generatedFileName_def capitalizeVariableName_def)
  with perIcon have per: "mset perIcon = mset ?perIcon"
    by simp
  then have mnames: "mset names = mset ?perIcon
      + (if exportCompleteIconSet opts then {#completeIconSetName opts#} else {#})"
    using names by simp
  have "set names = set ?perIcon \<union> (if exportCompleteIconSet opts then {completeIconSetName opts} else {})"
    using names mset_eq_setD [OF per] by auto
  then have exports:
    "set (map (\<lambda>n. generateExportStatement env (Some n) (iconsFolderName opts)) names)
       \<union> {generateExportStatement env (modelFileName opts) (iconsFolderName opts)}
     = (\<lambda>name. generateExportStatement env name (iconsFolderName opts))
         ` (Some ` set ?perIcon
            \<union> (if exportCompleteIconSet opts then {Some (completeIconSetName opts)} else {})
            \<union> {modelFileName opts})"
    by (auto simp: image_Un image_image)
  have events: "newEvents st1 st2 =
      [StageStart ''Generate Type Helper'', StageEnd ''Generate Type Helper'',
       StageStart ''Generate barrel file'']
      @ (case r of
           Inr _ \<Rightarrow>
             [Performed (WriteFile (outputDirectory opts) (Some (barrelFileName opts))
                (generateTypeHelperWithImport env (interfaceName opts) (iconsFolderName opts) (modelFileName opts)
                 @ concat (map (\<lambda>n. generateExportStatement env (Some n) (iconsFolderName opts)) names)
                 @ generateExportStatement env (modelFileName opts) (iconsFolderName opts)) None),
              StageEnd ''Generate barrel file'']
         | Inl e \<Rightarrow>
             [Failed (WriteFile (outputDirectory opts) (Some (barrelFileName opts))
                (generateTypeHelperWithImport env (interfaceName opts) (iconsFolderName opts) (modelFileName opts)
                 @ concat (map (\<lambda>n. generateExportStatement env (Some n) (iconsFolderName opts)) names)
                 @ generateExportStatement env (modelFileName opts) (iconsFolderName opts)) None) e])"
  proof (cases r)
    case (Inr u)
    with assms(2) show ?thesis
      by (auto simp: barrelFile_def bnd_Inr callAndMonitor_eq callAndMonitorAsync_Inr io_defs
          perform_Inr newEvents_def)
  next
    case (Inl e)
    with assms(2) show ?thesis
      by (auto simp: barrelFile_def bnd_Inl callAndMonitor_eq callAndMonitorAsync_Inl io_defs
          perform_Inl newEvents_def)
  qed
  have pipeline: "convertToFiles env opts st =
      (case r of
         Inl e \<Rightarrow> (Inl e, st2)
       | Inr _ \<Rightarrow>
           bnd (modelFiles env opts defs) (\<lambda>_.
           bnd (compileGenerated env opts) (\<lambda>_.
           bnd (emit (LogGenerationSuccess (outputDirectory opts))) (\<lambda>_.
           ret defs))) st2)"
    using assms
    by (simp add: convertToFiles_def bnd_def [of "generatedFiles env opts"]
        bnd_def [of "barrelFile env opts names"] split: sum.splits)
  from events mnames exports pipeline show ?thesis
    unfolding Let_def by blast
qed

theorem barrel_file_content_witness:
  "generatedFiles exampleEnv (exampleWith UMD) (exampleState 100 [1])
     = (Inr ([''nav-home.icon'', ''nav-back.icon'', ''all''], exampleIcons),
        exampleAt 95 (exampleFilesTrace UMD))
   \<and> barrelFile exampleEnv (exampleWith UMD) [''nav-home.icon'', ''nav-back.icon'', ''all'']
       (exampleAt 95 (exampleFilesTrace UMD))
     = (Inr (), exampleAt 94 (exampleFilesTrace UMD @ exampleBarrelTrace))
   \<and> newEvents (exampleAt 95 (exampleFilesTrace UMD))
        (exampleAt 94 (exampleFilesTrace UMD @ exampleBarrelTrace))
     = [StageStart ''Generate Type Helper'', StageEnd ''Generate Type Helper'',
        StageStart ''Generate barrel file'',
        Performed (WriteFile ''out'' (Some ''index'')
          ''import Icon;export icons/nav-home.icon;export icons/nav-back.icon;export icons/all;export icons/model;''
          None),
        StageEnd ''Generate barrel file'']"
proof -
  have "newEvents (exampleAt 95 (exampleFilesTrace UMD))
        (exampleAt 94 (exampleFilesTrace UMD @ exampleBarrelTrace))
     = [StageStart ''Generate Type Helper'', StageEnd ''Generate Type Helper'',
        StageStart ''Generate barrel file'',
        Performed (WriteFile ''out'' (Some ''index'')
          ''import Icon;export icons/nav-home.icon;export icons/nav-back.icon;export icons/all;export icons/model;''
          None),
        StageEnd ''Generate barrel file'']"
    using barrel_file_content [OF exampleFilesRun [of UMD] exampleBarrelRun [of UMD]]
    by (simp add: Let_def exampleWith_def exampleOptions_def exampleEnv_def)
  then show ?thesis
    using exampleFilesRun [of UMD] exampleBarrelRun [of UMD] by simp
qed

subsection \<open>The model file is written twice to the additional path (C10)\<close>

text \<open>
  C10. With a model file name and an additional output path both configured, a model stage
  that returns has made three writes of the same content (type, interface, enum) under the
  model file name: into the icons folder and into the additional path by
  \<open>generateModelFile\<close>, and into the additional path once more by \<open>convertToFiles\<close> itself,
  from the content the generator returned.
\<close>

theorem model_file_written_twice_to_additional_path:
  assumes "truthy (modelFileName opts)" and "truthy (additionalModelOutputPath opts)"
    and "modelFiles env opts defs st = (Inr (), st')"
  shows "let content = generateTypeDefinition env opts defs @ generateInterfaceDefinition env opts
                         @ generateEnumDefinition env opts defs;
             primary = WriteFile (outputDirectory opts @ ''/'' @ iconsFolderName opts)
                         (modelFileName opts) content None;
             copy = WriteFile (js_str (additionalModelOutputPath opts)) (modelFileName opts) content None
         in newEvents st st' =
              [StageStart ''Generate model file'',
               Performed primary,
               LogVerboseInfo (''model-file successfully generated under '' @ outputDirectory opts
                  @ ''/'' @ iconsFolderName opts @ ''/'' @ js_str (modelFileName opts) @ ''.ts''),
               Performed copy,
               LogVerboseInfo (''additional model-file successfully generated under ''
                  @ js_str (additionalModelOutputPath opts) @ ''/'' @ js_str (modelFileName opts) @ ''.ts''),
               StageEnd ''Generate model file'',
               StageStart ''Write model file to additional output path'',
               Performed copy,
               StageEnd ''Write model file to additional output path'']
          \<and> performedCalls (newEvents st st') = [primary, copy, copy]"
  using assms
  by (auto simp: modelFiles_def generateModelFile_def Let_def bnd_Inr emit_eq ret_eq
      callAndMonitorAsync_Inr io_defs perform_Inr newEvents_def)

theorem model_file_written_twice_to_additional_path_witness:
  "truthy (modelFileName (exampleWith ESM)) \<and> truthy (additionalModelOutputPath (exampleWith ESM))
   \<and> modelFiles exampleEnv (exampleWith ESM) exampleIcons
       (exampleAt 94 (exampleFilesTrace ESM @ exampleBarrelTrace))
     = (Inr (), exampleAt 91 (exampleFilesTrace ESM @ exampleBarrelTrace @ exampleModelTrace))
   \<and> performedCalls (newEvents (exampleAt 94 (exampleFilesTrace ESM @ exampleBarrelTrace))
        (exampleAt 91 (exampleFilesTrace ESM @ exampleBarrelTrace @ exampleModelTrace)))
     = [WriteFile ''out/icons'' (Some ''model'') ''type;interface;enum;'' None,
        WriteFile ''extra'' (Some ''model'') ''type;interface;enum;'' None,
        WriteFile ''extra'' (Some ''model'') ''type;interface;enum;'' None]"
proof -
  have configured: "truthy (modelFileName (exampleWith ESM))"
    "truthy (additionalModelOutputPath (exampleWith ESM))"
    by (simp_all add: exampleWith_def exampleOptions_def)
  have "performedCalls (newEvents (exampleAt 94 (exampleFilesTrace ESM @ exampleBarrelTrace))
        (exampleAt 91 (exampleFilesTrace ESM @ exampleBarrelTrace @ exampleModelTrace)))
     = [WriteFile ''out/icons'' (Some ''model'') ''type;interface;enum;'' None,
        WriteFile ''extra'' (Some ''model'') ''type;interface;enum;'' None,
        WriteFile ''extra'' (Some ''model'') ''type;interface;enum;'' None]"
    using model_file_written_twice_to_additional_path [OF configured exampleModelRun [of ESM]]
    by (simp add: Let_def exampleWith_def exampleOptions_def exampleEnv_def)
  then show ?thesis
    using configured exampleModelRun [of ESM] by simp
qed

subsection \<open>What the pipeline does to the definitions (C9)\<close>

text \<open>The stages after the per-icon files never call the TSX generator.\<close>

lemma barrelFile_Inr:
  assumes "barrelFile env opts names st = (Inr u, st')"
  shows "\<exists>evs. trace st' = trace st @ evs \<and> tsxGenerations evs = []"
  using assms
  by (auto simp: barrelFile_def bnd_Inr callAndMonitor_eq callAndMonitorAsync_Inr io_defs perform_Inr)

lemma modelFiles_Inr:
  assumes "modelFiles env opts defs st = (Inr u, st')"
  shows "\<exists>evs. trace st' = trace st @ evs \<and> tsxGenerations evs = []"
  using assms
  by (auto simp: modelFiles_def generateModelFile_def Let_def bnd_Inr emit_eq ret_eq
      callAndMonitorAsync_Inr io_defs perform_Inr split: if_splits)

lemma compileTypeScriptToJS_Inr:
  assumes "compileTypeScriptToJS env outDir icons barrel selected st = (Inr u, st')"
  shows "\<exists>evs. trace st' = trace st @ evs \<and> tsxGenerations evs = []"
  using assms
  by (cases selected)
     (auto simp: compileTypeScriptToJS_def bnd_Inr emit_eq io_defs perform_Inr)

lemma compileGenerated_Inr:
  assumes "compileGenerated env opts st = (Inr u, st')"
  shows "\<exists>evs. trace st' = trace st @ evs \<and> tsxGenerations evs = []"
proof (cases "compileSources opts")
  case True
  with assms obtain s where
    "compileTypeScriptToJS env (outputDirectory opts) (iconsFolderName opts) (barrelFileName opts)
       (compilationOutput opts) (st\<lparr>trace := trace st @ [StageStart ''Compile TypeScript to JavaScript'']\<rparr>)
     = (Inr u, s)"
    and "st' = s\<lparr>trace := trace s @ [StageEnd ''Compile TypeScript to JavaScript'']\<rparr>"
    by (auto simp: compileGenerated_def callAndMonitorAsync_Inr)
  with compileTypeScriptToJS_Inr [OF this(1)] show ?thesis
    by auto
next
  case False
  with assms show ?thesis
    by (simp add: compileGenerated_def ret_eq)
qed

text \<open>
  C9. Take a run of \<open>convertToFiles\<close> that returns, and the definitions it leaves. They are
  definitions that \<open>filesProcessor\<close> returned for these options; in SVG mode they are these
  definitions unchanged, in every field, and the TSX generator is never called; in TSX mode
  they differ from them in the variable name only, which is
  \<open>toUpperCase\<close> of the first character followed by the rest unchanged, and the calls of the
  TSX generator are, one per definition, those with the variable name so changed.
  (The later stages receive the definitions as the per-icon stage left them; the
  code-snippet generators are pure and do not assign to them.)
\<close>

theorem definitions_change_in_tsx_mode_only:
  assumes "convertToFiles env opts st = (Inr finalDefinitions, st')"
  shows "\<exists>ingested w0 w1.
           filesProcessor env opts w0 = (Inr ingested, w1)
         \<and> (if tsx opts
            then finalDefinitions
                   = map (\<lambda>d. d\<lparr>variableName :=
                                    toUpperCase env (take 1 (variableName d)) @ drop 1 (variableName d)\<rparr>)
                         ingested
               \<and> mset (tsxGenerations (newEvents st st'))
                   = mset (map (\<lambda>d. (toUpperCase env (take 1 (variableName d)) @ drop 1 (variableName d),
                                      data d)) ingested)
            else finalDefinitions = ingested \<and> tsxGenerations (newEvents st st') = [])"
proof -
  from assms obtain names defs s1 u2 s2 u3 s3 u4 s4 where
    files: "generatedFiles env opts st = (Inr (names, defs), s1)"
    and barrel: "barrelFile env opts names s1 = (Inr u2, s2)"
    and model: "modelFiles env opts defs s2 = (Inr u3, s3)"
    and compile: "compileGenerated env opts s3 = (Inr u4, s4)"
    and final: "finalDefinitions = defs"
      "st' = s4\<lparr>trace := trace s4 @ [LogGenerationSuccess (outputDirectory opts)]\<rparr>"
    by (auto simp: convertToFiles_def bnd_Inr emit_eq ret_eq)
  from generatedFiles_Inr [OF files] obtain ingested evs w0 w1 pre post where
    ing: "filesProcessor env opts w0 = (Inr ingested, w1)"
    and defs: "defs = (if tsx opts then map (capitalizeVariableName env) ingested else ingested)"
    and gens: "mset (tsxGenerations evs)
          = (if tsx opts then mset (map (\<lambda>d. (capitalize env (variableName d), data d)) ingested)
             else {#})"
    and pre: "pre = [StageStart ''Deleting the output folder'',
           Performed (DeleteFolder (outputDirectory opts @ ''/'' @ iconsFolderName opts)),
           StageEnd ''Deleting the output folder'',
           StageStart ''Processing SVG files'',
           Performed (FilesProcessor opts),
           StageEnd ''Processing SVG files'',
           StageStart (if tsx opts then ''Generate TSX constants'' else ''Generate SVG constants'')]"
    and post: "post = [StageEnd (if tsx opts then ''Generate TSX constants'' else ''Generate SVG constants'')]
          @ (if exportCompleteIconSet opts
             then [StageStart ''Export complete icon set'',
                   Performed (WriteFile (outputDirectory opts @ ''/'' @ iconsFolderName opts)
                      (Some (completeIconSetName opts))
                      (generateCompleteIconSetContent env defs (completeIconSetName opts)
                         (interfaceName opts) (modelFileName opts) (generateType opts) (tsx opts))
                      None),
                   StageEnd ''Export complete icon set'']
             else [])"
    and t1: "trace s1 = trace st @ pre @ evs @ post"
    by (metis (no_types, lifting) append.assoc)
  from barrelFile_Inr [OF barrel] obtain e2 where
    t2: "trace s2 = trace s1 @ e2" "tsxGenerations e2 = []" by blast
  from modelFiles_Inr [OF model] obtain e3 where
    t3: "trace s3 = trace s2 @ e3" "tsxGenerations e3 = []" by blast
  from compileGenerated_Inr [OF compile] obtain e4 where
    t4: "trace s4 = trace s3 @ e4" "tsxGenerations e4 = []" by blast
  have "trace st' = trace st @ (pre @ evs @ post @ e2 @ e3 @ e4
          @ [LogGenerationSuccess (outputDirectory opts)])"
    using final(2) t1 t2(1) t3(1) t4(1) by simp
  then have "newEvents st st' = pre @ evs @ post @ e2 @ e3 @ e4
          @ [LogGenerationSuccess (outputDirectory opts)]"
    by (rule newEvents_append)
  then have "tsxGenerations (newEvents st st') = tsxGenerations evs"
    using t2(2) t3(2) t4(2) by (simp add: pre post)
  with gens defs final(1) have
    "if tsx opts
     then finalDefinitions
            = map (\<lambda>d. d\<lparr>variableName :=
                             toUpperCase env (take 1 (variableName d)) @ drop 1 (variableName d)\<rparr>)
                  ingested
        \<and> mset (tsxGenerations (newEvents st st'))
            = mset (map (\<lambda>d. (toUpperCase env (take 1 (variableName d)) @ drop 1 (variableName d),
                               data d)) ingested)
     else finalDefinitions = ingested \<and> tsxGenerations (newEvents st st') = []"
    by (auto simp: capitalize_def capitalizeVariableName_def split: if_splits)
  with ing show ?thesis
    by blast
qed

lemma exampleTsxPipelineRun:
  "convertToFiles exampleEnv exampleTsxOptions (exampleState 100 [1, 1, 0])
     = (Inr exampleTsxIcons, exampleAt 93 exampleTsxPipelineTrace)"
  by (simp add: run_defs exampleTsxOptions_def exampleTsxPipelineTrace_def exampleTsxIcons_def
      exampleAt_def)

theorem definitions_change_in_tsx_mode_only_witness:
  "convertToFiles exampleEnv exampleTsxOptions (exampleState 100 [1, 1, 0])
     = (Inr exampleTsxIcons, exampleAt 93 exampleTsxPipelineTrace)
   \<and> (\<exists>ingested w0 w1.
         filesProcessor exampleEnv exampleTsxOptions w0 = (Inr ingested, w1)
       \<and> exampleTsxIcons
           = map (\<lambda>d. d\<lparr>variableName := map asciiUpper (take 1 (variableName d)) @ drop 1 (variableName d)\<rparr>)
                 ingested
       \<and> mset (tsxGenerations (newEvents (exampleState 100 [1, 1, 0]) (exampleAt 93 exampleTsxPipelineTrace)))
           = mset (map (\<lambda>d. (map asciiUpper (take 1 (variableName d)) @ drop 1 (variableName d), data d))
                       ingested))"
proof -
  have mode: "tsx exampleTsxOptions" "toUpperCase exampleEnv = map asciiUpper"
    by (simp_all add: exampleTsxOptions_def exampleOptions_def exampleEnv_def)
  from definitions_change_in_tsx_mode_only [OF exampleTsxPipelineRun] mode(1)
  have "\<exists>ingested w0 w1.
         filesProcessor exampleEnv exampleTsxOptions w0 = (Inr ingested, w1)
       \<and> exampleTsxIcons
           = map (\<lambda>d. d\<lparr>variableName := map asciiUpper (take 1 (variableName d)) @ drop 1 (variableName d)\<rparr>)
                 ingested
       \<and> mset (tsxGenerations (newEvents (exampleState 100 [1, 1, 0]) (exampleAt 93 exampleTsxPipelineTrace)))
           = mset (map (\<lambda>d. (map asciiUpper (take 1 (variableName d)) @ drop 1 (variableName d), data d))
                       ingested)"
    by (simp add: mode(2))
  with exampleTsxPipelineRun show ?thesis
    by blast
qed

subsection \<open>Inside a stage\<close>

lemma bodyOf_InlI:
  "evs = body @ [Failed c e] \<Longrightarrow> list_all (inStage opts l) body \<Longrightarrow> stageCall opts l c
   \<Longrightarrow> bodyOf opts l (Inl e) evs"
  unfolding bodyOf_def by auto

lemma bodyRun_ret: "bodyRun opts l (ret x)"
  by (simp add: bodyRun_def ret_eq bodyOf_def)

lemma bodyRun_log:
  "bodyRun opts l (emit (LogVerboseInfo s))" "bodyRun opts l (emit (LogError s))"
  by (simp_all add: bodyRun_def emit_eq bodyOf_def)

lemma bodyRun_perform:
  assumes "stageCall opts l c"
  shows "bodyRun opts l (perform c op)"
  unfolding bodyRun_def
proof (intro allI impI)
  fix st r st'
  assume run: "perform c op st = (r, st')"
  show "\<exists>evs. trace st' = trace st @ evs \<and> bodyOf opts l r evs"
  proof (cases r)
    case (Inl e)
    with run have "trace st' = trace st @ [Failed c e]"
      by (auto simp: perform_Inl)
    moreover have "bodyOf opts l r [Failed c e]"
      using assms Inl by (simp add: bodyOf_def)
    ultimately show ?thesis by blast
  next
    case (Inr x)
    with run have "trace st' = trace st @ [Performed c]"
      by (auto simp: perform_Inr)
    moreover have "bodyOf opts l r [Performed c]"
      using assms Inr by (simp add: bodyOf_def)
    ultimately show ?thesis by blast
  qed
qed

lemma bodyRun_bnd:
  assumes "bodyRun opts l m" and "\<And>x. bodyRun opts l (f x)"
  shows "bodyRun opts l (bnd m f)"
  unfolding bodyRun_def
proof (intro allI impI)
  fix st r st''
  assume run: "bnd m f st = (r, st'')"
  obtain r1 st1 where m: "m st = (r1, st1)"
    by (cases "m st")
  from assms(1) m obtain evs1 where e1: "trace st1 = trace st @ evs1" "bodyOf opts l r1 evs1"
    unfolding bodyRun_def by blast
  show "\<exists>evs. trace st'' = trace st @ evs \<and> bodyOf opts l r evs"
  proof (cases r1)
    case (Inl e)
    with run m have "r = Inl e" "st'' = st1"
      by (simp_all add: bnd_def)
    with e1 Inl show ?thesis
      by (auto simp: bodyOf_def)
  next
    case (Inr x)
    with run m have f: "f x st1 = (r, st'')"
      by (simp add: bnd_def)
    from assms(2) [of x] f obtain evs2 where
      e2: "trace st'' = trace st1 @ evs2" "bodyOf opts l r evs2"
      unfolding bodyRun_def by blast
    have all1: "list_all (inStage opts l) evs1"
      using e1(2) Inr by (simp add: bodyOf_def)
    have "bodyOf opts l r (evs1 @ evs2)"
    proof (cases r)
      case (Inl e)
      with e2(2) obtain body c where
        "evs2 = body @ [Failed c e]" "list_all (inStage opts l) body" "stageCall opts l c"
        by (auto simp: bodyOf_def)
      with all1 have "evs1 @ evs2 = (evs1 @ body) @ [Failed c e]"
        "list_all (inStage opts l) (evs1 @ body)" "stageCall opts l c"
        by simp_all
      then show ?thesis
        unfolding Inl by (rule bodyOf_InlI)
    next
      case (Inr y)
      with e2(2) all1 show ?thesis
        by (simp add: bodyOf_def)
    qed
    with e1(1) e2(1) show ?thesis
      by auto
  qed
qed

lemma bodyOf_append:
  assumes "list_all (inStage opts l) evs1" and "bodyOf opts l r evs2"
  shows "bodyOf opts l r (evs1 @ evs2)"
proof (cases r)
  case (Inl e)
  with assms(2) obtain body c where
    "evs2 = body @ [Failed c e]" "list_all (inStage opts l) body" "stageCall opts l c"
    by (auto simp: bodyOf_def)
  with assms(1) have "evs1 @ evs2 = (evs1 @ body) @ [Failed c e]"
    "list_all (inStage opts l) (evs1 @ body)" "stageCall opts l c"
    by simp_all
  then show ?thesis
    unfolding Inl by (rule bodyOf_InlI)
next
  case (Inr y)
  with assms show ?thesis
    by (simp add: bodyOf_def)
qed

lemma resume_in_stage:
  assumes "taskIn opts l t" and "resume env t names st = (r, st')"
  shows "\<exists>evs. trace st' = trace st @ evs \<and> bodyOf opts l r evs
      \<and> (\<forall>u names'. r = Inr (Some u, names') \<longrightarrow> taskIn opts l u)"
proof (cases r)
  case (Inl e)
  with assms(2) obtain c where tr: "trace st' = trace st @ [Failed c e]"
    and c: "(\<exists>outDir icons name content kind. t \<noteq> TsxAwaitConstant outDir icons undefined
              \<and> c = WriteFile (outDir @ ''/'' @ icons) (Some name) content kind
              \<and> (case t of SvgAwaitWrite a b _ _ \<Rightarrow> a = outDir \<and> b = icons \<and> kind = None
                          | TsxAwaitWrite a b _ _ \<Rightarrow> a = outDir \<and> b = icons \<and> kind = Some TSX
                          | _ \<Rightarrow> False))
           \<or> (\<exists>outDir icons d. t = TsxAwaitConstant outDir icons d
                 \<and> c = GenerateTSXConstant (variableName d) (data d))"
    by (cases t) (auto simp: bnd_Inl emit_eq ret_eq io_defs perform_Inl)
  from c assms(1) have "stageCall opts l c"
    by (cases t) (auto simp: stageCall_def)
  then have "bodyOf opts l r [Failed c e]"
    unfolding Inl by (intro bodyOf_InlI [where body = "[]"]) simp_all
  with tr Inl show ?thesis by blast
next
  case (Inr p)
  obtain t' names' where p: "p = (t', names')" by (cases p)
  show ?thesis
  proof (cases t)
    case (SvgAwaitWrite outDir icons name c)
    with assms Inr p show ?thesis
      by (auto simp: bnd_Inr emit_eq ret_eq io_defs perform_Inr bodyOf_def stageCall_def)
  next
    case (TsxAwaitConstant outDir icons d)
    with assms Inr p show ?thesis
      by (auto simp: bnd_Inr emit_eq ret_eq io_defs perform_Inr bodyOf_def stageCall_def)
  next
    case (TsxAwaitWrite outDir icons name c)
    with assms Inr p show ?thesis
      by (auto simp: bnd_Inr emit_eq ret_eq io_defs perform_Inr bodyOf_def stageCall_def)
  qed
qed

lemma taskIn_settled:
  assumes "list_all (taskIn opts l) pending" and "\<And>u. t = Some u \<Longrightarrow> taskIn opts l u"
  shows "list_all (taskIn opts l) (settled k t pending)"
  using assms
  by (cases t) (auto simp: settled_def list_all_iff dest: in_set_takeD in_set_dropD)

lemma promiseAll_in_stage:
  "list_all (taskIn opts l) pending \<Longrightarrow> promiseAll env pending names st = (r, st') \<Longrightarrow>
   \<exists>evs. trace st' = trace st @ evs \<and> bodyOf opts l r evs"
proof (induction "sum_list (map awaits pending)" arbitrary: pending names st rule: less_induct)
  case less
  show ?case
  proof (cases "pending = []")
    case True
    with less.prems(2) show ?thesis
      by (auto simp: promiseAll_Nil bodyOf_def)
  next
    case False
    obtain k st1 where ns: "nextSettled (length pending) st = (k, st1)"
      by (cases "nextSettled (length pending) st")
    have k: "k < length pending"
      using nextSettled_less [OF False, of st] ns by simp
    have tr1: "trace st1 = trace st"
      using nextSettled_trace [OF ns] by simp
    obtain r1 st2 where res: "resume env (pending ! k) names st1 = (r1, st2)"
      by (cases "resume env (pending ! k) names st1")
    have "taskIn opts l (pending ! k)"
      using less.prems(1) k by (simp add: list_all_length)
    from resume_in_stage [OF this res] obtain evs1 where
      e1: "trace st2 = trace st1 @ evs1" "bodyOf opts l r1 evs1"
        "\<forall>u names'. r1 = Inr (Some u, names') \<longrightarrow> taskIn opts l u"
      by blast
    show ?thesis
    proof (cases r1)
      case (Inl e)
      from promiseAll_reject [OF False ns res [unfolded Inl]] less.prems(2)
      have "r = Inl e" "st' = st2" by simp_all
      with e1(1,2) Inl tr1 show ?thesis
        by (auto simp: bodyOf_def)
    next
      case (Inr p)
      obtain t names1 where p: "p = (t, names1)" by (cases p)
      note res' = res [unfolded Inr p]
      have rec: "promiseAll env (settled k t pending) names1 st2 = (r, st')"
        using promiseAll_settle [OF False ns res'] less.prems(2) by simp
      have "list_all (taskIn opts l) (settled k t pending)"
        using less.prems(1) e1(3) Inr p by (intro taskIn_settled) simp_all
      from less.hyps [OF awaits_settled [OF False ns res'] this rec] obtain evs2 where
        e2: "trace st' = trace st2 @ evs2" "bodyOf opts l r evs2"
        by blast
      have "list_all (inStage opts l) evs1"
        using e1(2) Inr by (simp add: bodyOf_def)
      from bodyOf_append [OF this e2(2)] e1(1) e2(1) tr1 show ?thesis
        by auto
    qed
  qed
qed

lemma bodyRun_promiseAll:
  "list_all (taskIn opts l) pending \<Longrightarrow> bodyRun opts l (promiseAll env pending names)"
  unfolding bodyRun_def using promiseAll_in_stage by blast

lemma bodyRun_generateSVGConstants:
  "bodyRun opts ''Generate SVG constants''
     (generateSVGConstants env defs (outputDirectory opts) (iconsFolderName opts))"
  unfolding generateSVGConstants_def
  by (rule bodyRun_promiseAll) (simp add: list_all_iff)

lemma bodyRun_generateTSXFileConstants:
  "bodyRun opts ''Generate TSX constants''
     (generateTSXFileConstants env defs (outputDirectory opts) (iconsFolderName opts))"
  unfolding generateTSXFileConstants_def Let_def
  by (intro bodyRun_bnd bodyRun_promiseAll bodyRun_ret) (simp add: list_all_iff)

lemma bodyRun_generateModelFile:
  "bodyRun opts ''Generate model file'' (generateModelFile env opts defs)"
proof (cases "truthy (additionalModelOutputPath opts)")
  case True
  then show ?thesis
    unfolding generateModelFile_def Let_def io_defs
    by (simp only: if_True)
       (intro bodyRun_bnd bodyRun_perform bodyRun_log bodyRun_ret; simp add: stageCall_def)
next
  case False
  then show ?thesis
    unfolding generateModelFile_def Let_def io_defs
    by (simp only: if_False)
       (intro bodyRun_bnd bodyRun_perform bodyRun_log bodyRun_ret; simp add: stageCall_def)
qed

lemma bodyRun_compileTypeScriptToJS:
  "bodyRun opts ''Compile TypeScript to JavaScript''
     (compileTypeScriptToJS env (outputDirectory opts) (iconsFolderName opts) (barrelFileName opts)
        selected)"
proof (cases selected)
  case ESM
  show ?thesis
    unfolding compileTypeScriptToJS_def io_defs ESM
    by (simp only: SVG_TO_TS_COMPILATION_OUTPUT.case)
       (intro bodyRun_bnd bodyRun_perform; simp add: stageCall_def)
next
  case UMD
  show ?thesis
    unfolding compileTypeScriptToJS_def io_defs UMD
    by (simp only: SVG_TO_TS_COMPILATION_OUTPUT.case)
       (intro bodyRun_bnd bodyRun_perform; simp add: stageCall_def)
next
  case ESM_AND_UMD
  show ?thesis
    unfolding compileTypeScriptToJS_def io_defs ESM_AND_UMD
    by (simp only: SVG_TO_TS_COMPILATION_OUTPUT.case)
       (intro bodyRun_bnd bodyRun_perform; simp add: stageCall_def)
next
  case (Unrecognized v)
  show ?thesis
    unfolding compileTypeScriptToJS_def io_defs Unrecognized
    by (simp only: SVG_TO_TS_COMPILATION_OUTPUT.case)
       (intro bodyRun_bnd bodyRun_perform bodyRun_log; simp add: stageCall_def)
qed

subsection \<open>Sequences of stages\<close>

lemma staged_InrI:
  "map fst stages = order \<Longrightarrow> list_all P stages
   \<Longrightarrow> evs = concat (map stageBlock stages) @ closing
   \<Longrightarrow> staged P opts order closing (Inr x) evs"
  unfolding staged_def by auto

lemma staged_InlI:
  "order = map fst stages @ l # later \<Longrightarrow> list_all P stages
   \<Longrightarrow> list_all (inStage opts l) body \<Longrightarrow> stageCall opts l c
   \<Longrightarrow> evs = concat (map stageBlock stages) @ StageStart l # body @ [Failed c e]
   \<Longrightarrow> staged P opts order closing (Inl e) evs"
  unfolding staged_def by auto

text \<open>A sequence of stages that throws is the beginning of every longer sequence.\<close>

lemma staged_Inl_append:
  assumes "staged P opts order1 closing1 (Inl e :: error + 'a) evs"
  shows "staged P opts (order1 @ order2) closing (Inl e :: error + 'b) evs"
proof -
  from assms obtain stages l body c later where
    "order1 = map fst stages @ l # later" "list_all P stages"
    "list_all (inStage opts l) body" "stageCall opts l c"
    "evs = concat (map stageBlock stages) @ StageStart l # body @ [Failed c e]"
    by (auto simp: staged_def)
  then have "order1 @ order2 = map fst stages @ l # (later @ order2)"
    "list_all P stages" "list_all (inStage opts l) body" "stageCall opts l c"
    "evs = concat (map stageBlock stages) @ StageStart l # body @ [Failed c e]"
    by simp_all
  then show ?thesis
    by (rule staged_InlI)
qed

text \<open>A sequence of stages that returns, followed by another sequence.\<close>

lemma staged_Inr_append:
  assumes "staged P opts order1 [] (Inr x :: error + 'a) evs1"
    and "staged P opts order2 closing (r :: error + 'b) evs2"
  shows "staged P opts (order1 @ order2) closing r (evs1 @ evs2)"
proof -
  from assms(1) obtain stages1 where
    s1: "map fst stages1 = order1" "list_all P stages1" "evs1 = concat (map stageBlock stages1)"
    by (auto simp: staged_def)
  show ?thesis
  proof (cases r)
    case (Inl e)
    with assms(2) obtain stages l body c later where
      "order2 = map fst stages @ l # later" "list_all P stages"
      "list_all (inStage opts l) body" "stageCall opts l c"
      "evs2 = concat (map stageBlock stages) @ StageStart l # body @ [Failed c e]"
      by (auto simp: staged_def)
    with s1 have "order1 @ order2 = map fst (stages1 @ stages) @ l # later"
      "list_all P (stages1 @ stages)"
      "list_all (inStage opts l) body" "stageCall opts l c"
      "evs1 @ evs2 = concat (map stageBlock (stages1 @ stages)) @ StageStart l # body @ [Failed c e]"
      by simp_all
    then show ?thesis
      unfolding Inl by (rule staged_InlI)
  next
    case (Inr y)
    with assms(2) obtain stages where
      "map fst stages = order2" "list_all P stages"
      "evs2 = concat (map stageBlock stages) @ closing"
      by (auto simp: staged_def)
    with s1 have "map fst (stages1 @ stages) = order1 @ order2"
      "list_all P (stages1 @ stages)"
      "evs1 @ evs2 = concat (map stageBlock (stages1 @ stages)) @ closing"
      by simp_all
    then show ?thesis
      unfolding Inr by (rule staged_InrI)
  qed
qed


lemma stagedRunD:
  assumes "stagedRun P opts m order closing post" and "m st = (r, st')"
  shows "\<exists>evs. trace st' = trace st @ evs \<and> staged P opts order closing r evs"
    and "\<And>x. r = Inr x \<Longrightarrow> post x"
proof -
  note both = assms(1) [unfolded stagedRun_def, rule_format, OF assms(2)]
  from both show "\<exists>evs. trace st' = trace st @ evs \<and> staged P opts order closing r evs"
    by (rule conjunct1)
  fix x
  assume "r = Inr x"
  with both [THEN conjunct2] show "post x"
    by simp
qed

lemma stagedRunI:
  assumes "\<And>st r st'. m st = (r, st')
             \<Longrightarrow> \<exists>evs. trace st' = trace st @ evs \<and> staged P opts order closing r evs"
    and "\<And>st x st'. m st = (Inr x, st') \<Longrightarrow> post x"
  shows "stagedRun P opts m order closing post"
  unfolding stagedRun_def
proof (intro allI impI conjI)
  fix st r st'
  assume "m st = (r, st')"
  then show "\<exists>evs. trace st' = trace st @ evs \<and> staged P opts order closing r evs"
    by (rule assms(1))
next
  fix st r st' x
  assume "m st = (r, st')" "r = Inr x"
  then have "m st = (Inr x, st')" by simp
  then show "post x" by (rule assms(2))
qed

lemma stagedRun_ret: "post x \<Longrightarrow> stagedRun P opts (ret x) [] [] post"
  by (rule stagedRunI) (simp_all add: ret_eq staged_def)

lemma stagedRun_closing: "post x \<Longrightarrow> stagedRun P opts (bnd (emit ev) (\<lambda>_. ret x)) [] [ev] post"
  by (rule stagedRunI) (auto simp: bnd_def emit_def ret_def staged_def)

lemma stagedRun_callAndMonitor:
  assumes "P (l, [])" and "post v"
  shows "stagedRun P opts (callAndMonitor v l) [l] [] post"
proof (rule stagedRunI)
  fix st r st'
  assume run: "callAndMonitor v l st = (r, st')"
  then have r: "r = Inr v" and tr: "trace st' = trace st @ [StageStart l, StageEnd l]"
    by (simp_all add: callAndMonitor_eq)
  have "map fst [(l, [])] = [l]" "list_all P [(l, [])]"
    "[StageStart l, StageEnd l] = concat (map stageBlock [(l, [])]) @ []"
    using assms(1) by (simp_all add: stageBlock_def)
  then have "staged P opts [l] [] r [StageStart l, StageEnd l]"
    unfolding r by (rule staged_InrI)
  with tr show "\<exists>evs. trace st' = trace st @ evs \<and> staged P opts [l] [] r evs"
    by (intro exI conjI)
next
  fix st x st'
  assume "callAndMonitor v l st = (Inr x, st')"
  then have "x = v" by (simp add: callAndMonitor_eq)
  with assms(2) show "post x" by simp
qed

text \<open>A monitored stage: when its body returns, the events of the body are what the stage
  has to have done.\<close>

lemma stagedRun_stage:
  assumes "bodyRun opts l fn"
    and "\<And>st x st' evs. fn st = (Inr x, st') \<Longrightarrow> trace st' = trace st @ evs
           \<Longrightarrow> list_all (inStage opts l) evs \<Longrightarrow> P (l, evs) \<and> post x"
  shows "stagedRun P opts (callAndMonitorAsync fn l) [l] [] post"
proof (rule stagedRunI)
  fix st x st''
  assume run: "callAndMonitorAsync fn l st = (Inr x, st'')"
  then obtain st' where fn: "fn (st\<lparr>trace := trace st @ [StageStart l]\<rparr>) = (Inr x, st')"
    by (auto simp: callAndMonitorAsync_Inr)
  from assms(1) [unfolded bodyRun_def, rule_format, OF fn] obtain evs where
    tr': "trace st' = trace (st\<lparr>trace := trace st @ [StageStart l]\<rparr>) @ evs"
    and ok: "list_all (inStage opts l) evs"
    by (auto simp: bodyOf_def)
  from assms(2) [OF fn tr' ok] show "post x"
    by (rule conjunct2)
next
  fix st r st''
  assume run: "callAndMonitorAsync fn l st = (r, st'')"
  show "\<exists>evs. trace st'' = trace st @ evs \<and> staged P opts [l] [] r evs"
  proof (cases r)
    case (Inl e)
    with run have fn: "fn (st\<lparr>trace := trace st @ [StageStart l]\<rparr>) = (r, st'')"
      by (simp add: callAndMonitorAsync_Inl)
    from assms(1) [unfolded bodyRun_def, rule_format, OF fn] obtain evs where
      "trace st'' = trace (st\<lparr>trace := trace st @ [StageStart l]\<rparr>) @ evs"
      "bodyOf opts l r evs"
      by (elim exE conjE)
    then obtain body c where
      tr: "trace st'' = trace st @ StageStart l # body @ [Failed c e]"
      and ok: "list_all (inStage opts l) body" "stageCall opts l c"
      unfolding Inl by (auto simp: bodyOf_def)
    have "staged P opts [l] [] r (StageStart l # body @ [Failed c e])"
      unfolding Inl by (rule staged_InlI [where stages = "[]" and later = "[]", OF _ _ ok]) simp_all
    with tr show ?thesis by (intro exI conjI)
  next
    case (Inr x)
    with run obtain st' where fn: "fn (st\<lparr>trace := trace st @ [StageStart l]\<rparr>) = (Inr x, st')"
      and st'': "st'' = st'\<lparr>trace := trace st' @ [StageEnd l]\<rparr>"
      by (auto simp: callAndMonitorAsync_Inr)
    from assms(1) [unfolded bodyRun_def, rule_format, OF fn] obtain evs where
      tr': "trace st' = trace (st\<lparr>trace := trace st @ [StageStart l]\<rparr>) @ evs"
      and ok: "list_all (inStage opts l) evs"
      by (auto simp: bodyOf_def)
    from assms(2) [OF fn tr' ok] have completed: "P (l, evs)"
      by (rule conjunct1)
    have tr: "trace st'' = trace st @ StageStart l # evs @ [StageEnd l]"
      using tr' st'' by simp
    have "map fst [(l, evs)] = [l]" "list_all P [(l, evs)]"
      "StageStart l # evs @ [StageEnd l] = concat (map stageBlock [(l, evs)]) @ []"
      using completed by (simp_all add: stageBlock_def)
    then have "staged P opts [l] [] r (StageStart l # evs @ [StageEnd l])"
      unfolding Inr by (rule staged_InrI)
    with tr show ?thesis by (intro exI conjI)
  qed
qed

text \<open>A monitored stage that is one call.\<close>

lemma stagedRun_call:
  assumes "stageCall opts l c" and "P (l, [Performed c])"
  shows "stagedRun P opts (callAndMonitorAsync (perform c op) l) [l] [] (\<lambda>_. True)"
proof (rule stagedRun_stage [OF bodyRun_perform [OF assms(1)]])
  fix st x st' evs
  assume "perform c op st = (Inr x, st')" "trace st' = trace st @ evs"
  then have "evs = [Performed c]"
    by (auto simp: perform_Inr)
  with assms(2) show "P (l, evs) \<and> True"
    by simp
qed

lemma stagedRun_bnd:
  assumes "stagedRun P opts m order1 [] mid"
    and "\<And>x. mid x \<Longrightarrow> stagedRun P opts (f x) order2 closing post"
  shows "stagedRun P opts (bnd m f) (order1 @ order2) closing post"
proof (rule stagedRunI)
  fix st y st''
  assume run: "bnd m f st = (Inr y, st'')"
  then obtain x st1 where m: "m st = (Inr x, st1)" and f: "f x st1 = (Inr y, st'')"
    by (auto simp: bnd_Inr)
  from stagedRunD(2) [OF assms(1) m refl] have "mid x" .
  from stagedRunD(2) [OF assms(2) [OF this] f refl] show "post y" .
next
  fix st r st''
  assume run: "bnd m f st = (r, st'')"
  obtain r1 st1 where m: "m st = (r1, st1)"
    by (cases "m st")
  from stagedRunD(1) [OF assms(1) m] obtain evs1 where
    e1: "trace st1 = trace st @ evs1" "staged P opts order1 [] r1 evs1"
    by (elim exE conjE)
  show "\<exists>evs. trace st'' = trace st @ evs \<and> staged P opts (order1 @ order2) closing r evs"
  proof (cases r1)
    case (Inl e)
    with run m have r: "r = Inl e" "st'' = st1"
      by (simp_all add: bnd_def)
    from e1(2) have "staged P opts (order1 @ order2) closing r evs1"
      unfolding Inl r by (rule staged_Inl_append)
    with e1(1) show ?thesis
      unfolding r by (intro exI conjI)
  next
    case (Inr x)
    with run m have f: "f x st1 = (r, st'')"
      by (simp add: bnd_def)
    from stagedRunD(2) [OF assms(1) m Inr] have "mid x" .
    from stagedRunD(1) [OF assms(2) [OF this] f] obtain evs2 where
      e2: "trace st'' = trace st1 @ evs2" "staged P opts order2 closing r evs2"
      by (elim exE conjE)
    from e1(2) e2(2) have "staged P opts (order1 @ order2) closing r (evs1 @ evs2)"
      unfolding Inr by (rule staged_Inr_append)
    moreover have "trace st'' = trace st @ (evs1 @ evs2)"
      using e1(1) e2(1) by simp
    ultimately show ?thesis
      by (intro exI conjI)
  qed
qed

subsection \<open>The stages of the pipeline\<close>

text \<open>What each stage has done when it has completed, label by label.\<close>

lemma completedStage_reset:
  "completedStage env opts ingested (''Deleting the output folder'', body) \<longleftrightarrow>
     body = [Performed (DeleteFolder (outputDirectory opts @ ''/'' @ iconsFolderName opts))]"
  by (simp add: completedStage_def)

lemma completedStage_ingestion:
  "completedStage env opts ingested (''Processing SVG files'', body) \<longleftrightarrow>
     body = [Performed (FilesProcessor opts)]"
  by (simp add: completedStage_def)

lemma completedStage_svg:
  "completedStage env opts ingested (''Generate SVG constants'', body) \<longleftrightarrow>
     list_all (inStage opts ''Generate SVG constants'') body
     \<and> mset (performedCalls body)
         = mset (map (svgWrite env (outputDirectory opts @ ''/'' @ iconsFolderName opts)) ingested)"
  by (simp add: completedStage_def)

lemma completedStage_tsx:
  "completedStage env opts ingested (''Generate TSX constants'', body) \<longleftrightarrow>
     list_all (inStage opts ''Generate TSX constants'') body
     \<and> (\<exists>writes. list_all2 (tsxWrite env (outputDirectory opts @ ''/'' @ iconsFolderName opts))
                      ingested writes
           \<and> mset (writeCalls body) = mset writes)
     \<and> mset (tsxGenerations body)
         = mset (map (\<lambda>d. (capitalize env (variableName d), data d)) ingested)"
  by (simp add: completedStage_def)

lemma completedStage_completeSet:
  "completedStage env opts ingested (''Export complete icon set'', body) \<longleftrightarrow>
     body = [Performed (WriteFile (outputDirectory opts @ ''/'' @ iconsFolderName opts)
               (Some (completeIconSetName opts))
               (generateCompleteIconSetContent env
                  (if tsx opts then map (capitalizeVariableName env) ingested else ingested)
                  (completeIconSetName opts) (interfaceName opts) (modelFileName opts)
                  (generateType opts) (tsx opts))
               None)]"
  by (simp add: completedStage_def)

lemma completedStage_typeHelper:
  "completedStage env opts ingested (''Generate Type Helper'', body) \<longleftrightarrow> body = []"
  by (simp add: completedStage_def)

lemma completedStage_barrel:
  "completedStage env opts ingested (''Generate barrel file'', body) \<longleftrightarrow>
     (\<exists>perIcon.
        (if tsx opts then mset perIcon = mset (map generatedFileName ingested)
         else perIcon = map generatedFileName ingested)
        \<and> body = [Performed (WriteFile (outputDirectory opts) (Some (barrelFileName opts))
               (generateTypeHelperWithImport env (interfaceName opts) (iconsFolderName opts)
                  (modelFileName opts)
                @ concat (map (\<lambda>name. generateExportStatement env (Some name) (iconsFolderName opts))
                            (perIcon @ (if exportCompleteIconSet opts
                                        then [completeIconSetName opts] else [])))
                @ generateExportStatement env (modelFileName opts) (iconsFolderName opts))
               None)])"
  by (simp add: completedStage_def)

lemma completedStage_model:
  "completedStage env opts ingested (''Generate model file'', body) \<longleftrightarrow>
     body = [Performed (WriteFile (outputDirectory opts @ ''/'' @ iconsFolderName opts)
               (modelFileName opts)
               (generateTypeDefinition env opts
                  (if tsx opts then map (capitalizeVariableName env) ingested else ingested)
                @ generateInterfaceDefinition env opts
                @ generateEnumDefinition env opts
                    (if tsx opts then map (capitalizeVariableName env) ingested else ingested))
               None),
             LogVerboseInfo (''model-file successfully generated under '' @ outputDirectory opts
                @ ''/'' @ iconsFolderName opts @ ''/'' @ js_str (modelFileName opts) @ ''.ts'')]
            @ (if truthy (additionalModelOutputPath opts)
               then [Performed (WriteFile (js_str (additionalModelOutputPath opts)) (modelFileName opts)
                       (generateTypeDefinition env opts
                          (if tsx opts then map (capitalizeVariableName env) ingested else ingested)
                        @ generateInterfaceDefinition env opts
                        @ generateEnumDefinition env opts
                            (if tsx opts then map (capitalizeVariableName env) ingested else ingested))
                       None),
                     LogVerboseInfo (''additional model-file successfully generated under ''
                        @ js_str (additionalModelOutputPath opts) @ ''/''
                        @ js_str (modelFileName opts) @ ''.ts'')]
               else [])"
  by (simp add: completedStage_def Let_def)

lemma completedStage_copy:
  "completedStage env opts ingested (''Write model file to additional output path'', body) \<longleftrightarrow>
     body = [Performed (WriteFile (js_str (additionalModelOutputPath opts)) (modelFileName opts)
               (generateTypeDefinition env opts
                  (if tsx opts then map (capitalizeVariableName env) ingested else ingested)
                @ generateInterfaceDefinition env opts
                @ generateEnumDefinition env opts
                    (if tsx opts then map (capitalizeVariableName env) ingested else ingested))
               None)]"
  by (simp add: completedStage_def Let_def)

lemma completedStage_compile:
  "completedStage env opts ingested (''Compile TypeScript to JavaScript'', body) \<longleftrightarrow>
     (\<exists>paths w w'.
        getFilePathsFromRegex env
          [outputDirectory opts @ ''/'' @ iconsFolderName opts @ ''/*.ts'',
           outputDirectory opts @ ''/'' @ barrelFileName opts @ ''.ts''] w = (Inr paths, w')
        \<and> body = Performed (GetFilePathsFromRegex
                      [outputDirectory opts @ ''/'' @ iconsFolderName opts @ ''/*.ts'',
                       outputDirectory opts @ ''/'' @ barrelFileName opts @ ''.ts''])
            # (case compilationOutput opts of
                 ESM \<Rightarrow> [Performed (CompileToEsNext paths (outputDirectory opts)),
                         Performed (DeleteFiles paths)]
               | UMD \<Rightarrow> [Performed (CompileToUMD paths (outputDirectory opts)),
                         Performed (DeleteFiles paths)]
               | ESM_AND_UMD \<Rightarrow>
                   [Performed (CompileToEsNext paths (outputDirectory opts @ ''/esm'')),
                    Performed (CompileToUMD paths (outputDirectory opts @ ''/umd'')),
                    Performed (DeleteFiles paths),
                    Performed (DeleteFolder (outputDirectory opts @ ''/build''))]
               | Unrecognized v \<Rightarrow> [LogError (invalidCompilationOutput v)]))"
  by (simp add: completedStage_def Let_def)

lemmas completedStage_simps = completedStage_reset completedStage_ingestion completedStage_svg
  completedStage_tsx completedStage_completeSet completedStage_typeHelper completedStage_barrel
  completedStage_model completedStage_copy completedStage_compile

text \<open>The parts of the pipeline, as sequences of stages of a run that ingests \<open>ingested\<close>.\<close>

lemma ingest_staged:
  "stagedRun (completedStage env opts ingested) opts (ingest env opts)
     ([''Deleting the output folder''] @ [''Processing SVG files'']) [] (\<lambda>_. True)"
  unfolding ingest_def io_defs
  by (rule stagedRun_bnd [where mid = "\<lambda>_. True"]; rule stagedRun_call)
     (simp_all add: stageCall_def completedStage_simps)

lemma generateConstants_staged:
  "stagedRun (completedStage env opts ingested) opts (generateConstants env opts ingested)
     [if tsx opts then ''Generate TSX constants'' else ''Generate SVG constants''] []
     (\<lambda>(perIcon, defs).
        defs = (if tsx opts then map (capitalizeVariableName env) ingested else ingested)
        \<and> (if tsx opts then mset perIcon = mset (map generatedFileName ingested)
           else perIcon = map generatedFileName ingested))"
proof (cases "tsx opts")
  case True
  have "stagedRun (completedStage env opts ingested) opts
     (callAndMonitorAsync
        (generateTSXFileConstants env ingested (outputDirectory opts) (iconsFolderName opts))
        ''Generate TSX constants'')
     [''Generate TSX constants''] []
     (\<lambda>(perIcon, defs). defs = map (capitalizeVariableName env) ingested
        \<and> mset perIcon = mset (map generatedFileName ingested))"
  proof (rule stagedRun_stage [OF bodyRun_generateTSXFileConstants])
    fix st x st' evs
    assume run: "generateTSXFileConstants env ingested (outputDirectory opts) (iconsFolderName opts) st
                   = (Inr x, st')"
      and tr: "trace st' = trace st @ evs"
      and ok: "list_all (inStage opts ''Generate TSX constants'') evs"
    obtain perIcon defs where x: "x = (perIcon, defs)" by (cases x)
    from generateTSXFileConstants_Inr [OF run [unfolded x]] tr have
      names: "mset perIcon = mset (map generatedFileName ingested)"
      and defs: "defs = map (capitalizeVariableName env) ingested"
      and gens: "mset (tsxGenerations evs)
          = mset (map (\<lambda>d. (capitalize env (variableName d), data d)) ingested)"
      by auto
    from generateTSXFileConstants_writes [OF run [unfolded x]] tr obtain writes where
      writes: "list_all2 (tsxWrite env (outputDirectory opts @ ''/'' @ iconsFolderName opts)) ingested writes"
        "mset (writeCalls evs) = mset writes"
      by auto
    have "completedStage env opts ingested (''Generate TSX constants'', evs)"
      unfolding completedStage_tsx using ok gens writes by blast
    with names defs x show "completedStage env opts ingested (''Generate TSX constants'', evs)
        \<and> (case x of (perIcon, defs) \<Rightarrow> defs = map (capitalizeVariableName env) ingested
              \<and> mset perIcon = mset (map generatedFileName ingested))"
      by simp
  qed
  with True show ?thesis
    unfolding generateConstants_def by simp
next
  case False
  have stage: "stagedRun (completedStage env opts ingested) opts
     (callAndMonitorAsync
        (generateSVGConstants env ingested (outputDirectory opts) (iconsFolderName opts))
        ''Generate SVG constants'')
     [''Generate SVG constants''] [] (\<lambda>perIcon. perIcon = map generatedFileName ingested)"
  proof (rule stagedRun_stage [OF bodyRun_generateSVGConstants])
    fix st x st' evs
    assume run: "generateSVGConstants env ingested (outputDirectory opts) (iconsFolderName opts) st
                   = (Inr x, st')"
      and tr: "trace st' = trace st @ evs"
      and ok: "list_all (inStage opts ''Generate SVG constants'') evs"
    from generateSVGConstants_Inr [OF run] tr have
      names: "x = map generatedFileName ingested"
      and calls: "mset (performedCalls evs)
          = mset (map (svgWrite env (outputDirectory opts @ ''/'' @ iconsFolderName opts)) ingested)"
      unfolding svgWrite_def by auto
    have "completedStage env opts ingested (''Generate SVG constants'', evs)"
      unfolding completedStage_svg using ok calls by simp
    with names show "completedStage env opts ingested (''Generate SVG constants'', evs)
        \<and> x = map generatedFileName ingested"
      by simp
  qed
  have "stagedRun (completedStage env opts ingested) opts
     (bnd (callAndMonitorAsync
             (generateSVGConstants env ingested (outputDirectory opts) (iconsFolderName opts))
             ''Generate SVG constants'')
          (\<lambda>generatedFileNames. ret (generatedFileNames, ingested)))
     ([''Generate SVG constants''] @ []) []
     (\<lambda>(perIcon, defs). defs = ingested \<and> perIcon = map generatedFileName ingested)"
    by (rule stagedRun_bnd [OF stage]) (simp add: stagedRun_ret)
  with False show ?thesis
    unfolding generateConstants_def by simp
qed

lemma exportCompleteSet_staged:
  assumes "defs = (if tsx opts then map (capitalizeVariableName env) ingested else ingested)"
  shows "stagedRun (completedStage env opts ingested) opts (exportCompleteSet env opts perIcon defs)
     (if exportCompleteIconSet opts then [''Export complete icon set''] else []) []
     (\<lambda>names. names = perIcon @ (if exportCompleteIconSet opts then [completeIconSetName opts] else []))"
proof (cases "exportCompleteIconSet opts")
  case True
  have "stagedRun (completedStage env opts ingested) opts
     (bnd (callAndMonitorAsync
             (generateCompleteIconSet env defs (outputDirectory opts) (iconsFolderName opts)
                (completeIconSetName opts) (interfaceName opts) (modelFileName opts)
                (generateType opts) (tsx opts))
             ''Export complete icon set'')
          (\<lambda>_. ret (perIcon @ [completeIconSetName opts])))
     ([''Export complete icon set''] @ []) []
     (\<lambda>names. names = perIcon @ [completeIconSetName opts])"
    unfolding generateCompleteIconSet_def Let_def io_defs
    by (rule stagedRun_bnd [where mid = "\<lambda>_. True"], rule stagedRun_call)
       (simp_all add: stageCall_def completedStage_simps assms stagedRun_ret)
  with True show ?thesis
    unfolding exportCompleteSet_def by simp
next
  case False
  then show ?thesis
    unfolding exportCompleteSet_def by (simp add: stagedRun_ret)
qed

lemma barrelFile_staged:
  assumes "if tsx opts then mset perIcon = mset (map generatedFileName ingested)
           else perIcon = map generatedFileName ingested"
  shows "stagedRun (completedStage env opts ingested) opts
     (barrelFile env opts
        (perIcon @ (if exportCompleteIconSet opts then [completeIconSetName opts] else [])))
     ([''Generate Type Helper''] @ [''Generate barrel file'']) [] (\<lambda>_. True)"
  unfolding barrelFile_def io_defs
proof (rule stagedRun_bnd [where mid = "\<lambda>typeHelper. typeHelper
            = generateTypeHelperWithImport env (interfaceName opts) (iconsFolderName opts)
                (modelFileName opts)"])
  show "stagedRun (completedStage env opts ingested) opts
     (callAndMonitor
        (generateTypeHelperWithImport env (interfaceName opts) (iconsFolderName opts)
           (modelFileName opts))
        ''Generate Type Helper'')
     [''Generate Type Helper''] []
     (\<lambda>typeHelper. typeHelper
            = generateTypeHelperWithImport env (interfaceName opts) (iconsFolderName opts)
                (modelFileName opts))"
    by (rule stagedRun_callAndMonitor) (simp_all add: completedStage_simps)
next
  fix typeHelper
  assume th: "typeHelper = generateTypeHelperWithImport env (interfaceName opts)
                (iconsFolderName opts) (modelFileName opts)"
  have "completedStage env opts ingested
     (''Generate barrel file'',
      [Performed (WriteFile (outputDirectory opts) (Some (barrelFileName opts))
         (typeHelper
          @ concat (map (\<lambda>name. generateExportStatement env (Some name) (iconsFolderName opts))
                      (perIcon @ (if exportCompleteIconSet opts then [completeIconSetName opts] else [])))
          @ generateExportStatement env (modelFileName opts) (iconsFolderName opts))
         None)])"
    unfolding completedStage_barrel th using assms by blast
  then show "stagedRun (completedStage env opts ingested) opts
     (callAndMonitorAsync
        (perform
           (WriteFile (outputDirectory opts) (Some (barrelFileName opts))
              (typeHelper
               @ concat (map (\<lambda>name. generateExportStatement env (Some name) (iconsFolderName opts))
                           (perIcon @ (if exportCompleteIconSet opts then [completeIconSetName opts] else [])))
               @ generateExportStatement env (modelFileName opts) (iconsFolderName opts))
              None)
           (writeFile env (outputDirectory opts) (Some (barrelFileName opts))
              (typeHelper
               @ concat (map (\<lambda>name. generateExportStatement env (Some name) (iconsFolderName opts))
                           (perIcon @ (if exportCompleteIconSet opts then [completeIconSetName opts] else [])))
               @ generateExportStatement env (modelFileName opts) (iconsFolderName opts))
              None))
        ''Generate barrel file'')
     [''Generate barrel file''] [] (\<lambda>_. True)"
    by (intro stagedRun_call) (simp_all add: stageCall_def)
qed

lemma generateModelFile_Inr:
  assumes "generateModelFile env opts defs st = (Inr returned, st')"
  shows "returned = generateTypeDefinition env opts defs @ generateInterfaceDefinition env opts
                      @ generateEnumDefinition env opts defs
      \<and> trace st' = trace st @
          [Performed (WriteFile (outputDirectory opts @ ''/'' @ iconsFolderName opts)
             (modelFileName opts)
             (generateTypeDefinition env opts defs @ generateInterfaceDefinition env opts
                @ generateEnumDefinition env opts defs) None),
           LogVerboseInfo (''model-file successfully generated under '' @ outputDirectory opts
              @ ''/'' @ iconsFolderName opts @ ''/'' @ js_str (modelFileName opts) @ ''.ts'')]
          @ (if truthy (additionalModelOutputPath opts)
             then [Performed (WriteFile (js_str (additionalModelOutputPath opts)) (modelFileName opts)
                     (generateTypeDefinition env opts defs @ generateInterfaceDefinition env opts
                        @ generateEnumDefinition env opts defs) None),
                   LogVerboseInfo (''additional model-file successfully generated under ''
                      @ js_str (additionalModelOutputPath opts) @ ''/''
                      @ js_str (modelFileName opts) @ ''.ts'')]
             else [])"
  using assms
  by (auto simp: generateModelFile_def Let_def bnd_Inr emit_eq ret_eq io_defs perform_Inr
      split: if_splits)

lemma modelFiles_staged:
  assumes "defs = (if tsx opts then map (capitalizeVariableName env) ingested else ingested)"
  shows "stagedRun (completedStage env opts ingested) opts (modelFiles env opts defs)
     (if truthy (modelFileName opts)
      then [''Generate model file'']
           @ (if truthy (additionalModelOutputPath opts)
              then [''Write model file to additional output path''] else [])
      else []) [] (\<lambda>_. True)"
proof (cases "truthy (modelFileName opts)")
  case False
  then show ?thesis
    unfolding modelFiles_def by (simp add: stagedRun_ret)
next
  case model: True
  let ?content = "generateTypeDefinition env opts defs @ generateInterfaceDefinition env opts
                    @ generateEnumDefinition env opts defs"
  have stage: "stagedRun (completedStage env opts ingested) opts
       (callAndMonitorAsync (generateModelFile env opts defs) ''Generate model file'')
       [''Generate model file''] [] (\<lambda>modelFile. modelFile = ?content)"
  proof (rule stagedRun_stage [OF bodyRun_generateModelFile])
    fix st x st' evs
    assume run: "generateModelFile env opts defs st = (Inr x, st')"
      and tr: "trace st' = trace st @ evs"
    from generateModelFile_Inr [OF run] tr
    show "completedStage env opts ingested (''Generate model file'', evs) \<and> x = ?content"
      unfolding completedStage_model assms by simp
  qed
  show ?thesis
  proof (cases "truthy (additionalModelOutputPath opts)")
    case True
    have "stagedRun (completedStage env opts ingested) opts
       (bnd (callAndMonitorAsync (generateModelFile env opts defs) ''Generate model file'')
            (\<lambda>modelFile. callAndMonitorAsync
                 (writeFileM env (js_str (additionalModelOutputPath opts)) (modelFileName opts)
                    modelFile None)
                 ''Write model file to additional output path''))
       ([''Generate model file''] @ [''Write model file to additional output path'']) []
       (\<lambda>_. True)"
      unfolding io_defs
      by (rule stagedRun_bnd [OF stage], rule stagedRun_call)
         (simp_all add: stageCall_def completedStage_simps assms)
    with model True show ?thesis
      unfolding modelFiles_def by simp
  next
    case False
    have "stagedRun (completedStage env opts ingested) opts
       (bnd (callAndMonitorAsync (generateModelFile env opts defs) ''Generate model file'')
            (\<lambda>modelFile. ret ()))
       ([''Generate model file''] @ []) [] (\<lambda>_. True)"
      by (rule stagedRun_bnd [OF stage]) (simp add: stagedRun_ret)
    with model False show ?thesis
      unfolding modelFiles_def by simp
  qed
qed

lemma compileTypeScriptToJS_events:
  assumes "compileTypeScriptToJS env outDir icons barrel selected st = (Inr u, st')"
  shows "\<exists>paths w.
      getFilePathsFromRegex env [outDir @ ''/'' @ icons @ ''/*.ts'', outDir @ ''/'' @ barrel @ ''.ts'']
        (world st) = (Inr paths, w)
      \<and> trace st' = trace st @
          Performed (GetFilePathsFromRegex
                       [outDir @ ''/'' @ icons @ ''/*.ts'', outDir @ ''/'' @ barrel @ ''.ts''])
          # (case selected of
               ESM \<Rightarrow> [Performed (CompileToEsNext paths outDir), Performed (DeleteFiles paths)]
             | UMD \<Rightarrow> [Performed (CompileToUMD paths outDir), Performed (DeleteFiles paths)]
             | ESM_AND_UMD \<Rightarrow>
                 [Performed (CompileToEsNext paths (outDir @ ''/esm'')),
                  Performed (CompileToUMD paths (outDir @ ''/umd'')),
                  Performed (DeleteFiles paths),
                  Performed (DeleteFolder (outDir @ ''/build''))]
             | Unrecognized v \<Rightarrow> [LogError (invalidCompilationOutput v)])"
  using assms
  by (cases selected)
     (auto simp: compileTypeScriptToJS_def bnd_Inr io_defs perform_Inr emit_eq)

lemma compileGenerated_staged:
  "stagedRun (completedStage env opts ingested) opts (compileGenerated env opts)
     (if compileSources opts then [''Compile TypeScript to JavaScript''] else []) [] (\<lambda>_. True)"
proof (cases "compileSources opts")
  case True
  have "stagedRun (completedStage env opts ingested) opts
     (callAndMonitorAsync
        (compileTypeScriptToJS env (outputDirectory opts) (iconsFolderName opts)
           (barrelFileName opts) (compilationOutput opts))
        ''Compile TypeScript to JavaScript'')
     [''Compile TypeScript to JavaScript''] [] (\<lambda>_. True)"
  proof (rule stagedRun_stage [OF bodyRun_compileTypeScriptToJS])
    fix st x st' evs
    assume run: "compileTypeScriptToJS env (outputDirectory opts) (iconsFolderName opts)
                   (barrelFileName opts) (compilationOutput opts) st = (Inr x, st')"
      and tr: "trace st' = trace st @ evs"
    from compileTypeScriptToJS_events [OF run] obtain paths w where
      "getFilePathsFromRegex env
          [outputDirectory opts @ ''/'' @ iconsFolderName opts @ ''/*.ts'',
           outputDirectory opts @ ''/'' @ barrelFileName opts @ ''.ts''] (world st) = (Inr paths, w)"
      "trace st' = trace st @
          Performed (GetFilePathsFromRegex
                       [outputDirectory opts @ ''/'' @ iconsFolderName opts @ ''/*.ts'',
                        outputDirectory opts @ ''/'' @ barrelFileName opts @ ''.ts''])
          # (case compilationOutput opts of
               ESM \<Rightarrow> [Performed (CompileToEsNext paths (outputDirectory opts)),
                       Performed (DeleteFiles paths)]
             | UMD \<Rightarrow> [Performed (CompileToUMD paths (outputDirectory opts)),
                       Performed (DeleteFiles paths)]
             | ESM_AND_UMD \<Rightarrow>
                 [Performed (CompileToEsNext paths (outputDirectory opts @ ''/esm'')),
                  Performed (CompileToUMD paths (outputDirectory opts @ ''/umd'')),
                  Performed (DeleteFiles paths),
                  Performed (DeleteFolder (outputDirectory opts @ ''/build''))]
             | Unrecognized v \<Rightarrow> [LogError (invalidCompilationOutput v)])"
      by blast
    with tr have "completedStage env opts ingested (''Compile TypeScript to JavaScript'', evs)"
      unfolding completedStage_compile by auto
    then show "completedStage env opts ingested (''Compile TypeScript to JavaScript'', evs) \<and> True"
      by simp
  qed
  with True show ?thesis
    unfolding compileGenerated_def by simp
next
  case False
  then show ?thesis
    unfolding compileGenerated_def by (simp add: stagedRun_ret)
qed

text \<open>The pipeline after the ingestion: up to the barrel file, and from there on.\<close>

lemma generateConstants_onwards_staged:
  "stagedRun (completedStage env opts ingested) opts
     (bnd (generateConstants env opts ingested) (\<lambda>(perIconNames, svgDefinitions).
      bnd (exportCompleteSet env opts perIconNames svgDefinitions) (\<lambda>generatedFileNames.
      ret (generatedFileNames, svgDefinitions))))
     ([if tsx opts then ''Generate TSX constants'' else ''Generate SVG constants'']
      @ (if exportCompleteIconSet opts then [''Export complete icon set''] else []) @ []) []
     (\<lambda>(names, defs).
        defs = (if tsx opts then map (capitalizeVariableName env) ingested else ingested)
        \<and> (\<exists>perIcon. names = perIcon @ (if exportCompleteIconSet opts then [completeIconSetName opts] else [])
              \<and> (if tsx opts then mset perIcon = mset (map generatedFileName ingested)
                  else perIcon = map generatedFileName ingested)))"
proof (rule stagedRun_bnd [OF generateConstants_staged])
  fix x :: "string list \<times> SvgDefinition list"
  assume "case x of (perIcon, defs) \<Rightarrow>
        defs = (if tsx opts then map (capitalizeVariableName env) ingested else ingested)
        \<and> (if tsx opts then mset perIcon = mset (map generatedFileName ingested)
           else perIcon = map generatedFileName ingested)"
  then obtain perIcon defs where x: "x = (perIcon, defs)"
    and defs: "defs = (if tsx opts then map (capitalizeVariableName env) ingested else ingested)"
    and perIcon: "if tsx opts then mset perIcon = mset (map generatedFileName ingested)
           else perIcon = map generatedFileName ingested"
    by (cases x) auto
  have "stagedRun (completedStage env opts ingested) opts
     (bnd (exportCompleteSet env opts perIcon defs) (\<lambda>generatedFileNames.
      ret (generatedFileNames, defs)))
     ((if exportCompleteIconSet opts then [''Export complete icon set''] else []) @ []) []
     (\<lambda>(names, defs').
        defs' = (if tsx opts then map (capitalizeVariableName env) ingested else ingested)
        \<and> (\<exists>perIcon. names = perIcon @ (if exportCompleteIconSet opts then [completeIconSetName opts] else [])
              \<and> (if tsx opts then mset perIcon = mset (map generatedFileName ingested)
                  else perIcon = map generatedFileName ingested)))"
  proof (rule stagedRun_bnd [OF exportCompleteSet_staged [OF defs]])
    fix names
    assume "names = perIcon @ (if exportCompleteIconSet opts then [completeIconSetName opts] else [])"
    with defs perIcon show "stagedRun (completedStage env opts ingested) opts
        (ret (names, defs)) [] []
        (\<lambda>(names, defs').
           defs' = (if tsx opts then map (capitalizeVariableName env) ingested else ingested)
           \<and> (\<exists>perIcon. names = perIcon @ (if exportCompleteIconSet opts then [completeIconSetName opts] else [])
                 \<and> (if tsx opts then mset perIcon = mset (map generatedFileName ingested)
                     else perIcon = map generatedFileName ingested)))"
      by (intro stagedRun_ret) auto
  qed
  then show "stagedRun (completedStage env opts ingested) opts
     (case x of (perIconNames, svgDefinitions) \<Rightarrow>
        bnd (exportCompleteSet env opts perIconNames svgDefinitions) (\<lambda>generatedFileNames.
        ret (generatedFileNames, svgDefinitions)))
     ((if exportCompleteIconSet opts then [''Export complete icon set''] else []) @ []) []
     (\<lambda>(names, defs).
        defs = (if tsx opts then map (capitalizeVariableName env) ingested else ingested)
        \<and> (\<exists>perIcon. names = perIcon @ (if exportCompleteIconSet opts then [completeIconSetName opts] else [])
              \<and> (if tsx opts then mset perIcon = mset (map generatedFileName ingested)
                  else perIcon = map generatedFileName ingested)))"
    unfolding x by simp
qed

lemma barrelFile_onwards_staged:
  assumes "defs = (if tsx opts then map (capitalizeVariableName env) ingested else ingested)"
    and "if tsx opts then mset perIcon = mset (map generatedFileName ingested)
         else perIcon = map generatedFileName ingested"
  shows "stagedRun (completedStage env opts ingested) opts
     (bnd (barrelFile env opts
             (perIcon @ (if exportCompleteIconSet opts then [completeIconSetName opts] else []))) (\<lambda>_.
      bnd (modelFiles env opts defs) (\<lambda>_.
      bnd (compileGenerated env opts) (\<lambda>_.
      bnd (emit (LogGenerationSuccess (outputDirectory opts))) (\<lambda>_.
      ret defs)))))
     (([''Generate Type Helper''] @ [''Generate barrel file''])
      @ (if truthy (modelFileName opts)
         then [''Generate model file'']
              @ (if truthy (additionalModelOutputPath opts)
                 then [''Write model file to additional output path''] else [])
         else [])
      @ (if compileSources opts then [''Compile TypeScript to JavaScript''] else [])
      @ [])
     [LogGenerationSuccess (outputDirectory opts)] (\<lambda>_. True)"
proof (rule stagedRun_bnd [OF barrelFile_staged [OF assms(2)]])
  show "stagedRun (completedStage env opts ingested) opts
     (bnd (modelFiles env opts defs) (\<lambda>_.
      bnd (compileGenerated env opts) (\<lambda>_.
      bnd (emit (LogGenerationSuccess (outputDirectory opts))) (\<lambda>_.
      ret defs))))
     ((if truthy (modelFileName opts)
         then [''Generate model file'']
              @ (if truthy (additionalModelOutputPath opts)
                 then [''Write model file to additional output path''] else [])
         else [])
      @ (if compileSources opts then [''Compile TypeScript to JavaScript''] else [])
      @ [])
     [LogGenerationSuccess (outputDirectory opts)] (\<lambda>_. True)"
  proof (rule stagedRun_bnd [OF modelFiles_staged [OF assms(1)]])
    show "stagedRun (completedStage env opts ingested) opts
       (bnd (compileGenerated env opts) (\<lambda>_.
        bnd (emit (LogGenerationSuccess (outputDirectory opts))) (\<lambda>_.
        ret defs)))
       ((if compileSources opts then [''Compile TypeScript to JavaScript''] else []) @ [])
       [LogGenerationSuccess (outputDirectory opts)] (\<lambda>_. True)"
      by (rule stagedRun_bnd [OF compileGenerated_staged]) (simp add: stagedRun_closing)
  qed
qed

lemma bnd_bnd_Inl: "m st = (Inl e, st1) \<Longrightarrow> bnd (bnd m f) g st = (Inl e, st1)"
  by (simp add: bnd_def)

lemma bnd_bnd_Inr: "m st = (Inr x, st1) \<Longrightarrow> bnd (bnd m f) g st = bnd (f x) g st1"
  by (simp add: bnd_def)

lemma ingestedBy_ingest:
  assumes "ingest env opts st = (Inr ingested, st1)"
  shows "ingestedBy env opts st = ingested"
proof -
  from ingest_Inr [OF assms] obtain w0 w1 where
    "deleteFolder env (outputDirectory opts @ ''/'' @ iconsFolderName opts) (world st) = (Inr (), w0)"
    "filesProcessor env opts w0 = (Inr ingested, w1)"
    by blast
  then show ?thesis
    by (simp add: ingestedBy_def)
qed

text \<open>The stages of a whole run, for the definitions this run ingests.\<close>

lemma convertToFiles_staged:
  assumes "convertToFiles env opts st = (r, st')"
  shows "\<exists>evs. trace st' = trace st @ evs
     \<and> staged (completedStage env opts (ingestedBy env opts st)) opts
         (([''Deleting the output folder''] @ [''Processing SVG files''])
          @ ([if tsx opts then ''Generate TSX constants'' else ''Generate SVG constants'']
             @ (if exportCompleteIconSet opts then [''Export complete icon set''] else []) @ [])
          @ (([''Generate Type Helper''] @ [''Generate barrel file''])
             @ (if truthy (modelFileName opts)
                then [''Generate model file'']
                     @ (if truthy (additionalModelOutputPath opts)
                        then [''Write model file to additional output path''] else [])
                else [])
             @ (if compileSources opts then [''Compile TypeScript to JavaScript''] else [])
             @ []))
         [LogGenerationSuccess (outputDirectory opts)] r evs"
proof -
  let ?P = "completedStage env opts (ingestedBy env opts st)"
  obtain ra sa where a: "ingest env opts st = (ra, sa)"
    by (cases "ingest env opts st")
  from stagedRunD(1) [OF ingest_staged a, of "ingestedBy env opts st"]
  obtain evs1 where tr1: "trace sa = trace st @ evs1"
    and sg1: "staged ?P opts ([''Deleting the output folder''] @ [''Processing SVG files'']) [] ra evs1"
    by blast
  show ?thesis
  proof (cases ra)
    case (Inl e)
    have "convertToFiles env opts st = (Inl e, sa)"
      unfolding convertToFiles_def generatedFiles_def
      using a [unfolded Inl] by (rule bnd_bnd_Inl [where m = "ingest env opts"])
    with assms have r: "r = Inl e" "st' = sa" by simp_all
    from sg1 show ?thesis
      unfolding Inl r using tr1 by (blast intro: staged_Inl_append)
  next
    case (Inr ingested)
    have ing: "ingestedBy env opts st = ingested"
      using a unfolding Inr by (rule ingestedBy_ingest)
    have "convertToFiles env opts st =
        bnd (bnd (generateConstants env opts ingested) (\<lambda>(perIconNames, svgDefinitions).
             bnd (exportCompleteSet env opts perIconNames svgDefinitions) (\<lambda>generatedFileNames.
             ret (generatedFileNames, svgDefinitions))))
            (\<lambda>(generatedFileNames, svgDefinitions).
             bnd (barrelFile env opts generatedFileNames) (\<lambda>_.
             bnd (modelFiles env opts svgDefinitions) (\<lambda>_.
             bnd (compileGenerated env opts) (\<lambda>_.
             bnd (emit (LogGenerationSuccess (outputDirectory opts))) (\<lambda>_.
             ret svgDefinitions))))) sa"
      unfolding convertToFiles_def generatedFiles_def
      using a [unfolded Inr] by (rule bnd_bnd_Inr [where m = "ingest env opts"])
    with assms have rest:
       "bnd (bnd (generateConstants env opts ingested) (\<lambda>(perIconNames, svgDefinitions).
             bnd (exportCompleteSet env opts perIconNames svgDefinitions) (\<lambda>generatedFileNames.
             ret (generatedFileNames, svgDefinitions))))
            (\<lambda>(generatedFileNames, svgDefinitions).
             bnd (barrelFile env opts generatedFileNames) (\<lambda>_.
             bnd (modelFiles env opts svgDefinitions) (\<lambda>_.
             bnd (compileGenerated env opts) (\<lambda>_.
             bnd (emit (LogGenerationSuccess (outputDirectory opts))) (\<lambda>_.
             ret svgDefinitions))))) sa = (r, st')"
      by simp
    have "stagedRun (completedStage env opts ingested) opts
        (bnd (bnd (generateConstants env opts ingested) (\<lambda>(perIconNames, svgDefinitions).
             bnd (exportCompleteSet env opts perIconNames svgDefinitions) (\<lambda>generatedFileNames.
             ret (generatedFileNames, svgDefinitions))))
            (\<lambda>(generatedFileNames, svgDefinitions).
             bnd (barrelFile env opts generatedFileNames) (\<lambda>_.
             bnd (modelFiles env opts svgDefinitions) (\<lambda>_.
             bnd (compileGenerated env opts) (\<lambda>_.
             bnd (emit (LogGenerationSuccess (outputDirectory opts))) (\<lambda>_.
             ret svgDefinitions))))))
        (([if tsx opts then ''Generate TSX constants'' else ''Generate SVG constants'']
             @ (if exportCompleteIconSet opts then [''Export complete icon set''] else []) @ [])
          @ (([''Generate Type Helper''] @ [''Generate barrel file''])
             @ (if truthy (modelFileName opts)
                then [''Generate model file'']
                     @ (if truthy (additionalModelOutputPath opts)
                        then [''Write model file to additional output path''] else [])
                else [])
             @ (if compileSources opts then [''Compile TypeScript to JavaScript''] else [])
             @ []))
        [LogGenerationSuccess (outputDirectory opts)] (\<lambda>_. True)"
    proof (rule stagedRun_bnd [OF generateConstants_onwards_staged])
      fix x :: "string list \<times> SvgDefinition list"
      assume "case x of (names, defs) \<Rightarrow>
        defs = (if tsx opts then map (capitalizeVariableName env) ingested else ingested)
        \<and> (\<exists>perIcon. names = perIcon @ (if exportCompleteIconSet opts then [completeIconSetName opts] else [])
              \<and> (if tsx opts then mset perIcon = mset (map generatedFileName ingested)
                  else perIcon = map generatedFileName ingested))"
      then obtain perIcon defs where
        x: "x = (perIcon @ (if exportCompleteIconSet opts then [completeIconSetName opts] else []), defs)"
        and defs: "defs = (if tsx opts then map (capitalizeVariableName env) ingested else ingested)"
        and perIcon: "if tsx opts then mset perIcon = mset (map generatedFileName ingested)
           else perIcon = map generatedFileName ingested"
        by (cases x) auto
      from barrelFile_onwards_staged [OF defs perIcon]
      show "stagedRun (completedStage env opts ingested) opts
         (case x of (generatedFileNames, svgDefinitions) \<Rightarrow>
             bnd (barrelFile env opts generatedFileNames) (\<lambda>_.
             bnd (modelFiles env opts svgDefinitions) (\<lambda>_.
             bnd (compileGenerated env opts) (\<lambda>_.
             bnd (emit (LogGenerationSuccess (outputDirectory opts))) (\<lambda>_.
             ret svgDefinitions)))))
         (([''Generate Type Helper''] @ [''Generate barrel file''])
             @ (if truthy (modelFileName opts)
                then [''Generate model file'']
                     @ (if truthy (additionalModelOutputPath opts)
                        then [''Write model file to additional output path''] else [])
                else [])
             @ (if compileSources opts then [''Compile TypeScript to JavaScript''] else [])
             @ [])
         [LogGenerationSuccess (outputDirectory opts)] (\<lambda>_. True)"
        unfolding x by simp
    qed
    from stagedRunD(1) [OF this rest] obtain evs2 where
      tr2: "trace st' = trace sa @ evs2"
      and sg2: "staged (completedStage env opts ingested) opts
        (([if tsx opts then ''Generate TSX constants'' else ''Generate SVG constants'']
             @ (if exportCompleteIconSet opts then [''Export complete icon set''] else []) @ [])
          @ (([''Generate Type Helper''] @ [''Generate barrel file''])
             @ (if truthy (modelFileName opts)
                then [''Generate model file'']
                     @ (if truthy (additionalModelOutputPath opts)
                        then [''Write model file to additional output path''] else [])
                else [])
             @ (if compileSources opts then [''Compile TypeScript to JavaScript''] else [])
             @ []))
        [LogGenerationSuccess (outputDirectory opts)] r evs2"
      by blast
    from sg1 [unfolded Inr ing] sg2 have "staged (completedStage env opts ingested) opts
         (([''Deleting the output folder''] @ [''Processing SVG files''])
          @ ([if tsx opts then ''Generate TSX constants'' else ''Generate SVG constants'']
             @ (if exportCompleteIconSet opts then [''Export complete icon set''] else []) @ [])
          @ (([''Generate Type Helper''] @ [''Generate barrel file''])
             @ (if truthy (modelFileName opts)
                then [''Generate model file'']
                     @ (if truthy (additionalModelOutputPath opts)
                        then [''Write model file to additional output path''] else [])
                else [])
             @ (if compileSources opts then [''Compile TypeScript to JavaScript''] else [])
             @ []))
         [LogGenerationSuccess (outputDirectory opts)] r (evs1 @ evs2)"
      by (rule staged_Inr_append)
    with tr1 tr2 show ?thesis
      unfolding ing by auto
  qed
qed





lemma exampleFullRun:
  "convertToFiles exampleEnv (exampleWith ESM_AND_UMD) (exampleState 100 [1])
     = (Inr exampleIcons,
        exampleAt 86 (exampleFilesTrace ESM_AND_UMD @ exampleBarrelTrace @ exampleModelTrace
                      @ exampleCompileTrace @ [LogGenerationSuccess ''out'']))"
  by (simp add: run_defs exampleWith_def exampleFilesTrace_def exampleBarrelTrace_def
      exampleModelTrace_def exampleCompileTrace_def exampleAt_def)

lemma exampleFailingRun:
  "convertToFiles exampleEnv (exampleWith ESM_AND_UMD) (exampleState 6 [1])
     = (Inl (Thrown ''EIO''),
        exampleAt 0 (exampleFilesTrace ESM_AND_UMD @ exampleBarrelTrace
                     @ [StageStart ''Generate model file'',
                        Failed (WriteFile ''out/icons'' (Some ''model'') ''type;interface;enum;'' None)
                          (Thrown ''EIO'')]))"
  by (simp add: run_defs exampleWith_def exampleFilesTrace_def exampleBarrelTrace_def exampleAt_def)

lemma exampleWith_fields:
  "outputDirectory (exampleWith selected) = ''out''"
  "tsx (exampleWith selected) = False"
  "exportCompleteIconSet (exampleWith selected) = True"
  "modelFileName (exampleWith selected) = Some ''model''"
  "additionalModelOutputPath (exampleWith selected) = Some ''extra''"
  "compileSources (exampleWith selected) = True"
  by (simp_all add: exampleWith_def exampleOptions_def)

subsection \<open>One file per icon (C2)\<close>





subsection \<open>TSX mode against SVG mode (C3)\<close>






subsection \<open>Stages, in order and fail-fast (C7)\<close>

text \<open>
  C7. The stages of a run are, in this order: the reset of the icons folder, the ingestion,
  the per-icon files (by the generator of the mode), the complete icon set (only when
  \<open>exportCompleteIconSet\<close> is set), the type helper and the barrel file, the model file and
  its copy (only when a model file name, respectively a model file name and an additional
  path, are configured), the compilation (only when \<open>compileSources\<close> is set). For every run
  of \<open>convertToFiles\<close>, whatever the collaborators do and in whatever order the concurrent
  operations settle, and with \<open>ingested\<close> the definitions that this run ingests:
  \<^item> when it returns, the trace it has added is one block per stage, in that order, each
    block being the stage's start, what the completed stage does (\<open>completedStage\<close>: the
    icons folder deleted; \<open>filesProcessor\<close> called; one file written per ingested
    definition; the complete icon set written; the barrel file written with the export of
    every per-icon name; the model file written, and copied; the paths looked up, compiled
    and deleted as the selector asks), and the stage's end; then the success line;
  \<^item> when it throws \<open>e\<close>, the trace is such blocks, each with all that its stage does, for
    the stages before some stage, then that stage's start, returned calls of that stage, and
    last the call of that stage that threw \<open>e\<close>: no later stage has started and there is no
    success line.
\<close>

theorem stages_run_in_order_and_fail_fast:
  assumes "convertToFiles env opts st = (r, st')"
  shows "let order =
               [''Deleting the output folder'', ''Processing SVG files'',
                if tsx opts then ''Generate TSX constants'' else ''Generate SVG constants'']
               @ (if exportCompleteIconSet opts then [''Export complete icon set''] else [])
               @ [''Generate Type Helper'', ''Generate barrel file'']
               @ (if truthy (modelFileName opts)
                  then [''Generate model file'']
                       @ (if truthy (additionalModelOutputPath opts)
                          then [''Write model file to additional output path''] else [])
                  else [])
               @ (if compileSources opts then [''Compile TypeScript to JavaScript''] else []);
             ingested = ingestedBy env opts st
         in (case r of
               Inr _ \<Rightarrow>
                 (\<exists>stages. map fst stages = order
                    \<and> list_all (completedStage env opts ingested) stages
                    \<and> newEvents st st' = concat (map stageBlock stages)
                                          @ [LogGenerationSuccess (outputDirectory opts)])
             | Inl e \<Rightarrow>
                 (\<exists>stages l body c later.
                    order = map fst stages @ l # later
                    \<and> list_all (completedStage env opts ingested) stages
                    \<and> list_all (inStage opts l) body \<and> stageCall opts l c
                    \<and> newEvents st st' = concat (map stageBlock stages)
                                          @ StageStart l # body @ [Failed c e]))"
proof -
  from convertToFiles_staged [OF assms] obtain evs where
    tr: "trace st' = trace st @ evs"
    and staged: "staged (completedStage env opts (ingestedBy env opts st)) opts
         (([''Deleting the output folder''] @ [''Processing SVG files''])
          @ ([if tsx opts then ''Generate TSX constants'' else ''Generate SVG constants'']
             @ (if exportCompleteIconSet opts then [''Export complete icon set''] else []) @ [])
          @ (([''Generate Type Helper''] @ [''Generate barrel file''])
             @ (if truthy (modelFileName opts)
                then [''Generate model file'']
                     @ (if truthy (additionalModelOutputPath opts)
                        then [''Write model file to additional output path''] else [])
                else [])
             @ (if compileSources opts then [''Compile TypeScript to JavaScript''] else [])
             @ []))
         [LogGenerationSuccess (outputDirectory opts)] r evs"
    by blast
  have new: "newEvents st st' = evs"
    using tr by (rule newEvents_append)
  have "([''Deleting the output folder''] @ [''Processing SVG files''])
          @ ([if tsx opts then ''Generate TSX constants'' else ''Generate SVG constants'']
             @ (if exportCompleteIconSet opts then [''Export complete icon set''] else []) @ [])
          @ (([''Generate Type Helper''] @ [''Generate barrel file''])
             @ (if truthy (modelFileName opts)
                then [''Generate model file'']
                     @ (if truthy (additionalModelOutputPath opts)
                        then [''Write model file to additional output path''] else [])
                else [])
             @ (if compileSources opts then [''Compile TypeScript to JavaScript''] else [])
             @ [])
    = [''Deleting the output folder'', ''Processing SVG files'',
                if tsx opts then ''Generate TSX constants'' else ''Generate SVG constants'']
               @ (if exportCompleteIconSet opts then [''Export complete icon set''] else [])
               @ [''Generate Type Helper'', ''Generate barrel file'']
               @ (if truthy (modelFileName opts)
                  then [''Generate model file'']
                       @ (if truthy (additionalModelOutputPath opts)
                          then [''Write model file to additional output path''] else [])
                  else [])
               @ (if compileSources opts then [''Compile TypeScript to JavaScript''] else [])"
    by simp
  with staged have "staged (completedStage env opts (ingestedBy env opts st)) opts
     ([''Deleting the output folder'', ''Processing SVG files'',
                if tsx opts then ''Generate TSX constants'' else ''Generate SVG constants'']
               @ (if exportCompleteIconSet opts then [''Export complete icon set''] else [])
               @ [''Generate Type Helper'', ''Generate barrel file'']
               @ (if truthy (modelFileName opts)
                  then [''Generate model file'']
                       @ (if truthy (additionalModelOutputPath opts)
                          then [''Write model file to additional output path''] else [])
                  else [])
               @ (if compileSources opts then [''Compile TypeScript to JavaScript''] else []))
     [LogGenerationSuccess (outputDirectory opts)] r evs"
    by (simp only:)
  then show ?thesis
    unfolding staged_def Let_def new .
qed

lemma exampleIngested:
  "ingestedBy exampleEnv (exampleWith selected) (exampleState (Suc (Suc budget)) choices) = exampleIcons"
  by (simp add: ingestedBy_def exampleEnv_def exampleWith_def exampleOptions_def exampleState_def
      budgeted_def)

text \<open>The example: a run with a budget for every call, and a run whose budget ends with
  the barrel file, so that the write of the model file throws. In both the two icons are
  ingested.\<close>

theorem stages_run_in_order_and_fail_fast_witness:
  "convertToFiles exampleEnv (exampleWith ESM_AND_UMD) (exampleState 100 [1])
     = (Inr exampleIcons,
        exampleAt 86 (exampleFilesTrace ESM_AND_UMD @ exampleBarrelTrace @ exampleModelTrace
                      @ exampleCompileTrace @ [LogGenerationSuccess ''out'']))
   \<and> ingestedBy exampleEnv (exampleWith ESM_AND_UMD) (exampleState 100 [1]) = exampleIcons
   \<and> (\<exists>stages.
         map fst stages
           = [''Deleting the output folder'', ''Processing SVG files'', ''Generate SVG constants'',
              ''Export complete icon set'', ''Generate Type Helper'', ''Generate barrel file'',
              ''Generate model file'', ''Write model file to additional output path'',
              ''Compile TypeScript to JavaScript'']
       \<and> list_all (completedStage exampleEnv (exampleWith ESM_AND_UMD) exampleIcons) stages
       \<and> newEvents (exampleState 100 [1])
            (exampleAt 86 (exampleFilesTrace ESM_AND_UMD @ exampleBarrelTrace @ exampleModelTrace
                           @ exampleCompileTrace @ [LogGenerationSuccess ''out'']))
           = concat (map stageBlock stages) @ [LogGenerationSuccess ''out''])
   \<and> convertToFiles exampleEnv (exampleWith ESM_AND_UMD) (exampleState 6 [1])
     = (Inl (Thrown ''EIO''),
        exampleAt 0 (exampleFilesTrace ESM_AND_UMD @ exampleBarrelTrace
                     @ [StageStart ''Generate model file'',
                        Failed (WriteFile ''out/icons'' (Some ''model'') ''type;interface;enum;'' None)
                          (Thrown ''EIO'')]))
   \<and> ingestedBy exampleEnv (exampleWith ESM_AND_UMD) (exampleState 6 [1]) = exampleIcons
   \<and> (\<exists>stages l body c later.
         [''Deleting the output folder'', ''Processing SVG files'', ''Generate SVG constants'',
          ''Export complete icon set'', ''Generate Type Helper'', ''Generate barrel file'',
          ''Generate model file'', ''Write model file to additional output path'',
          ''Compile TypeScript to JavaScript'']
           = map fst stages @ l # later
       \<and> list_all (completedStage exampleEnv (exampleWith ESM_AND_UMD) exampleIcons) stages
       \<and> list_all (inStage (exampleWith ESM_AND_UMD) l) body
       \<and> stageCall (exampleWith ESM_AND_UMD) l c
       \<and> newEvents (exampleState 6 [1])
            (exampleAt 0 (exampleFilesTrace ESM_AND_UMD @ exampleBarrelTrace
                          @ [StageStart ''Generate model file'',
                             Failed (WriteFile ''out/icons'' (Some ''model'') ''type;interface;enum;'' None)
                               (Thrown ''EIO'')]))
           = concat (map stageBlock stages) @ StageStart l # body @ [Failed c (Thrown ''EIO'')])"
proof -
  have ingested: "ingestedBy exampleEnv (exampleWith ESM_AND_UMD) (exampleState 100 [1]) = exampleIcons"
    "ingestedBy exampleEnv (exampleWith ESM_AND_UMD) (exampleState 6 [1]) = exampleIcons"
    using exampleIngested [of ESM_AND_UMD 98 "[1]"] exampleIngested [of ESM_AND_UMD 4 "[1]"]
    by (simp_all add: eval_nat_numeral)
  note returned = stages_run_in_order_and_fail_fast [OF exampleFullRun]
  note thrown = stages_run_in_order_and_fail_fast [OF exampleFailingRun]
  from returned thrown exampleFullRun exampleFailingRun ingested show ?thesis
    unfolding Let_def exampleWith_fields by (simp del: append_assoc)
qed

end
